theory Spec2Isabelle
  imports Complex_Main "HOL-Library.AList"
begin

section \<open>JavaScript values\<close>

text \<open>
  The values that flow through the service are JSON documents (provider responses,
  request bodies) and the absent value \<open>undefined\<close>. A number is a double; the model
  keeps the exact rational of a finite one and identifies \<open>+0\<close> and \<open>-0\<close>, which
  \<open>===\<close> does not tell apart either. A string is the list of the bytes of its UTF-8
  encoding. An object is the list of its own properties, each key once (were a key
  repeated, its first entry is the property).
\<close>

datatype jsnum = NaN | PosInf | NegInf | Fin rat

datatype jsval =
    JUndefined
  | JNull
  | JBool bool
  | JNum jsnum
  | JStr string
  | JArr "jsval list"
  | JObj "(string \<times> jsval) list"

text \<open>An exception that leaves a function: a thrown error is the \<open>Inl\<close> of a result.\<close>

datatype js_exn = TypeError | Thrown string

text \<open>
  What the platform supplies and this repository only calls: the numeric reading of a
  string (\<open>Number("...")\<close>), the rendering of a number (\<open>String(n)\<close>), the integer
  reading of the rendering of a number (\<open>Number.parseInt(String(n), 10)\<close>, an integer
  or \<open>NaN\<close>, which is \<open>None\<close>: the rendering of a number is short, so its reading
  is never infinite), \<open>Number.parseFloat\<close>, the two case conversions of strings, and
  the two digests of Node's \<open>crypto\<close> module, both as lowercase hex. They are
  parameters: every theorem holds for whatever functions the platform implements.
\<close>

type_synonym jsint = "int option"

record platform =
  StringToNumber :: "string \<Rightarrow> jsnum"
  NumberToString :: "jsnum \<Rightarrow> string"
  reparseInt :: "jsnum \<Rightarrow> jsint"
  parseFloat :: "string \<Rightarrow> jsnum"
  toUpperCase :: "string \<Rightarrow> string"
  toLowerCase :: "string \<Rightarrow> string"
  md5_hex :: "string \<Rightarrow> string"
  sha256_hex :: "string \<Rightarrow> string"

text \<open>Truthiness, as \<open>!v\<close>, \<open>v && ...\<close> and \<open>v || ...\<close> read it.\<close>

fun truthy :: "jsval \<Rightarrow> bool" where
  "truthy JUndefined = False"
| "truthy JNull = False"
| "truthy (JBool b) = b"
| "truthy (JNum n) = (n \<noteq> NaN \<and> n \<noteq> Fin 0)"
| "truthy (JStr s) = (s \<noteq> [])"
| "truthy (JArr xs) = True"
| "truthy (JObj fs) = True"

text \<open>\<open>typeof v === 'object'\<close>: objects, arrays and \<open>null\<close>.\<close>

fun typeof_object :: "jsval \<Rightarrow> bool" where
  "typeof_object JNull = True"
| "typeof_object (JArr xs) = True"
| "typeof_object (JObj fs) = True"
| "typeof_object v = False"

text \<open>
  Property read \<open>v.k\<close> on a value that is neither \<open>null\<close> nor \<open>undefined\<close> (on those
  the read throws, which the callers below write out). Only named fields of JSON
  objects are ever read; every other value has none of them.
\<close>

fun get_prop :: "jsval \<Rightarrow> string \<Rightarrow> jsval" where
  "get_prop (JObj fs) k = (case map_of fs k of Some v \<Rightarrow> v | None \<Rightarrow> JUndefined)"
| "get_prop v k = JUndefined"

definition nullish :: "jsval \<Rightarrow> bool" where
  "nullish v = (v = JUndefined \<or> v = JNull)"

text \<open>Optional chaining \<open>v?.k\<close>.\<close>

definition opt_prop :: "jsval \<Rightarrow> string \<Rightarrow> jsval" where
  "opt_prop v k = (if nullish v then JUndefined else get_prop v k)"

text \<open>\<open>a || b\<close> and \<open>a ?? b\<close> on values.\<close>

definition js_or :: "jsval \<Rightarrow> jsval \<Rightarrow> jsval" where
  "js_or a b = (if truthy a then a else b)"

definition js_coalesce :: "jsval \<Rightarrow> jsval \<Rightarrow> jsval" where
  "js_coalesce a b = (if nullish a then b else a)"

subsection \<open>Conversion to a string and to a number\<close>

text \<open>
  \<open>String(v)\<close> and \<open>Number(v)\<close> turn an object into a primitive by calling its
  \<open>toString\<close> (and \<open>valueOf\<close>, which on a plain object or an array gives the object
  itself back). A JSON document holds no function, so an object with an own property
  \<open>toString\<close> has nothing to call and the conversion throws a TypeError; every other
  object inherits the \<open>toString\<close> that gives \<open>[object Object]\<close>. An array joins the
  strings of its elements, so it converts when each element does.
\<close>

fun convertible :: "jsval \<Rightarrow> bool" where
  "convertible (JObj fs) = (map_of fs ''toString'' = None)"
| "convertible (JArr xs) = (\<forall>x \<in> set xs. convertible x)"
| "convertible v = True"

fun join_with :: "string \<Rightarrow> string list \<Rightarrow> string" where
  "join_with sep [] = []"
| "join_with sep [s] = s"
| "join_with sep (s # t # ss) = s @ sep @ join_with sep (t # ss)"

text \<open>
  The string of a value that converts. An array joins its elements with commas,
  \<open>null\<close> and \<open>undefined\<close> elements as the empty string.
\<close>

fun string_of :: "platform \<Rightarrow> jsval \<Rightarrow> string" where
  "string_of P JUndefined = ''undefined''"
| "string_of P JNull = ''null''"
| "string_of P (JBool b) = (if b then ''true'' else ''false'')"
| "string_of P (JNum n) = NumberToString P n"
| "string_of P (JStr s) = s"
| "string_of P (JArr xs) =
     join_with '','' (map (\<lambda>x. if x = JUndefined \<or> x = JNull then [] else string_of P x) xs)"
| "string_of P (JObj fs) = ''[object Object]''"

text \<open>The number of a value that converts. Arrays and objects go through their string.\<close>

fun number_of :: "platform \<Rightarrow> jsval \<Rightarrow> jsnum" where
  "number_of P JUndefined = NaN"
| "number_of P JNull = Fin 0"
| "number_of P (JBool b) = (if b then Fin 1 else Fin 0)"
| "number_of P (JNum n) = n"
| "number_of P (JStr s) = StringToNumber P s"
| "number_of P (JArr xs) = StringToNumber P (string_of P (JArr xs))"
| "number_of P (JObj fs) = StringToNumber P (string_of P (JObj fs))"

text \<open>\<open>String(v)\<close>, also the conversion inside a template literal.\<close>

definition to_string :: "platform \<Rightarrow> jsval \<Rightarrow> js_exn + string" where
  "to_string P v = (if convertible v then Inr (string_of P v) else Inl TypeError)"

text \<open>\<open>Number(v)\<close>, also the conversion of an operand of \<open>v > 0\<close>.\<close>

definition to_number :: "platform \<Rightarrow> jsval \<Rightarrow> js_exn + jsnum" where
  "to_number P v = (if convertible v then Inr (number_of P v) else Inl TypeError)"

subsection \<open>Strings\<close>

fun starts_with :: "string \<Rightarrow> string \<Rightarrow> bool" where
  "starts_with [] s = True"
| "starts_with (p # ps) [] = False"
| "starts_with (p # ps) (c # cs) = (p = c \<and> starts_with ps cs)"

text \<open>
  The white space that \<open>trim\<close> strips: the ECMAScript WhiteSpace and LineTerminator
  characters, each as its UTF-8 bytes. These are TAB, LF, VT, FF, CR, SP, U+00A0,
  U+1680, U+2000 to U+200A, U+2028, U+2029, U+202F, U+205F, U+3000 and U+FEFF.
\<close>

definition white_space :: "string list" where
  "white_space =
     map (\<lambda>c. [c]) [CHR 0x09, CHR 0x0A, CHR 0x0B, CHR 0x0C, CHR 0x0D, CHR 0x20]
     @ [CHR 0xC2, CHR 0xA0]
     # [CHR 0xE1, CHR 0x9A, CHR 0x80]
     # map (\<lambda>c. [CHR 0xE2, CHR 0x80, c])
         [CHR 0x80, CHR 0x81, CHR 0x82, CHR 0x83, CHR 0x84, CHR 0x85, CHR 0x86, CHR 0x87,
          CHR 0x88, CHR 0x89, CHR 0x8A, CHR 0xA8, CHR 0xA9, CHR 0xAF]
     @ [CHR 0xE2, CHR 0x81, CHR 0x9F]
     # [CHR 0xE3, CHR 0x80, CHR 0x80]
     # [CHR 0xEF, CHR 0xBB, CHR 0xBF]
     # []"

text \<open>Strip, from the start of a string, every leading occurrence of one of the words.\<close>

function strip_start :: "string list \<Rightarrow> string \<Rightarrow> string" where
  "strip_start ws s =
     (case find (\<lambda>q. q \<noteq> [] \<and> starts_with q s) ws of
        None \<Rightarrow> s
      | Some q \<Rightarrow> strip_start ws (drop (length q) s))"
  by pat_completeness auto
termination
proof (relation "measure (\<lambda>(ws, s). length s)")
  show "wf (measure (\<lambda>(ws, s). length s))" by simp
next
  fix ws :: "string list" and s q :: string
  assume "find (\<lambda>q. q \<noteq> [] \<and> starts_with q s) ws = Some q"
  then have "q \<noteq> []" "starts_with q s" by (auto simp: find_Some_iff)
  then have "s \<noteq> []" by (cases q; cases s) auto
  then show "((ws, drop (length q) s), (ws, s)) \<in> measure (\<lambda>(ws, s). length s)"
    using \<open>q \<noteq> []\<close> by simp
qed

declare strip_start.simps [simp del]

text \<open>
  \<open>s.trim()\<close>: white space is stripped at the start and, read backwards, at the end.
  In UTF-8 no character's bytes end or begin inside another's, so this strips whole
  characters.
\<close>

definition trim :: "string \<Rightarrow> string" where
  "trim s = rev (strip_start (map rev white_space) (rev (strip_start white_space s)))"

text \<open>
  The \<open>i\<close> flag of a regular expression without the \<open>u\<close> flag folds the case of
  ASCII letters only: a character above 127 never matches a letter of the pattern.
\<close>

definition lower_char :: "char \<Rightarrow> char" where
  "lower_char c =
     (if of_char c \<ge> (65::nat) \<and> of_char c \<le> (90::nat) then char_of (of_char c + (32::nat)) else c)"

definition lower :: "string \<Rightarrow> string" where
  "lower s = map lower_char s"

text \<open>An unanchored match of a literal: the literal occurs somewhere in the subject.\<close>

fun contains :: "string \<Rightarrow> string \<Rightarrow> bool" where
  "contains pat [] = (pat = [])"
| "contains pat (c # cs) = (starts_with pat (c # cs) \<or> contains pat cs)"

section \<open>server.js: status classification\<close>

definition pending_patterns :: "string list" where
  "pending_patterns = [''not found'', ''not yet'', ''pending'', ''processing'', ''wait'']"

text \<open>\<open>/(not found|not yet|pending|processing|wait)/i.test(message)\<close>\<close>

definition pending_regex_test :: "string \<Rightarrow> bool" where
  "pending_regex_test message = list_ex (\<lambda>p. contains p (lower message)) pending_patterns"

definition isLikelyPendingMessage :: "jsval \<Rightarrow> bool" where
  "isLikelyPendingMessage message =
     (case message of
        JStr s \<Rightarrow> if trim s = [] then False else pending_regex_test s
      | _ \<Rightarrow> False)"

definition provider_error_codes :: "string list" where
  "provider_error_codes = [''MISSING_TOKEN'', ''TIMEOUT'', ''NETWORK_ERROR'', ''INVALID_RESPONSE'']"

text \<open>
  Both numeric conversions are made before any branch is taken, so either may throw
  whatever the other field holds.
\<close>

definition resolvePaymentStatus :: "platform \<Rightarrow> jsval \<Rightarrow> js_exn + string" where
  "resolvePaymentStatus P result =
     (if \<not> truthy result \<or> \<not> typeof_object result then Inr ''error''
      else
        case to_number P (get_prop result ''responseCode'') of
          Inl ex \<Rightarrow> Inl ex
        | Inr responseCode \<Rightarrow>
            (let errorCode = get_prop result ''errorCode'' in
             case to_number P errorCode of
               Inl ex \<Rightarrow> Inl ex
             | Inr errorCodeNumber \<Rightarrow>
                 (let responseMessage =
                        (case get_prop result ''responseMessage'' of JStr s \<Rightarrow> s | _ \<Rightarrow> [])
                  in
                    if responseCode = Fin 0 then Inr ''completed''
                    else if errorCodeNumber = Fin 3 then Inr ''failed''
                    else if errorCodeNumber = Fin 1 \<or> isLikelyPendingMessage (JStr responseMessage)
                      then Inr ''pending''
                    else
                      case to_string P errorCode of
                        Inl ex \<Rightarrow> Inl ex
                      | Inr code \<Rightarrow>
                          if code \<in> set provider_error_codes then Inr ''error''
                          else if responseCode = Fin (- 1) then Inr ''error''
                          else Inr ''error'')))"

section \<open>The outside world\<close>

text \<open>
  The service reads a setting as \<open>Number.parseInt(String(x), 10)\<close> at each call,
  which is \<open>reparseInt\<close>: the integer written at the start of the rendering of
  \<open>x\<close>, or \<open>NaN\<close> (\<open>None\<close>). Such an integer has at most 21 digits and is rendered
  again, inside a template literal, by the same digits.
\<close>

fun show_nat :: "nat \<Rightarrow> string" where
  "show_nat n =
     (if n < 10 then [char_of (48 + n)] else show_nat (n div 10) @ [char_of (48 + n mod 10)])"

declare show_nat.simps [simp del]

definition show_int :: "int \<Rightarrow> string" where
  "show_int i = (if i < 0 then CHR ''-'' # show_nat (nat (- i)) else show_nat (nat i))"

text \<open>A parsed setting inside a template literal.\<close>

definition show_jsint :: "jsint \<Rightarrow> string" where
  "show_jsint x = (case x of None \<Rightarrow> ''NaN'' | Some i \<Rightarrow> show_int i)"

text \<open>\<open>a <= b\<close> where one side may be \<open>NaN\<close>: every comparison with \<open>NaN\<close> is false.\<close>

definition js_le :: "int \<Rightarrow> jsint \<Rightarrow> bool" where
  "js_le a b = (case b of None \<Rightarrow> False | Some i \<Rightarrow> a \<le> i)"

definition jsint_le :: "jsint \<Rightarrow> int \<Rightarrow> bool" where
  "jsint_le a b = (case a of None \<Rightarrow> False | Some i \<Rightarrow> i \<le> b)"

text \<open>
  A request handed to \<open>fetch\<close>: the method is always POST; the agent is either the
  default one or the service's IPv4-only agent; the abort signal fires after the timeout.
\<close>

record fetch_request =
  url :: string
  headers :: "(string \<times> string) list"
  body :: jsval
  ipv4_agent :: bool
  abort_after :: jsint

text \<open>
  \<open>fetch\<close> either rejects with an error (its \<open>name\<close>, \<open>code\<close> and \<open>message\<close>) or
  resolves to a response, whose \<open>json()\<close> in turn gives a document or rejects (\<open>None\<close>).
  The \<open>code\<close> of an error of \<open>node-fetch\<close> is the string of a system error or is
  absent (\<open>None\<close>).
\<close>

datatype js_error = JsError (err_name: string) (err_code: "string option") (err_message: string)

datatype http_response = HttpResponse (resp_ok: bool) (resp_status: int) (resp_json: "jsval option")

datatype fetch_outcome = Rejected js_error | Responded http_response

text \<open>
  The world outside the process: what the network answers to the \<open>n\<close>-th request, the
  requests issued so far, and the delays slept so far.
\<close>

record world =
  network :: "nat \<Rightarrow> fetch_request \<Rightarrow> fetch_outcome"
  sent :: "fetch_request list"
  slept :: "jsint list"

definition fetch :: "fetch_request \<Rightarrow> world \<Rightarrow> fetch_outcome \<times> world" where
  "fetch req w = (network w (length (sent w)) req, w\<lparr>sent := sent w @ [req]\<rparr>)"

definition sleep :: "jsint \<Rightarrow> world \<Rightarrow> world" where
  "sleep ms w = w\<lparr>slept := slept w @ [ms]\<rparr>"

text \<open>\<open>String(error.code)\<close>\<close>

definition code_string :: "js_error \<Rightarrow> string" where
  "code_string error = (case err_code error of None \<Rightarrow> ''undefined'' | Some c \<Rightarrow> c)"

section \<open>bakongAPI.js: the provider client\<close>

text \<open>
  The constructed service object; \<open>baseUrl\<close> has its trailing slashes removed. The
  five numeric settings are what \<open>Number.parseInt\<close> read off the environment: numbers
  of any size, or \<open>NaN\<close>.
\<close>

record api_service =
  apiToken :: "string option"
  baseUrl :: string
  timeoutMs :: jsnum
  statusTimeoutMs :: jsnum
  deeplinkTimeoutMs :: jsnum
  retryAttempts :: jsnum
  retryDelayMs :: jsnum
  enableIpv4Fallback :: bool

text \<open>
  The \<open>options\<close> argument. A setting that is not given is \<open>None\<close>, and one that is
  given is a number, as in every call of this repository; \<open>forceIpv4\<close> is
  \<open>options.forceIpv4 === true\<close>.
\<close>

record post_options =
  opt_timeoutMs :: "jsnum option"
  opt_retries :: "jsnum option"
  opt_retryDelayMs :: "jsnum option"
  forceIpv4 :: bool
  ipv4FallbackTried :: bool

definition no_options :: post_options where
  "no_options = \<lparr>opt_timeoutMs = None, opt_retries = None, opt_retryDelayMs = None,
     forceIpv4 = False, ipv4FallbackTried = False\<rparr>"

text \<open>\<open>!this.apiToken\<close>: the token is unset or empty.\<close>

definition token_missing :: "string option \<Rightarrow> bool" where
  "token_missing t = (case t of None \<Rightarrow> True | Some s \<Rightarrow> s = [])"

definition isUsingDevEnvironment :: "api_service \<Rightarrow> bool" where
  "isUsingDevEnvironment api = contains ''-dev.'' (baseUrl api)"

definition missing_token_result :: jsval where
  "missing_token_result = JObj
     [(''responseCode'', JNum (Fin (- 1))),
      (''errorCode'', JStr ''MISSING_TOKEN''),
      (''responseMessage'', JStr ''Bakong API token is missing'')]"

definition timeout_result :: "jsint \<Rightarrow> bool \<Rightarrow> jsval" where
  "timeout_result ms fallbackTried = JObj
     [(''responseCode'', JNum (Fin (- 1))),
      (''errorCode'', JStr ''TIMEOUT''),
      (''responseMessage'', JStr
         (if fallbackTried
          then ''Bakong API request timed out after '' @ show_jsint ms @ ''ms (including IPv4 fallback)''
          else ''Bakong API request timed out after '' @ show_jsint ms @ ''ms''))]"

definition network_error_result :: "string \<Rightarrow> jsval" where
  "network_error_result msg = JObj
     [(''responseCode'', JNum (Fin (- 1))),
      (''errorCode'', JStr ''NETWORK_ERROR''),
      (''responseMessage'', JStr (if msg \<noteq> [] then msg else ''Network request failed''))]"

definition invalid_response_result :: "int \<Rightarrow> jsval" where
  "invalid_response_result st = JObj
     [(''responseCode'', JNum (Fin (- 1))),
      (''errorCode'', JStr ''INVALID_RESPONSE''),
      (''responseMessage'', JStr (''Invalid response from Bakong API (HTTP '' @ show_int st @ '')''))]"

definition http_failed_result :: "int \<Rightarrow> jsval \<Rightarrow> jsval" where
  "http_failed_result st result = JObj
     [(''responseCode'', JNum (Fin (- 1))),
      (''errorCode'', JNum (Fin (of_int st))),
      (''responseMessage'', JStr (''Bakong API request failed (HTTP '' @ show_int st @ '')'')),
      (''data'', result)]"

definition retryable_network_codes :: "string list" where
  "retryable_network_codes =
     [''ENETUNREACH'', ''EHOSTUNREACH'', ''ETIMEDOUT'', ''ECONNREFUSED'', ''ECONNRESET'']"

text \<open>
  The local \<open>timeoutMs\<close> of \<open>post\<close>,
  \<open>Number.parseInt(String(options.timeoutMs ?? this.timeoutMs), 10)\<close>: the option if
  given, else the service's setting, read again as an integer.
\<close>

definition effective_timeout :: "platform \<Rightarrow> api_service \<Rightarrow> post_options \<Rightarrow> jsint" where
  "effective_timeout P api options =
     reparseInt P (case opt_timeoutMs options of None \<Rightarrow> timeoutMs api | Some t \<Rightarrow> t)"

definition post_request ::
  "platform \<Rightarrow> api_service \<Rightarrow> string \<Rightarrow> jsval \<Rightarrow> bool \<Rightarrow> post_options \<Rightarrow> fetch_request" where
  "post_request P api endpoint payload requiresAuth options =
     \<lparr>url = baseUrl api @ endpoint,
      headers = (''Content-Type'', ''application/json'')
        # (if requiresAuth
           then [(''Authorization'', ''Bearer '' @ (case apiToken api of Some t \<Rightarrow> t | None \<Rightarrow> ''undefined''))]
           else []),
      body = payload,
      ipv4_agent = forceIpv4 options,
      abort_after = effective_timeout P api options\<rparr>"

text \<open>
  What \<open>post\<close> does with a response: an unparsable body is INVALID_RESPONSE; a response
  that is not ok and carries no \<open>responseCode\<close> is wrapped; reading \<open>responseCode\<close> off
  the document \<open>null\<close> throws.
\<close>

definition post_response :: "http_response \<Rightarrow> js_exn + jsval" where
  "post_response resp =
     (case resp_json resp of
        None \<Rightarrow> Inr (invalid_response_result (resp_status resp))
      | Some result \<Rightarrow>
          if \<not> resp_ok resp then
            (if nullish result then Inl TypeError
             else if get_prop result ''responseCode'' = JUndefined
               then Inr (http_failed_result (resp_status resp) result)
             else Inr result)
          else Inr result)"

function post ::
  "platform \<Rightarrow> api_service \<Rightarrow> string \<Rightarrow> jsval \<Rightarrow> bool \<Rightarrow> post_options \<Rightarrow> world
     \<Rightarrow> (js_exn + jsval) \<times> world" where
  "post P api endpoint payload requiresAuth options w =
     (if requiresAuth \<and> token_missing (apiToken api) then (Inr missing_token_result, w)
      else
        case fetch (post_request P api endpoint payload requiresAuth options) w of
          (Rejected error, w1) \<Rightarrow>
            if (enableIpv4Fallback api \<and> \<not> forceIpv4 options)
               \<and> (err_name error = ''AbortError''
                    \<or> code_string error \<in> set retryable_network_codes)
            then post P api endpoint payload requiresAuth
                   (options\<lparr>forceIpv4 := True, ipv4FallbackTried := True\<rparr>) w1
            else if err_name error = ''AbortError''
            then (Inr (timeout_result (effective_timeout P api options)
                         (ipv4FallbackTried options)), w1)
            else (Inr (network_error_result (err_message error)), w1)
        | (Responded response, w1) \<Rightarrow> (post_response response, w1))"
  by pat_completeness auto
termination
  by (relation "measure (\<lambda>(P, api, endpoint, payload, requiresAuth, options, w).
        if forceIpv4 options then 0 else Suc 0)") auto

declare post.simps [simp del]

definition retry_error_codes :: "string list" where
  "retry_error_codes = [''TIMEOUT'', ''NETWORK_ERROR'', ''INVALID_RESPONSE'']"

text \<open>
  The conjunction is evaluated from the left and stops at the first operand that is
  false; the two conversions may throw.
\<close>

definition isRetryable :: "platform \<Rightarrow> jsval \<Rightarrow> js_exn + bool" where
  "isRetryable P result =
     (if \<not> truthy result then Inr False
      else
        case to_number P (get_prop result ''responseCode'') of
          Inl ex \<Rightarrow> Inl ex
        | Inr responseCode \<Rightarrow>
            if responseCode \<noteq> Fin (- 1) then Inr False
            else
              case to_string P (get_prop result ''errorCode'') of
                Inl ex \<Rightarrow> Inl ex
              | Inr code \<Rightarrow> Inr (code \<in> set retry_error_codes))"

text \<open>
  The \<open>for\<close> loop of \<open>postWithRetry\<close>, entered with \<open>attempt\<close> and the last result. An
  exception of \<open>post\<close> or of \<open>isRetryable\<close> leaves the loop and the function. The
  counter is an exact integer: the counter of the code is a double, which counts
  exactly up to \<open>2^53\<close>, more attempts than a run can make.
\<close>

function retry_loop ::
  "platform \<Rightarrow> api_service \<Rightarrow> string \<Rightarrow> jsval \<Rightarrow> bool \<Rightarrow> post_options
     \<Rightarrow> jsint \<Rightarrow> jsint \<Rightarrow> int \<Rightarrow> jsval \<Rightarrow> world \<Rightarrow> (js_exn + jsval) \<times> world" where
  "retry_loop P api endpoint payload requiresAuth options retries delay attempt result w =
     (if js_le attempt retries then
        (case post P api endpoint payload requiresAuth options (sleep delay w) of
           (Inl e, w1) \<Rightarrow> (Inl e, w1)
         | (Inr result1, w1) \<Rightarrow>
             (case isRetryable P result1 of
                Inl ex \<Rightarrow> (Inl ex, w1)
              | Inr retryable \<Rightarrow>
                  if \<not> retryable then (Inr result1, w1)
                  else retry_loop P api endpoint payload requiresAuth options retries delay
                         (attempt + 1) result1 w1))
      else (Inr result, w))"
  by pat_completeness auto
termination
  by (relation "measure (\<lambda>(P, api, endpoint, payload, requiresAuth, options, retries, delay,
        attempt, result, w). case retries of None \<Rightarrow> 0 | Some r \<Rightarrow> nat (r + 1 - attempt))")
     (auto simp: js_le_def split: option.splits)

declare retry_loop.simps [simp del]

definition postWithRetry ::
  "platform \<Rightarrow> api_service \<Rightarrow> string \<Rightarrow> jsval \<Rightarrow> bool \<Rightarrow> post_options \<Rightarrow> world
     \<Rightarrow> (js_exn + jsval) \<times> world" where
  "postWithRetry P api endpoint payload requiresAuth options w =
     (let retries = reparseInt P
            (case opt_retries options of None \<Rightarrow> retryAttempts api | Some r \<Rightarrow> r);
          delay = reparseInt P
            (case opt_retryDelayMs options of None \<Rightarrow> retryDelayMs api | Some d \<Rightarrow> d)
      in case post P api endpoint payload requiresAuth options w of
           (Inl e, w1) \<Rightarrow> (Inl e, w1)
         | (Inr result, w1) \<Rightarrow>
             (case isRetryable P result of
                Inl ex \<Rightarrow> (Inl ex, w1)
              | Inr retryable \<Rightarrow>
                  if \<not> retryable \<or> jsint_le retries 0 then (Inr result, w1)
                  else retry_loop P api endpoint payload requiresAuth options retries delay 1
                         result w1))"

definition default_sourceInfo :: jsval where
  "default_sourceInfo = JObj
     [(''appIconUrl'', JStr ''https://bakong.nbc.org.kh/images/logo.svg''),
      (''appName'', JStr ''My Shop''),
      (''appDeepLinkCallback'', JStr ''https://yourwebsite.com/payment/success'')]"

definition generateDeeplink ::
  "platform \<Rightarrow> api_service \<Rightarrow> string \<Rightarrow> jsval \<Rightarrow> world \<Rightarrow> (js_exn + jsval) \<times> world" where
  "generateDeeplink P api qr sourceInfo w =
     post P api ''/v1/generate_deeplink_by_qr''
       (JObj [(''qr'', JStr qr), (''sourceInfo'', js_or sourceInfo default_sourceInfo)])
       False (no_options\<lparr>opt_timeoutMs := Some (deeplinkTimeoutMs api)\<rparr>) w"

definition checkTransactionByMD5 ::
  "platform \<Rightarrow> api_service \<Rightarrow> jsval \<Rightarrow> world \<Rightarrow> (js_exn + jsval) \<times> world" where
  "checkTransactionByMD5 P api md5Hash w =
     postWithRetry P api ''/v1/check_transaction_by_md5''
       (JObj [(''md5'', md5Hash)])
       True (no_options\<lparr>opt_timeoutMs := Some (statusTimeoutMs api)\<rparr>) w"

definition checkTransactionByHash ::
  "platform \<Rightarrow> api_service \<Rightarrow> jsval \<Rightarrow> world \<Rightarrow> (js_exn + jsval) \<times> world" where
  "checkTransactionByHash P api hash w =
     postWithRetry P api ''/v1/check_transaction_by_hash''
       (JObj [(''hash'', hash)])
       True (no_options\<lparr>opt_timeoutMs := Some (statusTimeoutMs api)\<rparr>) w"

definition checkTransactionByShortHash ::
  "platform \<Rightarrow> api_service \<Rightarrow> jsval \<Rightarrow> jsval \<Rightarrow> jsval \<Rightarrow> world \<Rightarrow> (js_exn + jsval) \<times> world" where
  "checkTransactionByShortHash P api shortHash amount currency w =
     postWithRetry P api ''/v1/check_transaction_by_short_hash''
       (JObj [(''hash'', shortHash), (''amount'', amount), (''currency'', currency)])
       True (no_options\<lparr>opt_timeoutMs := Some (statusTimeoutMs api)\<rparr>) w"

definition checkBakongAccount ::
  "platform \<Rightarrow> api_service \<Rightarrow> jsval \<Rightarrow> world \<Rightarrow> (js_exn + jsval) \<times> world" where
  "checkBakongAccount P api accountId w =
     post P api ''/v1/check_bakong_account'' (JObj [(''accountId'', accountId)]) True no_options w"

section \<open>khqrService.js: building QR payloads\<close>

text \<open>
  The \<open>bakong-khqr\<close> and \<open>qrcode\<close> packages are not part of this repository. Of the first
  the service uses the two currency codes of \<open>khqrData.currency\<close> and the two
  generators, each applied to the arguments of its info constructor; a generator throws
  or returns a status code, a status message and the QR string. Of the second the server
  uses \<open>toDataURL\<close>, which may reject.
\<close>

datatype lib_result = LibResult (status_code: jsval) (status_message: string) (data_qr: string)

record libraries =
  currency_khr :: jsval
  currency_usd :: jsval
  generateIndividual :: "jsval \<Rightarrow> jsval \<Rightarrow> jsval \<Rightarrow> jsval \<Rightarrow> js_exn + lib_result"
  generateMerchant ::
    "jsval \<Rightarrow> jsval \<Rightarrow> jsval \<Rightarrow> jsval \<Rightarrow> jsval \<Rightarrow> jsval \<Rightarrow> js_exn + lib_result"
  toDataURL :: "string \<Rightarrow> js_exn + string"

definition resolveCurrency :: "libraries \<Rightarrow> jsval \<Rightarrow> jsval" where
  "resolveCurrency L currency =
     (if currency = JStr ''KHR'' then currency_khr L else currency_usd L)"

text \<open>\<open>!v || !String(v).trim()\<close>: the conversion is made only of a truthy value.\<close>

definition blank_field :: "platform \<Rightarrow> jsval \<Rightarrow> js_exn + bool" where
  "blank_field P v =
     (if \<not> truthy v then Inr True
      else case to_string P v of Inl ex \<Rightarrow> Inl ex | Inr s \<Rightarrow> Inr (trim s = []))"

text \<open>The validation returns the error text, or \<open>null\<close> (\<open>None\<close>) when both fields are given.\<close>

definition validateRequiredFields ::
  "platform \<Rightarrow> jsval \<Rightarrow> jsval \<Rightarrow> js_exn + string option" where
  "validateRequiredFields P accountId merchantName =
     (case blank_field P accountId of
        Inl ex \<Rightarrow> Inl ex
      | Inr True \<Rightarrow> Inr (Some ''Bakong account ID is required'')
      | Inr False \<Rightarrow>
          (case blank_field P merchantName of
             Inl ex \<Rightarrow> Inl ex
           | Inr True \<Rightarrow> Inr (Some ''Merchant name is required'')
           | Inr False \<Rightarrow> Inr None))"

definition generateMD5 :: "platform \<Rightarrow> string \<Rightarrow> string" where
  "generateMD5 P qrString = md5_hex P qrString"

definition generateShortHash :: "platform \<Rightarrow> string \<Rightarrow> string" where
  "generateShortHash P qrString = (let fullHash = sha256_hex P qrString in take 8 fullHash)"

text \<open>A destructured parameter with a default: the default applies to \<open>undefined\<close>.\<close>

definition param_default :: "jsval \<Rightarrow> jsval \<Rightarrow> jsval" where
  "param_default v d = (if v = JUndefined then d else v)"

text \<open>\<open>v > 0\<close>: the operand is converted to a number, which may throw.\<close>

definition js_positive :: "platform \<Rightarrow> jsval \<Rightarrow> js_exn + bool" where
  "js_positive P v =
     (case to_number P v of
        Inl ex \<Rightarrow> Inl ex
      | Inr n \<Rightarrow>
          Inr (case n of Fin q \<Rightarrow> 0 < q | PosInf \<Rightarrow> True | NegInf \<Rightarrow> False | NaN \<Rightarrow> False))"

text \<open>\<open>if (v) obj.k = v\<close> on the list of an object's properties.\<close>

definition set_if_truthy :: "string \<Rightarrow> jsval \<Rightarrow> (string \<times> jsval) list \<Rightarrow> (string \<times> jsval) list" where
  "set_if_truthy k v obj = (if truthy v then AList.update k v obj else obj)"

text \<open>\<open>{...base, ...extra}\<close>\<close>

definition obj_spread :: "(string \<times> jsval) list \<Rightarrow> (string \<times> jsval) list \<Rightarrow> (string \<times> jsval) list" where
  "obj_spread base extra = foldl (\<lambda>acc (k, v). AList.update k v acc) base extra"

datatype gen_result = GenSuccess (gen_qrString: string) (gen_md5: string) | GenFailure string

text \<open>
  The amount-dependent part of \<open>optionalData\<close>, given whether \<open>amount > 0\<close>; \<open>now\<close> is
  what \<open>Date.now()\<close> returns.
\<close>

definition amount_fields ::
  "bool \<Rightarrow> jsval \<Rightarrow> jsval \<Rightarrow> int \<Rightarrow> (string \<times> jsval) list" where
  "amount_fields positive amount resolvedCurrency now =
     (if positive
      then [(''amount'', amount), (''currency'', resolvedCurrency),
            (''expirationTimestamp'', JNum (Fin (of_int (now + 10 * 60 * 1000))))]
      else [])"

definition lib_outcome :: "platform \<Rightarrow> js_exn + lib_result \<Rightarrow> js_exn + gen_result" where
  "lib_outcome P r =
     (case r of
        Inl e \<Rightarrow> Inl e
      | Inr result \<Rightarrow>
          if status_code result = JNum (Fin 0)
          then Inr (GenSuccess (data_qr result) (generateMD5 P (data_qr result)))
          else Inr (GenFailure (status_message result)))"

text \<open>
  The two generators take one argument and destructure it: this throws a TypeError
  when the argument is \<open>null\<close> or \<open>undefined\<close>, and reads absent fields as
  \<open>undefined\<close> otherwise.
\<close>

definition generateIndividualQR ::
  "platform \<Rightarrow> libraries \<Rightarrow> jsval \<Rightarrow> int \<Rightarrow> js_exn + gen_result" where
  "generateIndividualQR P L args now =
     (if nullish args then Inl TypeError else
      let accountId = get_prop args ''accountId'';
          merchantName = get_prop args ''merchantName'';
          merchantCity = param_default (get_prop args ''merchantCity'') (JStr ''Phnom Penh'');
          amount = param_default (get_prop args ''amount'') (JNum (Fin 0));
          currency = param_default (get_prop args ''currency'') (JStr ''USD'');
          billNumber = param_default (get_prop args ''billNumber'') JNull;
          mobileNumber = param_default (get_prop args ''mobileNumber'') JNull;
          storeLabel = param_default (get_prop args ''storeLabel'') JNull;
          terminalLabel = param_default (get_prop args ''terminalLabel'') JNull;
          purposeOfTransaction = param_default (get_prop args ''purposeOfTransaction'') JNull
      in case validateRequiredFields P accountId merchantName of
           Inl ex \<Rightarrow> Inl ex
         | Inr (Some validationError) \<Rightarrow> Inr (GenFailure validationError)
         | Inr None \<Rightarrow>
             let resolvedCurrency = resolveCurrency L currency in
             case js_positive P amount of
               Inl ex \<Rightarrow> Inl ex
             | Inr positive \<Rightarrow>
                 let optionalData =
                       set_if_truthy ''purposeOfTransaction'' purposeOfTransaction
                        (set_if_truthy ''terminalLabel'' terminalLabel
                          (set_if_truthy ''storeLabel'' storeLabel
                            (set_if_truthy ''mobileNumber'' mobileNumber
                              (set_if_truthy ''billNumber'' billNumber
                                (amount_fields positive amount resolvedCurrency now)))))
                 in lib_outcome P
                      (generateIndividual L accountId merchantName merchantCity
                         (JObj (obj_spread [(''currency'', resolvedCurrency)] optionalData))))"

definition generateMerchantQR ::
  "platform \<Rightarrow> libraries \<Rightarrow> jsval \<Rightarrow> int \<Rightarrow> js_exn + gen_result" where
  "generateMerchantQR P L args now =
     (if nullish args then Inl TypeError else
      let accountId = get_prop args ''accountId'';
          merchantName = get_prop args ''merchantName'';
          merchantId = get_prop args ''merchantId'';
          acquiringBank = get_prop args ''acquiringBank'';
          merchantCity = param_default (get_prop args ''merchantCity'') (JStr ''Phnom Penh'');
          amount = param_default (get_prop args ''amount'') (JNum (Fin 0));
          currency = param_default (get_prop args ''currency'') (JStr ''USD'');
          billNumber = param_default (get_prop args ''billNumber'') JNull;
          mobileNumber = param_default (get_prop args ''mobileNumber'') JNull;
          storeLabel = param_default (get_prop args ''storeLabel'') JNull;
          terminalLabel = param_default (get_prop args ''terminalLabel'') JNull
      in case validateRequiredFields P accountId merchantName of
           Inl ex \<Rightarrow> Inl ex
         | Inr (Some validationError) \<Rightarrow> Inr (GenFailure validationError)
         | Inr None \<Rightarrow>
             let resolvedCurrency = resolveCurrency L currency in
             case js_positive P amount of
               Inl ex \<Rightarrow> Inl ex
             | Inr positive \<Rightarrow>
                 let optionalData =
                       set_if_truthy ''terminalLabel'' terminalLabel
                        (set_if_truthy ''storeLabel'' storeLabel
                          (set_if_truthy ''mobileNumber'' mobileNumber
                            (set_if_truthy ''billNumber'' billNumber
                              (amount_fields positive amount resolvedCurrency now))))
                 in lib_outcome P
                      (generateMerchant L accountId merchantName merchantCity merchantId
                         acquiringBank
                         (JObj (obj_spread [(''currency'', resolvedCurrency)] optionalData))))"

section \<open>server.js: configuration and helpers\<close>

text \<open>The variables of \<open>process.env\<close> the server reads; an unset variable is \<open>None\<close>.\<close>

record env =
  BAKONG_API_TOKEN :: "string option"
  BAKONG_ACCOUNT_ID :: "string option"
  MERCHANT_NAME :: "string option"
  MERCHANT_CITY :: "string option"
  MERCHANT_PHONE :: "string option"
  DEEPLINK_MODE :: "string option"
  DEMO_MANUAL_SETTLE_ENABLED :: "string option"

definition env_val :: "string option \<Rightarrow> jsval" where
  "env_val x = (case x of None \<Rightarrow> JUndefined | Some s \<Rightarrow> JStr s)"

definition normalizeOptionalText :: "jsval \<Rightarrow> jsval" where
  "normalizeOptionalText v =
     (case v of
        JStr s \<Rightarrow> (let trimmedValue = trim s in if length trimmedValue > 0 then JStr trimmedValue else JNull)
      | _ \<Rightarrow> JNull)"

text \<open>
  The template literal converts both warnings to strings; the existing one may be any
  value a provider sent, so the conversion may throw.
\<close>

definition appendWarning :: "platform \<Rightarrow> jsval \<Rightarrow> jsval \<Rightarrow> js_exn + jsval" where
  "appendWarning P existingWarning nextWarning =
     (if truthy existingWarning then
        (case to_string P existingWarning of
           Inl ex \<Rightarrow> Inl ex
         | Inr existing \<Rightarrow>
             (case to_string P nextWarning of
                Inl ex \<Rightarrow> Inl ex
              | Inr next \<Rightarrow> Inr (JStr (existing @ '' | '' @ next))))
      else Inr nextWarning)"

text \<open>\<open>String(process.env.X || d)\<close>: the variable if set and not empty, else the default.\<close>

definition env_or :: "string option \<Rightarrow> string \<Rightarrow> string" where
  "env_or x d = (case x of None \<Rightarrow> d | Some s \<Rightarrow> if s = [] then d else s)"

definition shouldGenerateDeeplinkInBackground :: "platform \<Rightarrow> env \<Rightarrow> bool" where
  "shouldGenerateDeeplinkInBackground P e =
     (let mode = toLowerCase P (env_or (DEEPLINK_MODE e) ''async'')
      in mode \<noteq> ''sync'')"

definition isDemoManualSettleEnabled :: "platform \<Rightarrow> env \<Rightarrow> bool" where
  "isDemoManualSettleEnabled P e =
     (toLowerCase P (env_or (DEMO_MANUAL_SETTLE_ENABLED e) ''true'') \<noteq> ''false'')"

text \<open>
  \<open>new Date().toISOString()\<close>: the rendering of an instant, kept as the instant (in
  milliseconds). Such a string is never empty, so it is always truthy.
\<close>

datatype iso_time = IsoTime int

datatype provider_summary =
  ProviderSummary (ps_checkedBy: string) (ps_responseCode: jsval) (ps_errorCode: jsval)
    (ps_responseMessage: jsval)

datatype provider_error =
  ProviderError (pe_checkedAt: iso_time) (pe_checkedBy: string) (pe_responseCode: jsval)
    (pe_errorCode: jsval) (pe_responseMessage: jsval)

text \<open>
  A payment record. The last five fields are absent from a new record: an absent time or
  error is \<open>None\<close>, an absent value is \<open>JUndefined\<close>.
\<close>

record payment =
  billNumber :: string
  amount :: jsnum
  currency :: string
  qrString :: string
  md5 :: string
  description :: jsval
  status :: string
  createdAt :: iso_time
  deeplinkUrl :: jsval
  completedAt :: "iso_time option"
  transactionHash :: jsval
  fromAccount :: jsval
  manualSettledAt :: "iso_time option"
  lastProviderError :: "provider_error option"

text \<open>The \<open>payments\<close> map; \<open>payments.get(k)\<close> finds nothing under a key that is no string.\<close>

type_synonym ledger = "string \<rightharpoonup> payment"

definition payments_get :: "ledger \<Rightarrow> jsval \<Rightarrow> payment option" where
  "payments_get payments k = (case k of JStr s \<Rightarrow> payments s | _ \<Rightarrow> None)"

definition payments_set :: "ledger \<Rightarrow> jsval \<Rightarrow> payment \<Rightarrow> ledger" where
  "payments_set payments k p = (case k of JStr s \<Rightarrow> payments(s \<mapsto> p) | _ \<Rightarrow> payments)"

text \<open>
  \<open>getProviderSummary\<close> returns three fields; the callers spread them behind a
  \<open>checkedBy\<close>, which is passed along here.
\<close>

definition getProviderSummary :: "string \<Rightarrow> jsval \<Rightarrow> provider_summary" where
  "getProviderSummary by result =
     ProviderSummary by
       (js_coalesce (opt_prop result ''responseCode'') JNull)
       (js_coalesce (opt_prop result ''errorCode'') JNull)
       (js_coalesce (opt_prop result ''responseMessage'') JNull)"

definition buildStatusMessage :: "string \<Rightarrow> jsval \<Rightarrow> jsval" where
  "buildStatusMessage st result =
     (if st = ''completed'' then JStr ''Payment completed''
      else if st = ''failed'' then js_or (opt_prop result ''responseMessage'') (JStr ''Payment failed'')
      else if st = ''pending''
        then js_or (opt_prop result ''responseMessage'') (JStr ''Payment is still pending'')
      else js_or (opt_prop result ''responseMessage'')
             (JStr ''Unable to confirm payment status due to provider error''))"

text \<open>
  A handler's reply: a JSON body with status 200, \<open>res.status(code).json({success:
  false, error})\<close> with a fixed text, or the status 500 of the \<open>catch\<close> block with the
  message of the exception caught.
\<close>

datatype 'a reply = Ok200 'a | Fail int string | Caught js_exn

section \<open>server.js: POST /api/payment/check\<close>

record check_body =
  res_success :: bool
  res_status :: string
  res_data :: jsval
  res_deeplinkUrl :: jsval
  res_message :: jsval
  res_errorCode :: jsval
  res_checkedBy :: string
  res_provider :: "(provider_summary \<times> provider_summary option) option"
  res_warning :: jsval
  res_manualSettleEnabled :: bool

text \<open>The reply for a record that was settled by hand.\<close>

definition manual_reply :: "platform \<Rightarrow> env \<Rightarrow> payment \<Rightarrow> check_body" where
  "manual_reply P e p =
     \<lparr>res_success = True,
      res_status = ''completed'',
      res_data = JObj
        [(''hash'', js_or (transactionHash p) JNull),
         (''fromAccountId'', js_or (fromAccount p) (JStr ''demo@manual'')),
         (''amount'', JNum (amount p)),
         (''currency'', JStr (currency p))],
      res_deeplinkUrl = js_or (deeplinkUrl p) JNull,
      res_message = JStr ''Payment marked as completed manually (demo mode)'',
      res_errorCode = JNull,
      res_checkedBy = ''manual'',
      res_provider = None,
      res_warning = JStr ''Demo manual settle override is enabled.'',
      res_manualSettleEnabled = isDemoManualSettleEnabled P e\<rparr>"

text \<open>
  The block that follows the primary lookup and its classification: the short-hash
  lookup and the choice between the two results. It yields \<open>result\<close>, \<open>status\<close>,
  \<open>checkedBy\<close> and \<open>fallbackProvider\<close>, or the exception of the lookup or of the
  classification of its result.
\<close>

definition short_hash_fallback ::
  "platform \<Rightarrow> env \<Rightarrow> api_service \<Rightarrow> payment option \<Rightarrow> jsval \<Rightarrow> string \<Rightarrow> world
     \<Rightarrow> (js_exn + jsval \<times> string \<times> string \<times> provider_summary option) \<times> world" where
  "short_hash_fallback P e api pay result st w =
     (case pay of
        None \<Rightarrow> (Inr (result, st, ''md5'', None), w)
      | Some p \<Rightarrow>
          if st = ''pending'' \<and> qrString p \<noteq> [] \<and> truthy (env_val (BAKONG_API_TOKEN e)) then
            (let shortHash = generateShortHash P (qrString p) in
             case checkTransactionByShortHash P api (JStr shortHash) (JNum (amount p))
                    (JStr (currency p)) w of
               (Inl ex, w1) \<Rightarrow> (Inl ex, w1)
             | (Inr shortHashResult, w1) \<Rightarrow>
                 (case resolvePaymentStatus P shortHashResult of
                    Inl ex \<Rightarrow> (Inl ex, w1)
                  | Inr shortHashStatus \<Rightarrow>
                      (let fallbackProvider = Some (getProviderSummary ''short_hash'' shortHashResult)
                       in if shortHashStatus = ''completed'' \<or> shortHashStatus = ''failed''
                          then (Inr (shortHashResult, shortHashStatus, ''short_hash'',
                                     fallbackProvider), w1)
                          else (Inr (result, st, ''md5'', fallbackProvider), w1))))
          else (Inr (result, st, ''md5'', None), w))"

text \<open>
  The update of the stored record; \<open>now\<close> is the instant of \<open>new Date()\<close>. The record
  was found under \<open>key\<close> and is set under \<open>key\<close>.
\<close>

definition record_check ::
  "ledger \<Rightarrow> jsval \<Rightarrow> payment option \<Rightarrow> string \<Rightarrow> jsval \<Rightarrow> string \<Rightarrow> int \<Rightarrow> ledger" where
  "record_check payments key pay st result by now =
     (case pay of
        None \<Rightarrow> payments
      | Some p \<Rightarrow>
          if st = ''completed'' then
            payments_set payments key
              (p\<lparr>status := ''completed'',
                 completedAt := Some (IsoTime now),
                 transactionHash := js_or (opt_prop (get_prop result ''data'') ''hash'') JNull,
                 fromAccount := js_or (opt_prop (get_prop result ''data'') ''fromAccountId'') JNull\<rparr>)
          else if st = ''failed'' then
            payments_set payments key (p\<lparr>status := ''failed''\<rparr>)
          else if st = ''error'' then
            payments_set payments key
              (p\<lparr>lastProviderError :=
                   Some (case getProviderSummary by result of
                           ProviderSummary c rc ec rm \<Rightarrow> ProviderError (IsoTime now) c rc ec rm)\<rparr>)
          else payments)"

definition check_warning :: "platform \<Rightarrow> api_service \<Rightarrow> string \<Rightarrow> js_exn + jsval" where
  "check_warning P api st =
     (case (if isUsingDevEnvironment api
            then appendWarning P JNull
                   (JStr ''Using Bakong DEV API base URL. Live payments may remain pending.'')
            else Inr JNull) of
        Inl ex \<Rightarrow> Inl ex
      | Inr warning \<Rightarrow>
          if st = ''error''
          then appendWarning P warning
                 (JStr ''Provider status lookup failed. Please verify API base URL/token and retry.'')
          else Inr warning)"

text \<open>
  The warning and the final \<open>res.json\<close>; reading \<open>result.data\<close> off \<open>null\<close> throws.
\<close>

definition check_reply ::
  "platform \<Rightarrow> env \<Rightarrow> api_service \<Rightarrow> payment option \<Rightarrow> jsval \<Rightarrow> string \<Rightarrow> string
     \<Rightarrow> provider_summary option \<Rightarrow> check_body reply" where
  "check_reply P e api pay result st by fallbackProvider =
     (case check_warning P api st of
        Inl ex \<Rightarrow> Caught ex
      | Inr warning \<Rightarrow>
      if nullish result then Caught TypeError
      else Ok200
        \<lparr>res_success = (st = ''completed''),
         res_status = st,
         res_data = get_prop result ''data'',
         res_deeplinkUrl =
           js_or (case pay of None \<Rightarrow> JUndefined | Some p \<Rightarrow> deeplinkUrl p) JNull,
         res_message = buildStatusMessage st result,
         res_errorCode = get_prop result ''errorCode'',
         res_checkedBy = by,
         res_provider = Some (getProviderSummary by result, fallbackProvider),
         res_warning = warning,
         res_manualSettleEnabled = isDemoManualSettleEnabled P e\<rparr>)"

text \<open>
  The handler from the primary lookup on; \<open>pay\<close> is what \<open>payments.get\<close> found. An
  exception of a lookup or of a classification is caught before the ledger is touched.
\<close>

definition check_with_provider ::
  "platform \<Rightarrow> env \<Rightarrow> api_service \<Rightarrow> ledger \<Rightarrow> jsval \<Rightarrow> payment option \<Rightarrow> int \<Rightarrow> world
     \<Rightarrow> check_body reply \<times> ledger \<times> world" where
  "check_with_provider P e api payments key pay now w =
     (case checkTransactionByMD5 P api key w of
        (Inl ex, w1) \<Rightarrow> (Caught ex, payments, w1)
      | (Inr result0, w1) \<Rightarrow>
          (case resolvePaymentStatus P result0 of
             Inl ex \<Rightarrow> (Caught ex, payments, w1)
           | Inr st0 \<Rightarrow>
               (case short_hash_fallback P e api pay result0 st0 w1 of
                  (Inl ex, w2) \<Rightarrow> (Caught ex, payments, w2)
                | (Inr (result, st, by, fallbackProvider), w2) \<Rightarrow>
                    (check_reply P e api pay result st by fallbackProvider,
                     record_check payments key pay st result by now,
                     w2))))"

definition checkPayment ::
  "platform \<Rightarrow> env \<Rightarrow> api_service \<Rightarrow> ledger \<Rightarrow> jsval \<Rightarrow> int \<Rightarrow> world
     \<Rightarrow> check_body reply \<times> ledger \<times> world" where
  "checkPayment P e api payments reqBody now w =
     (if nullish reqBody then (Caught TypeError, payments, w)
      else
        let key = get_prop reqBody ''md5'' in
        if \<not> truthy key then (Fail 400 ''MD5 hash is required'', payments, w)
        else
          case payments_get payments key of
            None \<Rightarrow> check_with_provider P e api payments key None now w
          | Some p \<Rightarrow>
              if manualSettledAt p \<noteq> None then (Ok200 (manual_reply P e p), payments, w)
              else check_with_provider P e api payments key (Some p) now w)"

section \<open>server.js: POST /api/payment/mark-paid\<close>

text \<open>
  The reply spreads the stored record behind its key; \<open>isoNow\<close> is the instant of
  \<open>new Date()\<close> and \<open>msNow\<close> what \<open>Date.now()\<close> returns.
\<close>

datatype mark_body = MarkBody (mark_md5: jsval) (mark_payment: payment)

definition markPaid ::
  "platform \<Rightarrow> env \<Rightarrow> ledger \<Rightarrow> jsval \<Rightarrow> int \<Rightarrow> int \<Rightarrow> mark_body reply \<times> ledger" where
  "markPaid P e payments reqBody isoNow msNow =
     (if \<not> isDemoManualSettleEnabled P e then (Fail 403 ''Manual settle mode is disabled'', payments)
      else
        let b = js_or reqBody (JObj []);
            key = get_prop b ''md5'';
            fromAccountId = get_prop b ''fromAccountId'';
            txHash = get_prop b ''transactionHash''
        in
        if \<not> truthy key then (Fail 400 ''MD5 hash is required'', payments)
        else
          case payments_get payments key of
            None \<Rightarrow> (Fail 404 ''Payment not found'', payments)
          | Some p \<Rightarrow>
              (let p1 = p\<lparr>status := ''completed'',
                           completedAt := Some (IsoTime isoNow),
                           manualSettledAt := Some (IsoTime isoNow),
                           fromAccount := js_or (normalizeOptionalText fromAccountId) (JStr ''demo@manual''),
                           transactionHash :=
                             js_or (normalizeOptionalText txHash) (JStr (''manual-'' @ show_int msNow))\<rparr>
               in (Ok200 (MarkBody key p1), payments_set payments key p1)))"

section \<open>server.js: POST /api/khqr/generate\<close>

record generate_body =
  gen_billNumber :: string
  gen_qr :: string
  gen_qrCodeImage :: string
  gen_key :: string
  gen_deeplinkUrl :: jsval
  gen_amount :: jsnum
  gen_currency :: string
  gen_manualSettleEnabled :: bool
  gen_warning :: jsval

definition SUPPORTED_CURRENCIES :: "string list" where
  "SUPPORTED_CURRENCIES = [''USD'', ''KHR'']"

text \<open>\<open>!Number.isFinite(x) || x <= 0\<close>\<close>

definition bad_amount :: "jsnum \<Rightarrow> bool" where
  "bad_amount x = (case x of Fin q \<Rightarrow> q \<le> 0 | _ \<Rightarrow> True)"

definition sourceInfo_of :: "env \<Rightarrow> string \<Rightarrow> string \<Rightarrow> jsval" where
  "sourceInfo_of e protocol host = JObj
     [(''appIconUrl'', JStr ''https://bakong.nbc.org.kh/images/logo.svg''),
      (''appName'', env_val (MERCHANT_NAME e)),
      (''appDeepLinkCallback'', JStr (protocol @ ''://'' @ host @ ''/payment/callback''))]"

text \<open>
  The deeplink step of the handler: it yields \<open>deeplinkUrl\<close> and \<open>warning\<close>. In the
  synchronous mode the provider is asked; reading \<open>data\<close> off a \<open>null\<close> answer throws.
\<close>

definition deeplink_step ::
  "platform \<Rightarrow> env \<Rightarrow> api_service \<Rightarrow> string \<Rightarrow> jsval \<Rightarrow> world
     \<Rightarrow> (js_exn + jsval \<times> jsval) \<times> world" where
  "deeplink_step P e api qr sourceInfo w =
     (if truthy (env_val (BAKONG_API_TOKEN e)) then
        (if shouldGenerateDeeplinkInBackground P e then
           (case appendWarning P JNull
                   (JStr ''Deeplink is being prepared in background. QR scan payment works immediately.'') of
              Inl ex \<Rightarrow> (Inl ex, w)
            | Inr warning \<Rightarrow> (Inr (JNull, warning), w))
         else
           case generateDeeplink P api qr sourceInfo w of
             (Inl ex, w1) \<Rightarrow> (Inl ex, w1)
           | (Inr deeplink, w1) \<Rightarrow>
               if nullish deeplink then (Inl TypeError, w1)
               else
                 (let url1 = js_or (opt_prop (get_prop deeplink ''data'') ''shortLink'') JNull in
                  if \<not> truthy url1 \<and> get_prop deeplink ''responseCode'' \<noteq> JNum (Fin 0)
                  then (Inr (url1, js_or (get_prop deeplink ''responseMessage'')
                                     (JStr ''Unable to generate deeplink'')), w1)
                  else (Inr (url1, JNull), w1)))
      else (Inr (JNull, JStr ''BAKONG_API_TOKEN is not configured, deeplink is unavailable''), w))"

text \<open>
  The handler. \<open>tBill\<close>, \<open>tExpiry\<close> and \<open>tCreated\<close> are its three readings of the clock
  (bill number, expiry inside \<open>generateIndividualQR\<close>, \<open>createdAt\<close>). The last
  component tells whether the background deeplink task was started, and for which
  key, QR string and source info. The new record is set under its key whatever the
  ledger held there.
\<close>

definition generateKHQR ::
  "platform \<Rightarrow> libraries \<Rightarrow> env \<Rightarrow> api_service \<Rightarrow> ledger \<Rightarrow> jsval \<Rightarrow> string \<Rightarrow> string
     \<Rightarrow> int \<Rightarrow> int \<Rightarrow> int \<Rightarrow> world
     \<Rightarrow> generate_body reply \<times> ledger \<times> world \<times> (string \<times> string \<times> jsval) option" where
  "generateKHQR P L e api payments reqBody protocol host tBill tExpiry tCreated w =
     (if nullish reqBody then (Caught TypeError, payments, w, None)
      else
        let amount0 = get_prop reqBody ''amount'';
            currency0 = param_default (get_prop reqBody ''currency'') (JStr ''USD'')
        in
        case to_string P amount0 of
          Inl ex \<Rightarrow> (Caught ex, payments, w, None)
        | Inr amountText \<Rightarrow>
        let parsedAmount = parseFloat P amountText in
        if bad_amount parsedAmount
          then (Fail 400 ''Amount is required and must be greater than 0'', payments, w, None)
        else
          case to_string P currency0 of
            Inl ex \<Rightarrow> (Caught ex, payments, w, None)
          | Inr currencyText \<Rightarrow>
          let resolvedCurrency = toUpperCase P currencyText in
          if resolvedCurrency \<notin> set SUPPORTED_CURRENCIES
            then (Fail 400 ''Currency must be either USD or KHR'', payments, w, None)
          else if \<not> truthy (env_val (BAKONG_ACCOUNT_ID e)) \<or> \<not> truthy (env_val (MERCHANT_NAME e))
            then (Fail 500 ''Server is missing required Bakong configuration'', payments, w, None)
          else
            let finalBillNumber =
                  (case normalizeOptionalText (get_prop reqBody ''billNumber'') of
                     JStr t \<Rightarrow> t | _ \<Rightarrow> ''INV-'' @ show_int tBill);
                purposeOfTransaction = normalizeOptionalText (get_prop reqBody ''description'');
                resolvedStoreLabel =
                  js_or (normalizeOptionalText (get_prop reqBody ''storeLabel'')) (env_val (MERCHANT_NAME e))
            in
            case generateIndividualQR P L
                   (JObj [(''accountId'', env_val (BAKONG_ACCOUNT_ID e)),
                          (''merchantName'', env_val (MERCHANT_NAME e)),
                          (''merchantCity'', js_or (env_val (MERCHANT_CITY e)) (JStr ''Phnom Penh'')),
                          (''amount'', JNum parsedAmount),
                          (''currency'', JStr resolvedCurrency),
                          (''billNumber'', JStr finalBillNumber),
                          (''mobileNumber'', env_val (MERCHANT_PHONE e)),
                          (''storeLabel'', resolvedStoreLabel),
                          (''purposeOfTransaction'', purposeOfTransaction)])
                   tExpiry of
              Inl ex \<Rightarrow> (Caught ex, payments, w, None)
            | Inr (GenFailure err) \<Rightarrow> (Fail 500 err, payments, w, None)
            | Inr (GenSuccess qr key) \<Rightarrow>
                (case toDataURL L qr of
                   Inl ex \<Rightarrow> (Caught ex, payments, w, None)
                 | Inr qrCodeDataURL \<Rightarrow>
                     (let sourceInfo = sourceInfo_of e protocol host in
                      case deeplink_step P e api qr sourceInfo w of
                        (Inl ex, w1) \<Rightarrow> (Caught ex, payments, w1, None)
                      | (Inr (url1, warning1), w1) \<Rightarrow>
                          (case (if isUsingDevEnvironment api
                                 then appendWarning P warning1
                                        (JStr ''Using Bakong DEV API base URL. Live payments may not reflect in status checks.'')
                                 else Inr warning1) of
                             Inl ex \<Rightarrow> (Caught ex, payments, w1, None)
                           | Inr warning2 \<Rightarrow>
                          (let paymentInfo =
                                 \<lparr>billNumber = finalBillNumber,
                                  amount = parsedAmount,
                                  currency = resolvedCurrency,
                                  qrString = qr,
                                  md5 = key,
                                  description = purposeOfTransaction,
                                  status = ''pending'',
                                  createdAt = IsoTime tCreated,
                                  deeplinkUrl = url1,
                                  completedAt = None,
                                  transactionHash = JUndefined,
                                  fromAccount = JUndefined,
                                  manualSettledAt = None,
                                  lastProviderError = None\<rparr>
                           in (Ok200
                                 \<lparr>gen_billNumber = finalBillNumber,
                                  gen_qr = qr,
                                  gen_qrCodeImage = qrCodeDataURL,
                                  gen_key = key,
                                  gen_deeplinkUrl = url1,
                                  gen_amount = parsedAmount,
                                  gen_currency = resolvedCurrency,
                                  gen_manualSettleEnabled = isDemoManualSettleEnabled P e,
                                  gen_warning = warning2\<rparr>,
                               payments(key \<mapsto> paymentInfo),
                               w1,
                               if truthy (env_val (BAKONG_API_TOKEN e))
                                  \<and> shouldGenerateDeeplinkInBackground P e
                               then Some (key, qr, sourceInfo) else None))))))"

text \<open>
  The background task started by the handler, run to its end: it asks the provider for
  a deeplink and writes it into the record then stored under the key. Its exceptions
  are caught and logged.
\<close>

definition backgroundDeeplink ::
  "platform \<Rightarrow> api_service \<Rightarrow> ledger \<Rightarrow> string \<Rightarrow> string \<Rightarrow> jsval \<Rightarrow> world \<Rightarrow> ledger \<times> world" where
  "backgroundDeeplink P api payments key qr sourceInfo w =
     (case generateDeeplink P api qr sourceInfo w of
        (Inl ex, w1) \<Rightarrow> (payments, w1)
      | (Inr deeplink, w1) \<Rightarrow>
          if nullish deeplink then (payments, w1)
          else
            (let shortLink = js_or (opt_prop (get_prop deeplink ''data'') ''shortLink'') JNull in
             if \<not> truthy shortLink then (payments, w1)
             else
               case payments key of
                 None \<Rightarrow> (payments, w1)
               | Some currentPayment \<Rightarrow>
                   (payments(key \<mapsto> currentPayment\<lparr>deeplinkUrl := shortLink\<rparr>), w1)))"

section \<open>The classification as the specification words it\<close>

text \<open>
  A message is pending-like when some part of it is one of the five phrases up to the
  case of ASCII letters.
\<close>

definition pending_like :: "string \<Rightarrow> bool" where
  "pending_like s = (\<exists>p \<in> set pending_patterns. \<exists>u m v. s = u @ m @ v \<and> lower m = p)"

text \<open>
  The four-way classification, with every comparison of a code read numerically
  (through \<open>Number\<close>); a value that is no object has no fields. When one of the two
  codes cannot be converted to a number, nothing is returned: a TypeError is thrown.
\<close>

definition status_spec :: "platform \<Rightarrow> jsval \<Rightarrow> js_exn + string" where
  "status_spec P result =
     (if \<not> convertible (get_prop result ''responseCode'')
         \<or> \<not> convertible (get_prop result ''errorCode'') then Inl TypeError
      else if number_of P (get_prop result ''responseCode'') = Fin 0 then Inr ''completed''
      else if number_of P (get_prop result ''errorCode'') = Fin 3 then Inr ''failed''
      else if number_of P (get_prop result ''errorCode'') = Fin 1
              \<or> (\<exists>s. get_prop result ''responseMessage'' = JStr s \<and> pending_like s)
        then Inr ''pending''
      else Inr ''error'')"


section \<open>Data for examples\<close>

text \<open>
  A platform to evaluate examples on. Its numeric reading and rendering are those of
  JavaScript on decimal integers below \<open>10^21\<close>, which is all the examples use; the
  case conversions are those of ASCII; the two digests are stand-ins that only tag
  their input.
\<close>

fun digits_value :: "string \<Rightarrow> nat \<Rightarrow> nat option" where
  "digits_value [] acc = Some acc"
| "digits_value (c # cs) acc =
     (if (48::nat) \<le> of_char c \<and> of_char c \<le> (57::nat)
      then digits_value cs (10 * acc + (of_char c - 48)) else None)"

definition decimal_number :: "string \<Rightarrow> jsnum" where
  "decimal_number s =
     (let t = trim s in
      if t = [] then Fin 0
      else if hd t = CHR ''-'' then
        (if tl t = [] then NaN
         else case digits_value (tl t) 0 of Some n \<Rightarrow> Fin (- of_nat n) | None \<Rightarrow> NaN)
      else case digits_value t 0 of Some n \<Rightarrow> Fin (of_nat n) | None \<Rightarrow> NaN)"

definition render_number :: "jsnum \<Rightarrow> string" where
  "render_number n =
     (case n of NaN \<Rightarrow> ''NaN'' | PosInf \<Rightarrow> ''Infinity'' | NegInf \<Rightarrow> ''-Infinity''
      | Fin q \<Rightarrow> show_int \<lfloor>q\<rfloor>)"

definition reparse_integer :: "jsnum \<Rightarrow> jsint" where
  "reparse_integer n =
     (case n of
        Fin q \<Rightarrow> if of_int \<lfloor>q\<rfloor> = q \<and> \<bar>q\<bar> < 10 ^ 21 then Some \<lfloor>q\<rfloor> else None
      | _ \<Rightarrow> None)"

definition upper_char :: "char \<Rightarrow> char" where
  "upper_char c =
     (if of_char c \<ge> (97::nat) \<and> of_char c \<le> (122::nat) then char_of (of_char c - (32::nat)) else c)"

definition example_platform :: platform where
  "example_platform =
     \<lparr>StringToNumber = decimal_number,
      NumberToString = render_number,
      reparseInt = reparse_integer,
      parseFloat = decimal_number,
      toUpperCase = map upper_char,
      toLowerCase = lower,
      md5_hex = (\<lambda>s. ''md5:'' @ s),
      sha256_hex = (\<lambda>s. ''sha256:'' @ s)\<rparr>"

text \<open>
  Stand-ins for the two packages: the generators succeed and return a QR string that
  tells which currency code they were handed.
\<close>

definition example_libraries :: libraries where
  "example_libraries =
     \<lparr>currency_khr = JNum (Fin 116),
      currency_usd = JNum (Fin 840),
      generateIndividual = (\<lambda>accountId merchantName merchantCity optional.
         Inr (LibResult (JNum (Fin 0)) ''Success''
                (if get_prop optional ''currency'' = JNum (Fin 840) then ''qr-usd'' else ''qr-khr''))),
      generateMerchant = (\<lambda>accountId merchantName merchantCity merchantId acquiringBank optional.
         Inr (LibResult (JNum (Fin 0)) ''Success''
                (if get_prop optional ''currency'' = JNum (Fin 840) then ''qr-usd'' else ''qr-khr''))),
      toDataURL = (\<lambda>qr. Inr (''data:image/png;base64,'' @ qr))\<rparr>"

definition example_args :: "(string \<times> jsval) list" where
  "example_args =
     [(''accountId'', JStr ''shop@bank''), (''merchantName'', JStr ''Shop''),
      (''amount'', JNum (Fin 5))]"

subsection \<open>A service, a network that never answers\<close>

definition example_api :: api_service where
  "example_api =
     \<lparr>apiToken = Some ''token'',
      baseUrl = ''https://api-bakong.nbc.org.kh'',
      timeoutMs = Fin 10000,
      statusTimeoutMs = Fin 18000,
      deeplinkTimeoutMs = Fin 3500,
      retryAttempts = Fin 1,
      retryDelayMs = Fin 450,
      enableIpv4Fallback = True\<rparr>"

definition always_abort :: "nat \<Rightarrow> fetch_request \<Rightarrow> fetch_outcome" where
  "always_abort n req = Rejected (JsError ''AbortError'' None ''The operation was aborted.'')"

definition example_world :: world where
  "example_world = \<lparr>network = always_abort, sent = [], slept = []\<rparr>"

definition example_request :: fetch_request where
  "example_request =
     post_request example_platform example_api ''/v1/check_transaction_by_md5''
       (JObj [(''md5'', JStr ''abc'')]) True (no_options\<lparr>opt_timeoutMs := Some (Fin 18000)\<rparr>)"

section \<open>The retry policy as the specification words it\<close>

text \<open>
  The failures of a request that make \<open>post\<close> fall back to IPv4: a timeout abort or
  one of the five network error codes.
\<close>

definition fallback_trigger :: "js_error \<Rightarrow> bool" where
  "fallback_trigger error =
     (err_name error = ''AbortError''
      \<or> (\<exists>c \<in> set retryable_network_codes. err_code error = Some c))"

text \<open>
  The outcome of the \<open>k\<close>-th retry (the first request is number 0), were every
  request made: each retry sleeps for the delay and posts once more.
\<close>

fun nth_attempt ::
  "platform \<Rightarrow> api_service \<Rightarrow> string \<Rightarrow> jsval \<Rightarrow> bool \<Rightarrow> post_options \<Rightarrow> jsint \<Rightarrow> nat \<Rightarrow> world
     \<Rightarrow> (js_exn + jsval) \<times> world" where
  "nth_attempt P api ep pl ra opts delay 0 w = post P api ep pl ra opts w"
| "nth_attempt P api ep pl ra opts delay (Suc k) w =
     post P api ep pl ra opts (sleep delay (snd (nth_attempt P api ep pl ra opts delay k w)))"

text \<open>
  A result is retryable when its \<open>responseCode\<close> is numerically -1 and its
  \<open>errorCode\<close> is one of TIMEOUT, NETWORK_ERROR, INVALID_RESPONSE.
\<close>

definition retryable_result :: "platform \<Rightarrow> jsval \<Rightarrow> bool" where
  "retryable_result P result =
     (convertible (get_prop result ''responseCode'')
      \<and> number_of P (get_prop result ''responseCode'') = Fin (- 1)
      \<and> convertible (get_prop result ''errorCode'')
      \<and> string_of P (get_prop result ''errorCode'')
            \<in> {''TIMEOUT'', ''NETWORK_ERROR'', ''INVALID_RESPONSE''})"

text \<open>An outcome after which \<open>postWithRetry\<close> goes on: a result that is retryable.\<close>

definition retryable_outcome :: "platform \<Rightarrow> js_exn + jsval \<Rightarrow> bool" where
  "retryable_outcome P x = (case x of Inl e \<Rightarrow> False | Inr result \<Rightarrow> retryable_result P result)"

text \<open>
  What \<open>postWithRetry\<close> makes of the outcome of its last attempt: the exception of the
  attempt, the exception of the test of its result, or the result.
\<close>

definition last_outcome ::
  "platform \<Rightarrow> (js_exn + jsval) \<times> world \<Rightarrow> (js_exn + jsval) \<times> world" where
  "last_outcome P xw =
     (case fst xw of
        Inl e \<Rightarrow> xw
      | Inr result \<Rightarrow>
          (case isRetryable P result of Inl ex \<Rightarrow> (Inl ex, snd xw) | Inr b \<Rightarrow> xw))"

section \<open>The ledger as the specification words it\<close>

text \<open>
  What the check handler settles on after both lookups: the result, the status and
  \<open>checkedBy\<close>; nothing when a lookup or a classification throws.
\<close>

definition check_resolution ::
  "platform \<Rightarrow> env \<Rightarrow> api_service \<Rightarrow> payment option \<Rightarrow> jsval \<Rightarrow> world
     \<Rightarrow> (jsval \<times> string \<times> string) option" where
  "check_resolution P e api pay key w =
     (case checkTransactionByMD5 P api key w of
        (Inl ex, w1) \<Rightarrow> None
      | (Inr result0, w1) \<Rightarrow>
          (case resolvePaymentStatus P result0 of
             Inl ex \<Rightarrow> None
           | Inr st0 \<Rightarrow>
               (case short_hash_fallback P e api pay result0 st0 w1 of
                  (Inl ex, w2) \<Rightarrow> None
                | (Inr (result, st, by, fallbackProvider), w2) \<Rightarrow> Some (result, st, by))))"

text \<open>What a status check may do to a stored record.\<close>

definition check_touch :: "payment \<Rightarrow> payment \<Rightarrow> bool" where
  "check_touch p p' =
     ((\<exists>t h f. p' = p\<lparr>status := ''completed'', completedAt := Some t,
                       transactionHash := h, fromAccount := f\<rparr>)
      \<or> p' = p\<lparr>status := ''failed''\<rparr>
      \<or> (\<exists>err. p' = p\<lparr>lastProviderError := Some err\<rparr>))"

section \<open>More data for examples\<close>

definition example_env :: env where
  "example_env =
     \<lparr>BAKONG_API_TOKEN = Some ''token'',
      BAKONG_ACCOUNT_ID = Some ''shop@bank'',
      MERCHANT_NAME = Some ''Shop'',
      MERCHANT_CITY = None,
      MERCHANT_PHONE = None,
      DEEPLINK_MODE = None,
      DEMO_MANUAL_SETTLE_ENABLED = None\<rparr>"

definition example_payment :: payment where
  "example_payment =
     \<lparr>billNumber = ''INV-1'',
      amount = Fin 5,
      currency = ''USD'',
      qrString = ''qr-usd'',
      md5 = ''md5:qr-usd'',
      description = JNull,
      status = ''pending'',
      createdAt = IsoTime 1000,
      deeplinkUrl = JNull,
      completedAt = None,
      transactionHash = JUndefined,
      fromAccount = JUndefined,
      manualSettledAt = None,
      lastProviderError = None\<rparr>"

definition example_ledger :: ledger where
  "example_ledger = [''md5:qr-usd'' \<mapsto> example_payment]"

definition example_check_body :: jsval where
  "example_check_body = JObj [(''md5'', JStr ''md5:qr-usd'')]"

text \<open>A network that answers every request with status 200 and the given document.\<close>

definition answering :: "jsval \<Rightarrow> world" where
  "answering doc =
     \<lparr>network = (\<lambda>n req. Responded (HttpResponse True 200 (Some doc))), sent = [], slept = []\<rparr>"

definition failed_doc :: jsval where
  "failed_doc = JObj [(''responseCode'', JNum (Fin 1)), (''errorCode'', JNum (Fin 3))]"

definition error_doc :: jsval where
  "error_doc = JObj [(''responseCode'', JNum (Fin 1)), (''errorCode'', JNum (Fin 6))]"

text \<open>A document whose \<open>responseCode\<close> cannot be converted to a number or a string.\<close>

definition unreadable_doc :: jsval where
  "unreadable_doc = JObj [(''responseCode'', JObj [(''toString'', JNum (Fin 1))])]"

definition success_doc :: jsval where
  "success_doc = JObj
     [(''responseCode'', JNum (Fin 0)),
      (''data'', JObj [(''hash'', JStr ''8465d722''), (''fromAccountId'', JStr ''payer@bank'')])]"

definition example_failed_ledger :: ledger where
  "example_failed_ledger = example_ledger(''md5:qr-usd'' \<mapsto> example_payment\<lparr>status := ''failed''\<rparr>)"

definition example_settled_payment :: payment where
  "example_settled_payment =
     example_payment\<lparr>status := ''completed'',
       completedAt := Some (IsoTime 3000), manualSettledAt := Some (IsoTime 3000),
       fromAccount := JStr ''demo@manual'',
       transactionHash := JStr (''manual-'' @ show_int 3001)\<rparr>"

section \<open>The fallback rule as the specification words it\<close>

text \<open>
  The conditions under which the short-hash lookup is due: the primary lookup
  classified as \<open>pending\<close>, the payment is in the ledger with a non-empty
  \<open>qrString\<close>, and an API token is configured.
\<close>

definition fallback_due :: "env \<Rightarrow> payment option \<Rightarrow> string \<Rightarrow> bool" where
  "fallback_due e pay st =
     (st = ''pending''
      \<and> (case pay of None \<Rightarrow> False | Some p \<Rightarrow> qrString p \<noteq> [])
      \<and> truthy (env_val (BAKONG_API_TOKEN e)))"

text \<open>
  What the short-hash lookup sends: the first 8 hex characters of the SHA-256 of the
  stored QR string, the stored amount and the stored currency.
\<close>

definition short_hash_payload :: "platform \<Rightarrow> payment \<Rightarrow> jsval" where
  "short_hash_payload P p = JObj
     [(''hash'', JStr (take 8 (sha256_hex P (qrString p)))),
      (''amount'', JNum (amount p)),
      (''currency'', JStr (currency p))]"

section \<open>Data for the fallback example\<close>

text \<open>A network whose first answer is pending-like and whose later answers are successes.\<close>

definition pending_doc :: jsval where
  "pending_doc = JObj [(''responseCode'', JNum (Fin 1)), (''errorCode'', JNum (Fin 1))]"

definition fallback_world :: world where
  "fallback_world =
     \<lparr>network = (\<lambda>n req. Responded (HttpResponse True 200
                     (Some (if n = 0 then pending_doc else success_doc)))),
      sent = [], slept = []\<rparr>"

definition example_md5_request :: fetch_request where
  "example_md5_request =
     post_request example_platform example_api ''/v1/check_transaction_by_md5''
       (JObj [(''md5'', JStr ''md5:qr-usd'')]) True
       (no_options\<lparr>opt_timeoutMs := Some (statusTimeoutMs example_api)\<rparr>)"

definition example_short_hash_request :: fetch_request where
  "example_short_hash_request =
     post_request example_platform example_api ''/v1/check_transaction_by_short_hash''
       (short_hash_payload example_platform example_payment) True
       (no_options\<lparr>opt_timeoutMs := Some (statusTimeoutMs example_api)\<rparr>)"

section \<open>The ledger invariant as the specification words it\<close>

text \<open>Every entry is keyed by the MD5 digest of its QR string, which is also its \<open>md5\<close>.\<close>

definition keyed_by_md5 :: "platform \<Rightarrow> ledger \<Rightarrow> bool" where
  "keyed_by_md5 P payments =
     (\<forall>k p. payments k = Some p \<longrightarrow> k = generateMD5 P (qrString p) \<and> md5 p = k)"

text \<open>
  An update in place: the same keys, and under each key a record with the QR string
  and the \<open>md5\<close> it had.
\<close>

definition updated_in_place :: "ledger \<Rightarrow> ledger \<Rightarrow> bool" where
  "updated_in_place payments payments' =
     (dom payments' = dom payments
      \<and> (\<forall>k p p'. payments k = Some p \<and> payments' k = Some p'
            \<longrightarrow> qrString p' = qrString p \<and> md5 p' = md5 p))"

text \<open>
  The ledgers the server can hold: it starts empty, and each step is one run of a
  handler or of the background deeplink task, on any request, at any time, against any
  configuration and any world.
\<close>

inductive reachable :: "platform \<Rightarrow> libraries \<Rightarrow> ledger \<Rightarrow> bool" for P L where
  start: "reachable P L Map.empty"
| generate:
    "reachable P L payments
     \<Longrightarrow> generateKHQR P L e api payments reqBody protocol host tBill tExpiry tCreated w
           = (reply, payments', w', task)
     \<Longrightarrow> reachable P L payments'"
| deeplink:
    "reachable P L payments
     \<Longrightarrow> backgroundDeeplink P api payments key qr sourceInfo w = (payments', w')
     \<Longrightarrow> reachable P L payments'"
| check:
    "reachable P L payments
     \<Longrightarrow> checkPayment P e api payments reqBody now w = (reply, payments', w')
     \<Longrightarrow> reachable P L payments'"
| settle:
    "reachable P L payments
     \<Longrightarrow> markPaid P e payments reqBody isoNow msNow = (reply, payments')
     \<Longrightarrow> reachable P L payments'"

definition example_generate_body :: jsval where
  "example_generate_body = JObj [(''amount'', JStr ''5''), (''billNumber'', JStr ''INV-1'')]"

section \<open>Properties of the string helpers\<close>

lemma starts_with_iff: "starts_with p s \<longleftrightarrow> (\<exists>v. s = p @ v)"
  by (induction p s rule: starts_with.induct) auto

lemma contains_iff: "contains p s \<longleftrightarrow> (\<exists>u v. s = u @ p @ v)"
proof (induction s)
  case Nil
  then show ?case by auto
next
  case (Cons c cs)
  show ?case
  proof
    assume "contains p (c # cs)"
    then consider "starts_with p (c # cs)" | "contains p cs" by auto
    then show "\<exists>u v. c # cs = u @ p @ v"
    proof cases
      case 1
      then obtain v where "c # cs = p @ v" using starts_with_iff by blast
      then have "c # cs = [] @ p @ v" by simp
      then show ?thesis by blast
    next
      case 2
      then obtain u v where "cs = u @ p @ v" using Cons.IH by blast
      then have "c # cs = (c # u) @ p @ v" by simp
      then show ?thesis by blast
    qed
  next
    assume "\<exists>u v. c # cs = u @ p @ v"
    then obtain u v where uv: "c # cs = u @ p @ v" by blast
    show "contains p (c # cs)"
    proof (cases u)
      case Nil
      with uv have "starts_with p (c # cs)" using starts_with_iff by auto
      then show ?thesis by simp
    next
      case (Cons a u')
      with uv have "cs = u' @ p @ v" by simp
      then have "contains p cs" using Cons.IH by blast
      then show ?thesis by simp
    qed
  qed
qed

lemma strip_start_decomp:
  "\<exists>pre. s = pre @ strip_start ws s \<and> set pre \<subseteq> set (concat ws)"
proof (induction ws s rule: strip_start.induct)
  case (1 ws s)
  show ?case
  proof (cases "find (\<lambda>q. q \<noteq> [] \<and> starts_with q s) ws")
    case None
    then have "strip_start ws s = s" by (subst strip_start.simps) simp
    then show ?thesis by simp
  next
    case (Some q)
    then have q: "q \<in> set ws" "starts_with q s"
      by (auto simp: find_Some_iff)
    then obtain v where v: "s = q @ v" using starts_with_iff by blast
    have step: "strip_start ws s = strip_start ws v"
      using Some v by (subst strip_start.simps) simp
    obtain pre where pre: "v = pre @ strip_start ws v" "set pre \<subseteq> set (concat ws)"
      using 1 [OF Some] v by auto
    have "s = (q @ pre) @ strip_start ws s" using v pre(1) step by simp
    moreover have "set (q @ pre) \<subseteq> set (concat ws)" using q(1) pre(2) by auto
    ultimately show ?thesis by blast
  qed
qed

lemma trim_empty_blank:
  assumes "trim s = []"
  shows "set s \<subseteq> set (concat white_space)"
proof -
  let ?t = "strip_start white_space s"
  obtain pre where pre: "s = pre @ ?t" "set pre \<subseteq> set (concat white_space)"
    using strip_start_decomp by blast
  have e: "strip_start (map rev white_space) (rev ?t) = []"
    using assms by (simp add: trim_def)
  obtain pre2 where pre2: "rev ?t = pre2 @ strip_start (map rev white_space) (rev ?t)"
      "set pre2 \<subseteq> set (concat (map rev white_space))"
    using strip_start_decomp by blast
  have "set (concat (map rev white_space)) = set (concat white_space)" by auto
  then have "set (rev ?t) \<subseteq> set (concat white_space)" using pre2 e by simp
  then have "set ?t \<subseteq> set (concat white_space)" by simp
  then have "set (pre @ ?t) \<subseteq> set (concat white_space)" using pre(2) by simp
  then show ?thesis using pre(1) by simp
qed

lemma lower_char_blank: "c \<in> set (concat white_space) \<Longrightarrow> lower_char c = c"
  by (auto simp: white_space_def lower_char_def)

lemma pattern_not_blank:
  assumes "p \<in> set pending_patterns" "lower s = u @ p @ v"
  shows "trim s \<noteq> []"
proof
  assume "trim s = []"
  then have sp: "\<forall>c \<in> set s. c \<in> set (concat white_space)"
    using trim_empty_blank by blast
  then have "\<forall>c \<in> set (lower s). c \<in> set (concat white_space)"
    by (auto simp: lower_def lower_char_blank)
  then have all: "\<forall>c \<in> set p. c \<in> set (concat white_space)" using assms(2) by auto
  from assms(1) have "p \<noteq> [] \<and> hd p \<notin> set (concat white_space)"
    unfolding pending_patterns_def white_space_def by auto
  then have "hd p \<in> set p" "hd p \<notin> set (concat white_space)" by simp_all
  with all show False by blast
qed

lemma regex_not_blank: "pending_regex_test s \<Longrightarrow> trim s \<noteq> []"
  unfolding pending_regex_test_def list_ex_iff contains_iff
  using pattern_not_blank by blast

lemma isLikelyPendingMessage_string: "isLikelyPendingMessage (JStr s) = pending_regex_test s"
  using regex_not_blank by (auto simp: isLikelyPendingMessage_def)

lemma lower_append: "lower (a @ b) = lower a @ lower b"
  by (simp add: lower_def)

lemma pending_regex_test_iff: "pending_regex_test s = pending_like s"
proof -
  have "(\<exists>u v. lower s = u @ p @ v) \<longleftrightarrow> (\<exists>u m v. s = u @ m @ v \<and> lower m = p)" for p
  proof
    assume "\<exists>u v. lower s = u @ p @ v"
    then obtain u v where "map lower_char s = u @ p @ v" by (auto simp: lower_def)
    then obtain a r where s1: "s = a @ r" and "map lower_char r = p @ v"
      by (metis map_eq_append_conv)
    then obtain m b where "r = m @ b" and "map lower_char m = p"
      by (metis map_eq_append_conv)
    with s1 have "s = a @ m @ b \<and> lower m = p" by (simp add: lower_def)
    then show "\<exists>u m v. s = u @ m @ v \<and> lower m = p" by blast
  next
    assume "\<exists>u m v. s = u @ m @ v \<and> lower m = p"
    then obtain u m v where "s = u @ m @ v" "lower m = p" by blast
    then have "lower s = lower u @ p @ lower v" by (simp add: lower_append)
    then show "\<exists>u v. lower s = u @ p @ v" by blast
  qed
  then show ?thesis
    by (simp add: pending_regex_test_def pending_like_def list_ex_iff contains_iff)
qed

lemma regex_empty: "\<not> pending_regex_test []"
  by (simp add: pending_regex_test_def pending_patterns_def lower_def)

lemma non_object_undefined: "\<not> typeof_object r \<or> \<not> truthy r \<Longrightarrow> get_prop r k = JUndefined"
  by (cases r) auto

lemma resolve_non_object:
  "\<not> truthy r \<or> \<not> typeof_object r \<Longrightarrow> resolvePaymentStatus P r = Inr ''error''"
  by (simp add: resolvePaymentStatus_def)

lemma spec_non_object:
  assumes "\<not> truthy r \<or> \<not> typeof_object r"
  shows "status_spec P r = Inr ''error''"
proof -
  have "get_prop r k = JUndefined" for k using assms non_object_undefined by blast
  then show ?thesis by (simp add: status_spec_def)
qed

lemma resolve_object:
  assumes "truthy r" "typeof_object r"
  shows "resolvePaymentStatus P r = status_spec P r"
proof (cases "get_prop r ''responseMessage''")
  case (JStr s)
  then show ?thesis using assms
    by (simp add: resolvePaymentStatus_def status_spec_def Let_def to_number_def to_string_def
        isLikelyPendingMessage_string pending_regex_test_iff)
qed (use assms regex_empty in \<open>simp_all add: resolvePaymentStatus_def status_spec_def Let_def
        to_number_def to_string_def isLikelyPendingMessage_string\<close>)

lemma resolve_spec: "resolvePaymentStatus P r = status_spec P r"
  using resolve_object resolve_non_object spec_non_object by metis

lemma resolve_statuses:
  "resolvePaymentStatus P r = Inr st \<Longrightarrow> st \<in> {''pending'', ''completed'', ''failed'', ''error''}"
  unfolding resolve_spec by (auto simp: status_spec_def split: if_splits)

section \<open>Status classification\<close>




section \<open>Currency resolution\<close>

lemma get_prop_update:
  "get_prop (JObj (AList.update k v fs)) k' = (if k' = k then v else get_prop (JObj fs) k')"
  by (simp add: update_conv')

lemma resolveCurrency_default:
  "c \<noteq> JStr ''KHR'' \<Longrightarrow>
   resolveCurrency L (param_default c (JStr ''USD'')) = currency_usd L"
  by (simp add: resolveCurrency_def param_default_def)

lemma spread_keeps:
  "map_of al k = Some x \<Longrightarrow> (\<forall>v. (k, v) \<in> set extra \<longrightarrow> v = x)
   \<Longrightarrow> map_of (foldl (\<lambda>acc (k, v). AList.update k v acc) al extra) k = Some x"
proof (induction extra arbitrary: al)
  case Nil
  then show ?case by simp
next
  case (Cons a extra)
  obtain k' v' where a: "a = (k', v')" by (cases a)
  have "map_of (AList.update k' v' al) k = Some x"
    using Cons.prems a by (auto simp: update_conv')
  then show ?case using Cons.IH [of "AList.update k' v' al"] Cons.prems(2) a by simp
qed

lemma update_entries:
  "(k', v') \<in> set (AList.update k v al) \<Longrightarrow> k' \<noteq> k \<Longrightarrow> (k', v') \<in> set al"
  by (induction al) (auto split: if_splits)

lemma set_if_truthy_entries:
  "(k', v') \<in> set (set_if_truthy k v al) \<Longrightarrow> k' \<noteq> k \<Longrightarrow> (k', v') \<in> set al"
  using update_entries by (auto simp: set_if_truthy_def split: if_splits)

lemma amount_fields_currency:
  "(''currency'', v) \<in> set (amount_fields positive a rc now) \<Longrightarrow> v = rc"
  by (auto simp: amount_fields_def split: if_splits)

lemma info_currency_individual:
  "get_prop (JObj (obj_spread [(''currency'', rc)]
      (set_if_truthy ''purposeOfTransaction'' p5
        (set_if_truthy ''terminalLabel'' p4
          (set_if_truthy ''storeLabel'' p3
            (set_if_truthy ''mobileNumber'' p2
              (set_if_truthy ''billNumber'' p1
                (amount_fields positive a rc now)))))))) ''currency'' = rc"
proof -
  have "map_of (obj_spread [(''currency'', rc)]
      (set_if_truthy ''purposeOfTransaction'' p5
        (set_if_truthy ''terminalLabel'' p4
          (set_if_truthy ''storeLabel'' p3
            (set_if_truthy ''mobileNumber'' p2
              (set_if_truthy ''billNumber'' p1
                (amount_fields positive a rc now))))))) ''currency'' = Some rc"
    unfolding obj_spread_def
    by (rule spread_keeps)
       (auto dest!: set_if_truthy_entries amount_fields_currency)
  then show ?thesis by simp
qed

lemma info_currency_merchant:
  "get_prop (JObj (obj_spread [(''currency'', rc)]
        (set_if_truthy ''terminalLabel'' p4
          (set_if_truthy ''storeLabel'' p3
            (set_if_truthy ''mobileNumber'' p2
              (set_if_truthy ''billNumber'' p1
                (amount_fields positive a rc now))))))) ''currency'' = rc"
proof -
  have "map_of (obj_spread [(''currency'', rc)]
        (set_if_truthy ''terminalLabel'' p4
          (set_if_truthy ''storeLabel'' p3
            (set_if_truthy ''mobileNumber'' p2
              (set_if_truthy ''billNumber'' p1
                (amount_fields positive a rc now)))))) ''currency'' = Some rc"
    unfolding obj_spread_def
    by (rule spread_keeps)
       (auto dest!: set_if_truthy_entries amount_fields_currency)
  then show ?thesis by simp
qed

text \<open>
  C9. \<open>resolveCurrency\<close> maps the exact string \<open>KHR\<close> to the KHR code and every other
  value, whatever it is, to the USD code. So \<open>generateIndividualQR\<close> and
  \<open>generateMerchantQR\<close>, called with a currency that is not \<open>KHR\<close>, do exactly what
  they do when called with \<open>USD\<close>. They do not reject the currency: once the two
  required fields are given (and the comparison of the amount does not throw), the
  library's generator is called, with an info object whose \<open>currency\<close> is the USD code,
  and what the generator answers is the outcome.
\<close>

theorem resolveCurrency_non_KHR_is_USD:
  "resolveCurrency L (JStr ''KHR'') = currency_khr L
   \<and> (c \<noteq> JStr ''KHR'' \<longrightarrow>
        resolveCurrency L c = currency_usd L
        \<and> generateIndividualQR P L (JObj (AList.update ''currency'' c args)) now
            = generateIndividualQR P L (JObj (AList.update ''currency'' (JStr ''USD'') args)) now
        \<and> generateMerchantQR P L (JObj (AList.update ''currency'' c args)) now
            = generateMerchantQR P L (JObj (AList.update ''currency'' (JStr ''USD'') args)) now)
   \<and> (\<not> nullish a \<and> get_prop a ''currency'' \<noteq> JStr ''KHR''
        \<and> validateRequiredFields P (get_prop a ''accountId'') (get_prop a ''merchantName'') = Inr None
        \<and> js_positive P (param_default (get_prop a ''amount'') (JNum (Fin 0))) = Inr positive \<longrightarrow>
        (\<exists>info. get_prop info ''currency'' = currency_usd L
           \<and> generateIndividualQR P L a now
              = lib_outcome P
                  (generateIndividual L (get_prop a ''accountId'') (get_prop a ''merchantName'')
                     (param_default (get_prop a ''merchantCity'') (JStr ''Phnom Penh'')) info))
        \<and> (\<exists>info. get_prop info ''currency'' = currency_usd L
           \<and> generateMerchantQR P L a now
              = lib_outcome P
                  (generateMerchant L (get_prop a ''accountId'') (get_prop a ''merchantName'')
                     (param_default (get_prop a ''merchantCity'') (JStr ''Phnom Penh''))
                     (get_prop a ''merchantId'') (get_prop a ''acquiringBank'') info)))"
proof -
  have khr: "resolveCurrency L (JStr ''KHR'') = currency_khr L"
    by (simp add: resolveCurrency_def)
  have usd: "resolveCurrency L c = currency_usd L" if "c \<noteq> JStr ''KHR''"
    using that by (simp add: resolveCurrency_def)
  have ind: "generateIndividualQR P L (JObj (AList.update ''currency'' c args)) now
            = generateIndividualQR P L (JObj (AList.update ''currency'' (JStr ''USD'') args)) now"
    if "c \<noteq> JStr ''KHR''"
    unfolding generateIndividualQR_def Let_def get_prop_update
    by (simp add: resolveCurrency_default that nullish_def cong: sum.case_cong option.case_cong)
  have mer: "generateMerchantQR P L (JObj (AList.update ''currency'' c args)) now
            = generateMerchantQR P L (JObj (AList.update ''currency'' (JStr ''USD'') args)) now"
    if "c \<noteq> JStr ''KHR''"
    unfolding generateMerchantQR_def Let_def get_prop_update
    by (simp add: resolveCurrency_default that nullish_def cong: sum.case_cong option.case_cong)
  have call_ind: "\<exists>info. get_prop info ''currency'' = currency_usd L
           \<and> generateIndividualQR P L a now
              = lib_outcome P
                  (generateIndividual L (get_prop a ''accountId'') (get_prop a ''merchantName'')
                     (param_default (get_prop a ''merchantCity'') (JStr ''Phnom Penh'')) info)"
    if "\<not> nullish a" "get_prop a ''currency'' \<noteq> JStr ''KHR''"
      "validateRequiredFields P (get_prop a ''accountId'') (get_prop a ''merchantName'') = Inr None"
      "js_positive P (param_default (get_prop a ''amount'') (JNum (Fin 0))) = Inr positive"
    unfolding generateIndividualQR_def Let_def
    using that
    by (simp add: resolveCurrency_default)
       (intro exI conjI, rule info_currency_individual, rule refl)
  have call_mer: "\<exists>info. get_prop info ''currency'' = currency_usd L
           \<and> generateMerchantQR P L a now
              = lib_outcome P
                  (generateMerchant L (get_prop a ''accountId'') (get_prop a ''merchantName'')
                     (param_default (get_prop a ''merchantCity'') (JStr ''Phnom Penh''))
                     (get_prop a ''merchantId'') (get_prop a ''acquiringBank'') info)"
    if "\<not> nullish a" "get_prop a ''currency'' \<noteq> JStr ''KHR''"
      "validateRequiredFields P (get_prop a ''accountId'') (get_prop a ''merchantName'') = Inr None"
      "js_positive P (param_default (get_prop a ''amount'') (JNum (Fin 0))) = Inr positive"
    unfolding generateMerchantQR_def Let_def
    using that
    by (simp add: resolveCurrency_default)
       (intro exI conjI, rule info_currency_merchant, rule refl)
  show ?thesis using khr usd ind mer call_ind call_mer by blast
qed

lemma trim_example:
  "trim ''shop@bank'' = ''shop@bank''" "trim ''Shop'' = ''Shop''" "trim ''5'' = ''5''"
  by (simp_all add: trim_def strip_start.simps white_space_def)

lemma example_validated:
  "validateRequiredFields example_platform (JStr ''shop@bank'') (JStr ''Shop'') = Inr None"
  by (simp add: validateRequiredFields_def blank_field_def to_string_def trim_example)

lemma example_individual_usd:
  "generateIndividualQR example_platform example_libraries
     (JObj (AList.update ''currency'' (JStr ''USD'') example_args)) 1000
   = Inr (GenSuccess ''qr-usd'' ''md5:qr-usd'')"
  by (simp add: generateIndividualQR_def example_args_def example_validated nullish_def
      param_default_def js_positive_def to_number_def)
     (simp add: example_libraries_def example_platform_def resolveCurrency_def amount_fields_def
      set_if_truthy_def obj_spread_def lib_outcome_def generateMD5_def)

lemma example_merchant_usd:
  "generateMerchantQR example_platform example_libraries
     (JObj (AList.update ''currency'' (JStr ''USD'') example_args)) 1000
   = Inr (GenSuccess ''qr-usd'' ''md5:qr-usd'')"
  by (simp add: generateMerchantQR_def example_args_def example_validated nullish_def
      param_default_def js_positive_def to_number_def)
     (simp add: example_libraries_def example_platform_def resolveCurrency_def amount_fields_def
      set_if_truthy_def obj_spread_def lib_outcome_def generateMD5_def)

theorem resolveCurrency_non_KHR_is_USD_witness:
  "JStr ''khr'' \<noteq> JStr ''KHR''
   \<and> resolveCurrency example_libraries (JStr ''khr'') = JNum (Fin 840)
   \<and> \<not> nullish (JObj (AList.update ''currency'' (JStr ''khr'') example_args))
   \<and> validateRequiredFields example_platform
        (get_prop (JObj (AList.update ''currency'' (JStr ''khr'') example_args)) ''accountId'')
        (get_prop (JObj (AList.update ''currency'' (JStr ''khr'') example_args)) ''merchantName'')
      = Inr None
   \<and> js_positive example_platform
        (param_default (get_prop (JObj (AList.update ''currency'' (JStr ''khr'') example_args)) ''amount'')
           (JNum (Fin 0))) = Inr True
   \<and> generateIndividualQR example_platform example_libraries
        (JObj (AList.update ''currency'' (JStr ''khr'') example_args)) 1000
      = Inr (GenSuccess ''qr-usd'' ''md5:qr-usd'')
   \<and> generateMerchantQR example_platform example_libraries
        (JObj (AList.update ''currency'' (JStr ''khr'') example_args)) 1000
      = Inr (GenSuccess ''qr-usd'' ''md5:qr-usd'')"
proof -
  have v: "validateRequiredFields example_platform
        (get_prop (JObj (AList.update ''currency'' (JStr ''khr'') example_args)) ''accountId'')
        (get_prop (JObj (AList.update ''currency'' (JStr ''khr'') example_args)) ''merchantName'')
      = Inr None"
    by (simp add: example_args_def example_validated)
  have p: "js_positive example_platform
        (param_default (get_prop (JObj (AList.update ''currency'' (JStr ''khr'') example_args)) ''amount'')
           (JNum (Fin 0))) = Inr True"
    by (simp add: example_args_def param_default_def js_positive_def to_number_def)
  have n: "\<not> nullish (JObj (AList.update ''currency'' (JStr ''khr'') example_args))"
    by (simp add: nullish_def)
  have c: "get_prop (JObj (AList.update ''currency'' (JStr ''khr'') example_args)) ''currency''
             \<noteq> JStr ''KHR''"
    by (simp add: example_args_def)
  have g: "get_prop (JObj (AList.update ''currency'' (JStr ''khr'') example_args)) ''accountId''
             = JStr ''shop@bank''"
      "get_prop (JObj (AList.update ''currency'' (JStr ''khr'') example_args)) ''merchantName''
             = JStr ''Shop''"
      "get_prop (JObj (AList.update ''currency'' (JStr ''khr'') example_args)) ''merchantCity''
             = JUndefined"
      "get_prop (JObj (AList.update ''currency'' (JStr ''khr'') example_args)) ''merchantId''
             = JUndefined"
      "get_prop (JObj (AList.update ''currency'' (JStr ''khr'') example_args)) ''acquiringBank''
             = JUndefined"
    by (simp_all add: example_args_def)
  have usd: "currency_usd example_libraries = JNum (Fin 840)"
    by (simp add: example_libraries_def)
  show ?thesis
    using resolveCurrency_non_KHR_is_USD
      [of example_libraries "JStr ''khr''" example_platform example_args 1000
          "JObj (AList.update ''currency'' (JStr ''khr'') example_args)" True]
      example_individual_usd example_merchant_usd v p n c
    unfolding g usd
    by (simp add: param_default_def)
qed

section \<open>The provider client\<close>

subsection \<open>Missing token\<close>

lemma post_missing_token:
  "token_missing (apiToken api) \<Longrightarrow>
   post P api endpoint payload True options w = (Inr missing_token_result, w)"
  by (simp add: post.simps)

lemma missing_token_not_retryable: "isRetryable P missing_token_result = Inr False"
  by (simp add: isRetryable_def missing_token_result_def retry_error_codes_def
      to_number_def to_string_def)

lemma postWithRetry_missing_token:
  "token_missing (apiToken api) \<Longrightarrow>
   postWithRetry P api endpoint payload True options w = (Inr missing_token_result, w)"
  by (simp add: postWithRetry_def post_missing_token missing_token_not_retryable)

text \<open>
  C8. When the service holds no API token (unset or empty), each of the four
  authenticated methods returns \<open>{responseCode: -1, errorCode: 'MISSING_TOKEN',
  responseMessage: 'Bakong API token is missing'}\<close> at once: the world is unchanged, so
  no request was issued and no retry delay slept, and the result is not retryable.
\<close>

theorem missing_token_short_circuit:
  assumes "token_missing (apiToken api)"
  shows "checkTransactionByMD5 P api h w = (Inr missing_token_result, w)
       \<and> checkTransactionByHash P api h w = (Inr missing_token_result, w)
       \<and> checkTransactionByShortHash P api h a c w = (Inr missing_token_result, w)
       \<and> checkBakongAccount P api acc w = (Inr missing_token_result, w)
       \<and> isRetryable P missing_token_result = Inr False
       \<and> missing_token_result = JObj
            [(''responseCode'', JNum (Fin (- 1))),
             (''errorCode'', JStr ''MISSING_TOKEN''),
             (''responseMessage'', JStr ''Bakong API token is missing'')]"
  using assms
  by (simp add: checkTransactionByMD5_def checkTransactionByHash_def
      checkTransactionByShortHash_def checkBakongAccount_def postWithRetry_missing_token
      post_missing_token missing_token_not_retryable)
     (simp add: missing_token_result_def)

theorem missing_token_short_circuit_witness:
  "token_missing (apiToken (example_api\<lparr>apiToken := Some ''''\<rparr>))
   \<and> checkTransactionByMD5 example_platform (example_api\<lparr>apiToken := Some ''''\<rparr>)
        (JStr ''dummy-md5'') example_world
      = (Inr missing_token_result, example_world)
   \<and> sent example_world = [] \<and> slept example_world = []"
  using missing_token_short_circuit
    [of "example_api\<lparr>apiToken := Some ''''\<rparr>" example_platform "JStr ''dummy-md5''" example_world]
  by (simp add: token_missing_def example_api_def example_world_def)

subsection \<open>IPv4 fallback\<close>

lemma fallback_trigger_code:
  "fallback_trigger error
   \<longleftrightarrow> err_name error = ''AbortError'' \<or> code_string error \<in> set retryable_network_codes"
  by (cases "err_code error")
     (auto simp: fallback_trigger_def code_string_def retryable_network_codes_def)

lemma post_request_forced:
  "post_request P api ep pl ra (opts\<lparr>forceIpv4 := True, ipv4FallbackTried := True\<rparr>)
   = (post_request P api ep pl ra opts)\<lparr>ipv4_agent := True\<rparr>"
  by (simp add: post_request_def effective_timeout_def)

lemma post_forced:
  assumes "forceIpv4 opts" "\<not> (ra \<and> token_missing (apiToken api))"
  shows "post P api ep pl ra opts w =
           ((case network w (length (sent w)) (post_request P api ep pl ra opts) of
               Rejected error \<Rightarrow>
                 if err_name error = ''AbortError''
                 then Inr (timeout_result (effective_timeout P api opts) (ipv4FallbackTried opts))
                 else Inr (network_error_result (err_message error))
             | Responded response \<Rightarrow> post_response response),
            w\<lparr>sent := sent w @ [post_request P api ep pl ra opts]\<rparr>)"
  using assms
  by (subst post.simps) (auto simp: fetch_def split: fetch_outcome.splits)

lemma post_fallback:
  assumes "\<not> forceIpv4 opts" "\<not> (ra \<and> token_missing (apiToken api))" "enableIpv4Fallback api"
    and "network w (length (sent w)) (post_request P api ep pl ra opts) = Rejected error"
    and "fallback_trigger error"
  shows "post P api ep pl ra opts w =
           post P api ep pl ra (opts\<lparr>forceIpv4 := True, ipv4FallbackTried := True\<rparr>)
             (w\<lparr>sent := sent w @ [post_request P api ep pl ra opts]\<rparr>)"
  using assms
  by (subst post.simps) (auto simp: fetch_def fallback_trigger_code)

lemma post_no_fallback:
  assumes "\<not> (ra \<and> token_missing (apiToken api))"
    and "\<not> (enableIpv4Fallback api \<and> \<not> forceIpv4 opts
            \<and> (\<exists>error. network w (length (sent w)) (post_request P api ep pl ra opts) = Rejected error
                  \<and> fallback_trigger error))"
  shows "snd (post P api ep pl ra opts w) = w\<lparr>sent := sent w @ [post_request P api ep pl ra opts]\<rparr>"
  using assms
  by (subst post.simps) (auto simp: fetch_def fallback_trigger_code split: fetch_outcome.splits)

lemma post_sent_cases:
  "sent (snd (post P api ep pl ra opts w)) = sent w
   \<or> sent (snd (post P api ep pl ra opts w)) = sent w @ [post_request P api ep pl ra opts]
   \<or> (\<not> forceIpv4 opts
       \<and> sent (snd (post P api ep pl ra opts w))
           = sent w @ [post_request P api ep pl ra opts, (post_request P api ep pl ra opts)\<lparr>ipv4_agent := True\<rparr>])"
proof (cases "ra \<and> token_missing (apiToken api)")
  case True
  then show ?thesis by (simp add: post.simps)
next
  case auth: False
  show ?thesis
  proof (cases "enableIpv4Fallback api \<and> \<not> forceIpv4 opts
            \<and> (\<exists>error. network w (length (sent w)) (post_request P api ep pl ra opts) = Rejected error
                  \<and> fallback_trigger error)")
    case True
    then obtain error where e: "network w (length (sent w)) (post_request P api ep pl ra opts) = Rejected error"
      "fallback_trigger error" by blast
    have "post P api ep pl ra opts w =
           post P api ep pl ra (opts\<lparr>forceIpv4 := True, ipv4FallbackTried := True\<rparr>)
             (w\<lparr>sent := sent w @ [post_request P api ep pl ra opts]\<rparr>)"
      using post_fallback auth True e by blast
    then show ?thesis using True auth
      by (simp add: post_forced post_request_forced)
  next
    case False
    then show ?thesis using post_no_fallback [OF auth False] by simp
  qed
qed

lemma post_slept: "slept (snd (post P api ep pl ra opts w)) = slept w"
  by (induction P api ep pl ra opts w rule: post.induct)
     (subst post.simps, auto simp: fetch_def split: fetch_outcome.splits prod.splits)

lemma post_network: "network (snd (post P api ep pl ra opts w)) = network w"
  by (induction P api ep pl ra opts w rule: post.induct)
     (subst post.simps, auto simp: fetch_def split: fetch_outcome.splits prod.splits)

lemma post_sent_le: "length (sent (snd (post P api ep pl ra opts w))) \<le> length (sent w) + 2"
  using post_sent_cases [of P api ep pl ra opts w] by auto



lemma example_reparse:
  "reparseInt example_platform (Fin 10000) = Some 10000"
  "reparseInt example_platform (Fin 18000) = Some 18000"
  "reparseInt example_platform (Fin 3500) = Some 3500"
  "reparseInt example_platform (Fin 450) = Some 450"
  "reparseInt example_platform (Fin 1) = Some 1"
  by (simp_all add: example_platform_def reparse_integer_def)


subsection \<open>Bounded retry\<close>

lemma nth_attempt_slept:
  "slept (snd (nth_attempt P api ep pl ra opts delay k w)) = slept w @ replicate k delay"
  by (induction k) (simp_all add: post_slept sleep_def replicate_append_same)

lemma nth_attempt_sent:
  "length (sent (snd (nth_attempt P api ep pl ra opts delay k w))) \<le> length (sent w) + 2 * (k + 1)"
proof (induction k)
  case 0
  then show ?case using post_sent_le [of P api ep pl ra opts w] by simp
next
  case (Suc k)
  have "length (sent (snd (nth_attempt P api ep pl ra opts delay (Suc k) w)))
        \<le> length (sent (sleep delay (snd (nth_attempt P api ep pl ra opts delay k w)))) + 2"
    using post_sent_le by simp
  also have "\<dots> = length (sent (snd (nth_attempt P api ep pl ra opts delay k w))) + 2"
    by (simp add: sleep_def)
  finally show ?case using Suc by simp
qed

lemma isRetryable_True_iff: "isRetryable P result = Inr True \<longleftrightarrow> retryable_result P result"
proof (cases "truthy result")
  case True
  then show ?thesis
    by (auto simp: isRetryable_def retryable_result_def retry_error_codes_def to_number_def
        to_string_def split: if_splits)
next
  case False
  then have "get_prop result k = JUndefined" for k by (cases result) auto
  then show ?thesis using False by (simp add: isRetryable_def retryable_result_def)
qed

lemma isRetryable_cases:
  "isRetryable P result = Inr True \<or> isRetryable P result = Inr False
   \<or> isRetryable P result = Inl TypeError"
  by (auto simp: isRetryable_def to_number_def to_string_def)

lemma last_outcome_snd: "snd (last_outcome P xw) = snd xw"
  by (simp add: last_outcome_def split: sum.splits)

lemma last_outcome_retryable:
  "retryable_result P result \<Longrightarrow> last_outcome P (Inr result, w) = (Inr result, w)"
  using isRetryable_True_iff [of P result] by (simp add: last_outcome_def)

lemma retry_loop_spec:
  assumes "nth_attempt P api ep pl ra opts delay j w0 = (Inr result, w)"
    and "retryable_result P result"
    and "\<forall>i<j. retryable_outcome P (fst (nth_attempt P api ep pl ra opts delay i w0))"
    and "j \<le> nat r" "0 \<le> r"
  shows "\<exists>k. k \<le> nat r
     \<and> retry_loop P api ep pl ra opts (Some r) delay (int j + 1) result w
         = last_outcome P (nth_attempt P api ep pl ra opts delay k w0)
     \<and> (\<forall>i<k. retryable_outcome P (fst (nth_attempt P api ep pl ra opts delay i w0)))
     \<and> (\<not> retryable_outcome P (fst (nth_attempt P api ep pl ra opts delay k w0)) \<or> k = nat r)"
  using assms
proof (induction "nat r - j" arbitrary: j result w)
  case 0
  then have jr: "j = nat r" by simp
  then have "\<not> js_le (int j + 1) (Some r)" using \<open>0 \<le> r\<close> by (simp add: js_le_def)
  then have "retry_loop P api ep pl ra opts (Some r) delay (int j + 1) result w = (Inr result, w)"
    by (subst retry_loop.simps) simp
  then have "retry_loop P api ep pl ra opts (Some r) delay (int j + 1) result w
             = last_outcome P (nth_attempt P api ep pl ra opts delay j w0)"
    using "0.prems"(1,2) by (simp add: last_outcome_retryable)
  then show ?case using 0 jr by auto
next
  case (Suc n)
  then have lt: "j < nat r" by simp
  then have le: "js_le (int j + 1) (Some r)" by (simp add: js_le_def)
  let ?next = "nth_attempt P api ep pl ra opts delay (Suc j) w0"
  have next_eq: "post P api ep pl ra opts (sleep delay w) = ?next"
    using Suc.prems(1) by simp
  have here: "retryable_outcome P (fst (nth_attempt P api ep pl ra opts delay j w0))"
    using Suc.prems(1,2) by (simp add: retryable_outcome_def)
  have before: "\<forall>i<Suc j. retryable_outcome P (fst (nth_attempt P api ep pl ra opts delay i w0))"
    using Suc.prems(3) here less_Suc_eq by auto
  obtain x w1 where xw: "?next = (x, w1)" by (cases ?next)
  show ?case
  proof (cases x)
    case (Inl e)
    have "retry_loop P api ep pl ra opts (Some r) delay (int j + 1) result w = last_outcome P ?next"
      using le next_eq xw Inl by (subst retry_loop.simps) (simp add: last_outcome_def)
    moreover have "\<not> retryable_outcome P (fst ?next)"
      using xw Inl by (simp add: retryable_outcome_def)
    ultimately show ?thesis using before lt
      by (intro exI [of _ "Suc j"]) auto
  next
    case (Inr result1)
    show ?thesis
    proof (cases "retryable_result P result1")
      case False
      then have nt: "isRetryable P result1 \<noteq> Inr True" by (simp add: isRetryable_True_iff)
      have "retry_loop P api ep pl ra opts (Some r) delay (int j + 1) result w = last_outcome P ?next"
        using le next_eq xw Inr nt isRetryable_cases [of P result1]
        by (subst retry_loop.simps) (auto simp: last_outcome_def)
      moreover have "\<not> retryable_outcome P (fst ?next)"
        using xw Inr False by (simp add: retryable_outcome_def)
      ultimately show ?thesis using before lt
        by (intro exI [of _ "Suc j"]) auto
    next
      case True
      then have t: "isRetryable P result1 = Inr True" by (simp add: isRetryable_True_iff)
      have unfold: "retry_loop P api ep pl ra opts (Some r) delay (int j + 1) result w
                  = retry_loop P api ep pl ra opts (Some r) delay (int (Suc j) + 1) result1 w1"
        using le next_eq xw Inr t by (subst retry_loop.simps) (simp add: add.commute)
      have n: "n = nat r - Suc j" using Suc.hyps(2) by simp
      have "\<exists>k. k \<le> nat r
         \<and> retry_loop P api ep pl ra opts (Some r) delay (int (Suc j) + 1) result1 w1
             = last_outcome P (nth_attempt P api ep pl ra opts delay k w0)
         \<and> (\<forall>i<k. retryable_outcome P (fst (nth_attempt P api ep pl ra opts delay i w0)))
         \<and> (\<not> retryable_outcome P (fst (nth_attempt P api ep pl ra opts delay k w0)) \<or> k = nat r)"
        using Suc.hyps(1) [OF n _ True before _ \<open>0 \<le> r\<close>] xw Inr lt by simp
      then show ?thesis unfolding unfold .
    qed
  qed
qed

text \<open>
  C4, as amended. A call of \<open>postWithRetry\<close> whose retry count, read as an integer, is
  \<open>r\<close> with \<open>0 \<le> r < 2^53\<close> makes the first request and \<open>k \<le> r\<close> retries, so at
  most \<open>1 + r\<close> calls of \<open>post\<close> (it sleeps \<open>k\<close> times, once before each retry, and
  issues at most two requests per call). Every outcome before the last was a retryable
  result, that is a result whose \<open>responseCode\<close> is numerically -1 and whose
  \<open>errorCode\<close> is one of TIMEOUT, NETWORK_ERROR, INVALID_RESPONSE. The last call made
  is the first whose outcome is not retryable, or the final attempt \<open>r\<close>; what
  \<open>postWithRetry\<close> returns is the result of that call, unless the call throws or the
  test of its result throws, and then \<open>postWithRetry\<close> throws that exception.
\<close>

theorem postWithRetry_bounded:
  assumes "reparseInt P (case opt_retries opts of None \<Rightarrow> retryAttempts api | Some x \<Rightarrow> x) = Some r"
    and "0 \<le> r" and "r < 2 ^ 53"
    and "delay = reparseInt P
           (case opt_retryDelayMs opts of None \<Rightarrow> retryDelayMs api | Some d \<Rightarrow> d)"
  shows "\<exists>k. k \<le> nat r
     \<and> postWithRetry P api ep pl ra opts w
         = last_outcome P (nth_attempt P api ep pl ra opts delay k w)
     \<and> (\<forall>i<k. retryable_outcome P (fst (nth_attempt P api ep pl ra opts delay i w)))
     \<and> (\<not> retryable_outcome P (fst (nth_attempt P api ep pl ra opts delay k w)) \<or> k = nat r)
     \<and> slept (snd (postWithRetry P api ep pl ra opts w)) = slept w @ replicate k delay
     \<and> length (sent (snd (postWithRetry P api ep pl ra opts w))) \<le> length (sent w) + 2 * (k + 1)"
proof -
  let ?first = "nth_attempt P api ep pl ra opts delay 0 w"
  obtain x w1 where xw: "post P api ep pl ra opts w = (x, w1)" by (cases "post P api ep pl ra opts w")
  have core: "\<exists>k. k \<le> nat r
     \<and> postWithRetry P api ep pl ra opts w
         = last_outcome P (nth_attempt P api ep pl ra opts delay k w)
     \<and> (\<forall>i<k. retryable_outcome P (fst (nth_attempt P api ep pl ra opts delay i w)))
     \<and> (\<not> retryable_outcome P (fst (nth_attempt P api ep pl ra opts delay k w)) \<or> k = nat r)"
  proof (cases "retryable_outcome P x \<and> 0 < r")
    case False
    have "postWithRetry P api ep pl ra opts w = last_outcome P ?first"
    proof (cases x)
      case (Inl e)
      then show ?thesis using xw by (simp add: postWithRetry_def last_outcome_def)
    next
      case (Inr result)
      then have "isRetryable P result \<noteq> Inr True \<or> r \<le> 0"
        using False by (auto simp: retryable_outcome_def isRetryable_True_iff)
      then show ?thesis using xw Inr assms(1) isRetryable_cases [of P result]
        by (auto simp: postWithRetry_def last_outcome_def jsint_le_def)
    qed
    moreover have "\<not> retryable_outcome P (fst ?first) \<or> 0 = nat r"
      using False xw assms(2) by auto
    ultimately show ?thesis by (intro exI [of _ 0]) auto
  next
    case True
    then obtain result where res: "x = Inr result" "retryable_result P result"
      by (auto simp: retryable_outcome_def split: sum.splits)
    then have t: "isRetryable P result = Inr True" by (simp add: isRetryable_True_iff)
    have "postWithRetry P api ep pl ra opts w
          = retry_loop P api ep pl ra opts (Some r) delay (int 0 + 1) result w1"
      using True xw res t assms(1,4) by (simp add: postWithRetry_def jsint_le_def)
    moreover have "\<exists>k. k \<le> nat r
       \<and> retry_loop P api ep pl ra opts (Some r) delay (int 0 + 1) result w1
           = last_outcome P (nth_attempt P api ep pl ra opts delay k w)
       \<and> (\<forall>i<k. retryable_outcome P (fst (nth_attempt P api ep pl ra opts delay i w)))
       \<and> (\<not> retryable_outcome P (fst (nth_attempt P api ep pl ra opts delay k w)) \<or> k = nat r)"
      using retry_loop_spec [of P api ep pl ra opts delay 0 w result w1 r] xw res assms(2) by simp
    ultimately show ?thesis by simp
  qed
  then obtain k where k: "k \<le> nat r"
     "postWithRetry P api ep pl ra opts w
        = last_outcome P (nth_attempt P api ep pl ra opts delay k w)"
     "\<forall>i<k. retryable_outcome P (fst (nth_attempt P api ep pl ra opts delay i w))"
     "\<not> retryable_outcome P (fst (nth_attempt P api ep pl ra opts delay k w)) \<or> k = nat r"
    by blast
  show ?thesis
    using k nth_attempt_slept [of P api ep pl ra opts delay k w]
      nth_attempt_sent [of P api ep pl ra opts delay k w]
    by (intro exI [of _ k]) (simp add: last_outcome_snd)
qed

lemma example_post_timeout:
  "post example_platform example_api ''/v1/check_transaction_by_md5'' (JObj [(''md5'', JStr ''abc'')])
     True (no_options\<lparr>opt_timeoutMs := Some (Fin 18000)\<rparr>) (example_world\<lparr>sent := xs, slept := ys\<rparr>)
   = (Inr (timeout_result (Some 18000) True),
      example_world\<lparr>sent := xs @ [example_request, example_request\<lparr>ipv4_agent := True\<rparr>],
                     slept := ys\<rparr>)"
proof -
  let ?w = "example_world\<lparr>sent := xs, slept := ys\<rparr>"
  let ?opts = "no_options\<lparr>opt_timeoutMs := Some (Fin 18000)\<rparr>"
  have "post example_platform example_api ''/v1/check_transaction_by_md5'' (JObj [(''md5'', JStr ''abc'')])
     True ?opts ?w
     = post example_platform example_api ''/v1/check_transaction_by_md5'' (JObj [(''md5'', JStr ''abc'')])
     True (?opts\<lparr>forceIpv4 := True, ipv4FallbackTried := True\<rparr>)
       (?w\<lparr>sent := sent ?w @ [example_request]\<rparr>)"
    unfolding example_request_def
    by (rule post_fallback [where error = "JsError ''AbortError'' None ''The operation was aborted.''"])
       (simp_all add: no_options_def example_api_def token_missing_def example_world_def
          always_abort_def fallback_trigger_def)
  also have "\<dots> = (Inr (timeout_result (Some 18000) True),
      example_world\<lparr>sent := xs @ [example_request, example_request\<lparr>ipv4_agent := True\<rparr>],
                     slept := ys\<rparr>)"
    by (subst post_forced)
       (simp_all add: no_options_def example_api_def token_missing_def example_world_def
          always_abort_def effective_timeout_def post_request_def example_request_def
          example_reparse)
  finally show ?thesis .
qed

lemma timeout_retryable: "isRetryable P (timeout_result ms b) = Inr True"
  by (simp add: isRetryable_def timeout_result_def retry_error_codes_def to_number_def
      to_string_def)

lemma example_retry:
  "postWithRetry example_platform example_api ''/v1/check_transaction_by_md5''
     (JObj [(''md5'', JStr ''abc'')]) True (no_options\<lparr>opt_timeoutMs := Some (Fin 18000)\<rparr>) example_world
   = (Inr (timeout_result (Some 18000) True),
      example_world\<lparr>sent := [example_request, example_request\<lparr>ipv4_agent := True\<rparr>,
                               example_request, example_request\<lparr>ipv4_agent := True\<rparr>],
                     slept := [Some 450]\<rparr>)"
proof -
  have w0: "example_world = example_world\<lparr>sent := [], slept := []\<rparr>"
    by (simp add: example_world_def)
  have first: "post example_platform example_api ''/v1/check_transaction_by_md5''
       (JObj [(''md5'', JStr ''abc'')]) True (no_options\<lparr>opt_timeoutMs := Some (Fin 18000)\<rparr>) example_world
     = (Inr (timeout_result (Some 18000) True),
        example_world\<lparr>sent := [example_request, example_request\<lparr>ipv4_agent := True\<rparr>], slept := []\<rparr>)"
    by (subst w0, subst example_post_timeout) simp
  show ?thesis
    unfolding postWithRetry_def Let_def first
    apply (simp add: timeout_retryable jsint_le_def example_api_def no_options_def example_reparse)
    apply (subst retry_loop.simps)
    apply (simp add: js_le_def sleep_def)
    apply (subst example_post_timeout [unfolded example_api_def no_options_def, simplified])
    apply (simp add: timeout_retryable)
    apply (subst retry_loop.simps)
    apply (simp add: js_le_def)
    done
qed

theorem postWithRetry_bounded_witness:
  "(0::int) \<le> 1 \<and> (1::int) < 2 ^ 53
   \<and> reparseInt example_platform
        (case opt_retries (no_options\<lparr>opt_timeoutMs := Some (Fin 18000)\<rparr>) of
           None \<Rightarrow> retryAttempts example_api | Some x \<Rightarrow> x) = Some 1
   \<and> (\<exists>k. k \<le> nat 1
        \<and> postWithRetry example_platform example_api ''/v1/check_transaction_by_md5''
             (JObj [(''md5'', JStr ''abc'')]) True (no_options\<lparr>opt_timeoutMs := Some (Fin 18000)\<rparr>)
             example_world
           = last_outcome example_platform
              (nth_attempt example_platform example_api ''/v1/check_transaction_by_md5''
                 (JObj [(''md5'', JStr ''abc'')]) True (no_options\<lparr>opt_timeoutMs := Some (Fin 18000)\<rparr>)
                 (Some 450) k example_world)
        \<and> slept (snd (postWithRetry example_platform example_api ''/v1/check_transaction_by_md5''
             (JObj [(''md5'', JStr ''abc'')]) True (no_options\<lparr>opt_timeoutMs := Some (Fin 18000)\<rparr>)
             example_world)) = replicate k (Some 450))
   \<and> slept (snd (postWithRetry example_platform example_api ''/v1/check_transaction_by_md5''
             (JObj [(''md5'', JStr ''abc'')]) True (no_options\<lparr>opt_timeoutMs := Some (Fin 18000)\<rparr>)
             example_world)) = [Some 450]
   \<and> length (sent (snd (postWithRetry example_platform example_api ''/v1/check_transaction_by_md5''
             (JObj [(''md5'', JStr ''abc'')]) True (no_options\<lparr>opt_timeoutMs := Some (Fin 18000)\<rparr>)
             example_world))) = 4"
proof -
  have r: "reparseInt example_platform
             (case opt_retries (no_options\<lparr>opt_timeoutMs := Some (Fin 18000)\<rparr>) of
                None \<Rightarrow> retryAttempts example_api | Some x \<Rightarrow> x) = Some 1"
    by (simp add: no_options_def example_api_def example_reparse)
  have d: "Some 450 = reparseInt example_platform
             (case opt_retryDelayMs (no_options\<lparr>opt_timeoutMs := Some (Fin 18000)\<rparr>) of
                None \<Rightarrow> retryDelayMs example_api | Some d \<Rightarrow> d)"
    by (simp add: no_options_def example_api_def example_reparse)
  have "\<exists>k. k \<le> nat 1
        \<and> postWithRetry example_platform example_api ''/v1/check_transaction_by_md5''
             (JObj [(''md5'', JStr ''abc'')]) True (no_options\<lparr>opt_timeoutMs := Some (Fin 18000)\<rparr>)
             example_world
           = last_outcome example_platform
              (nth_attempt example_platform example_api ''/v1/check_transaction_by_md5''
                 (JObj [(''md5'', JStr ''abc'')]) True (no_options\<lparr>opt_timeoutMs := Some (Fin 18000)\<rparr>)
                 (Some 450) k example_world)
        \<and> slept (snd (postWithRetry example_platform example_api ''/v1/check_transaction_by_md5''
             (JObj [(''md5'', JStr ''abc'')]) True (no_options\<lparr>opt_timeoutMs := Some (Fin 18000)\<rparr>)
             example_world)) = replicate k (Some 450)"
    using postWithRetry_bounded [OF r _ _ d, of "''/v1/check_transaction_by_md5''"
        "JObj [(''md5'', JStr ''abc'')]" True example_world]
    by (auto simp: example_world_def)
  then show ?thesis using r by (simp add: example_retry)
qed

text \<open>
  C4 as stated fails: \<open>postWithRetry\<close> does not always return a result. When the
  provider answers with the document \<open>{"responseCode": {"toString": 1}}\<close>, the first
  call of \<open>post\<close> returns that document, the test of whether it is retryable throws a
  TypeError on \<open>Number(result.responseCode)\<close>, and \<open>postWithRetry\<close> throws it.
\<close>

theorem postWithRetry_throws_counterexample:
  "fst (post example_platform example_api ''/v1/check_transaction_by_md5''
          (JObj [(''md5'', JStr ''abc'')]) True no_options (answering unreadable_doc))
     = Inr unreadable_doc
   \<and> reparseInt example_platform
        (case opt_retries no_options of None \<Rightarrow> retryAttempts example_api | Some x \<Rightarrow> x) = Some 1
   \<and> isRetryable example_platform unreadable_doc = Inl TypeError
   \<and> fst (postWithRetry example_platform example_api ''/v1/check_transaction_by_md5''
          (JObj [(''md5'', JStr ''abc'')]) True no_options (answering unreadable_doc))
     = Inl TypeError
   \<and> length (sent (snd (postWithRetry example_platform example_api ''/v1/check_transaction_by_md5''
          (JObj [(''md5'', JStr ''abc'')]) True no_options (answering unreadable_doc)))) = 1"
proof -
  have p: "post example_platform example_api ''/v1/check_transaction_by_md5''
          (JObj [(''md5'', JStr ''abc'')]) True no_options (answering unreadable_doc)
       = (Inr unreadable_doc,
          (answering unreadable_doc)
            \<lparr>sent := [post_request example_platform example_api ''/v1/check_transaction_by_md5''
                        (JObj [(''md5'', JStr ''abc'')]) True no_options]\<rparr>)"
    by (subst post.simps)
       (simp add: example_api_def token_missing_def fetch_def answering_def post_response_def)
  have i: "isRetryable example_platform unreadable_doc = Inl TypeError"
    by (simp add: isRetryable_def unreadable_doc_def to_number_def)
  show ?thesis
    unfolding postWithRetry_def Let_def p
    by (simp add: i no_options_def example_api_def example_reparse)
qed

section \<open>The payment ledger\<close>

subsection \<open>What the handlers do to the ledger\<close>

lemma payments_get_Some:
  "payments_get payments key = Some p \<longleftrightarrow> (\<exists>k. key = JStr k \<and> payments k = Some p)"
  by (cases key) (auto simp: payments_get_def)

lemma record_check_None: "record_check payments key None st result by now = payments"
  by (simp add: record_check_def)

lemma record_check_Some:
  assumes "payments_get payments key = Some p"
  shows "record_check payments key (Some p) st result by now = payments
         \<or> (\<exists>k p'. key = JStr k \<and> payments k = Some p
              \<and> record_check payments key (Some p) st result by now = payments(k \<mapsto> p')
              \<and> check_touch p p')"
proof -
  obtain k where k: "key = JStr k" "payments k = Some p"
    using assms payments_get_Some by blast
  consider "st = ''completed''" | "st = ''failed''" | "st = ''error''"
    | "st \<noteq> ''completed''" "st \<noteq> ''failed''" "st \<noteq> ''error''" by blast
  then show ?thesis
  proof cases
    case 1
    let ?p' = "p\<lparr>status := ''completed'', completedAt := Some (IsoTime now),
                 transactionHash := js_or (opt_prop (get_prop result ''data'') ''hash'') JNull,
                 fromAccount := js_or (opt_prop (get_prop result ''data'') ''fromAccountId'') JNull\<rparr>"
    have "record_check payments key (Some p) st result by now = payments(k \<mapsto> ?p')"
      using 1 k by (simp add: record_check_def payments_set_def)
    moreover have "check_touch p ?p'" unfolding check_touch_def by blast
    ultimately show ?thesis using k by blast
  next
    case 2
    have "record_check payments key (Some p) st result by now = payments(k \<mapsto> p\<lparr>status := ''failed''\<rparr>)"
      using 2 k by (simp add: record_check_def payments_set_def)
    moreover have "check_touch p (p\<lparr>status := ''failed''\<rparr>)" unfolding check_touch_def by blast
    ultimately show ?thesis using k by blast
  next
    case 3
    let ?err = "case getProviderSummary by result of
                  ProviderSummary c rc ec rm \<Rightarrow> ProviderError (IsoTime now) c rc ec rm"
    have "record_check payments key (Some p) st result by now
          = payments(k \<mapsto> p\<lparr>lastProviderError := Some ?err\<rparr>)"
      using 3 k by (simp add: record_check_def payments_set_def)
    moreover have "check_touch p (p\<lparr>lastProviderError := Some ?err\<rparr>)"
      unfolding check_touch_def by blast
    ultimately show ?thesis using k by blast
  next
    case 4
    then have "record_check payments key (Some p) st result by now = payments"
      by (simp add: record_check_def)
    then show ?thesis by simp
  qed
qed

lemma record_check_error:
  assumes "payments_get payments key = Some p"
  shows "\<exists>k. key = JStr k \<and> payments k = Some p
     \<and> record_check payments key (Some p) ''error'' result by now
         = payments(k \<mapsto> p\<lparr>lastProviderError := Some
             (ProviderError (IsoTime now) by
                (js_coalesce (opt_prop result ''responseCode'') JNull)
                (js_coalesce (opt_prop result ''errorCode'') JNull)
                (js_coalesce (opt_prop result ''responseMessage'') JNull))\<rparr>)"
proof -
  obtain k where k: "key = JStr k" "payments k = Some p"
    using assms payments_get_Some by blast
  then show ?thesis
    by (simp add: record_check_def payments_set_def getProviderSummary_def)
qed

lemma check_with_provider_ledger:
  assumes "check_with_provider P e api payments key pay now w = (reply, payments', w')"
    and "pay = payments_get payments key"
  shows "payments' = payments
         \<or> (\<exists>k p p'. key = JStr k \<and> payments k = Some p \<and> pay = Some p
              \<and> payments' = payments(k \<mapsto> p') \<and> check_touch p p')"
proof (cases pay)
  case None
  then show ?thesis using assms(1)
    by (auto simp: check_with_provider_def record_check_None split: prod.splits sum.splits)
next
  case (Some p)
  then have g: "payments_get payments key = Some p" using assms(2) by simp
  show ?thesis using assms(1) record_check_Some [OF g] Some
    by (auto simp: check_with_provider_def split: prod.splits sum.splits)
qed

lemma checkPayment_unfold:
  assumes "\<not> nullish reqBody" "truthy (get_prop reqBody ''md5'')"
  shows "checkPayment P e api payments reqBody now w =
     (case payments_get payments (get_prop reqBody ''md5'') of
        None \<Rightarrow> check_with_provider P e api payments (get_prop reqBody ''md5'') None now w
      | Some p \<Rightarrow>
          if manualSettledAt p \<noteq> None then (Ok200 (manual_reply P e p), payments, w)
          else check_with_provider P e api payments (get_prop reqBody ''md5'') (Some p) now w)"
  using assms by (simp add: checkPayment_def Let_def)

lemma checkPayment_rejects:
  assumes "nullish reqBody \<or> \<not> truthy (get_prop reqBody ''md5'')"
  shows "snd (checkPayment P e api payments reqBody now w) = (payments, w)"
  using assms by (auto simp: checkPayment_def)

lemma checkPayment_ledger:
  assumes "checkPayment P e api payments reqBody now w = (reply, payments', w')"
  shows "payments' = payments
         \<or> (\<exists>k p p'. get_prop reqBody ''md5'' = JStr k \<and> payments k = Some p
              \<and> manualSettledAt p = None
              \<and> payments' = payments(k \<mapsto> p') \<and> check_touch p p')"
proof (cases "nullish reqBody \<or> \<not> truthy (get_prop reqBody ''md5'')")
  case True
  then show ?thesis using assms checkPayment_rejects [OF True, of P e api payments now w] by simp
next
  case False
  then have u: "checkPayment P e api payments reqBody now w =
     (case payments_get payments (get_prop reqBody ''md5'') of
        None \<Rightarrow> check_with_provider P e api payments (get_prop reqBody ''md5'') None now w
      | Some p \<Rightarrow>
          if manualSettledAt p \<noteq> None then (Ok200 (manual_reply P e p), payments, w)
          else check_with_provider P e api payments (get_prop reqBody ''md5'') (Some p) now w)"
    using checkPayment_unfold by blast
  show ?thesis
  proof (cases "payments_get payments (get_prop reqBody ''md5'')")
    case None
    then have "check_with_provider P e api payments (get_prop reqBody ''md5'') None now w
               = (reply, payments', w')"
      using assms [unfolded u] by simp
    then have "payments' = payments
         \<or> (\<exists>k p0 p'. get_prop reqBody ''md5'' = JStr k \<and> payments k = Some p0 \<and> None = Some p0
              \<and> payments' = payments(k \<mapsto> p') \<and> check_touch p0 p')"
      by (rule check_with_provider_ledger) (simp add: None)
    then show ?thesis by simp
  next
    case (Some p)
    show ?thesis
    proof (cases "manualSettledAt p = None")
      case True
      then have "check_with_provider P e api payments (get_prop reqBody ''md5'') (Some p) now w
               = (reply, payments', w')"
        using assms [unfolded u] Some by simp
      then have "payments' = payments
         \<or> (\<exists>k p0 p'. get_prop reqBody ''md5'' = JStr k \<and> payments k = Some p0 \<and> Some p = Some p0
              \<and> payments' = payments(k \<mapsto> p') \<and> check_touch p0 p')"
        by (rule check_with_provider_ledger) (simp add: Some)
      then consider "payments' = payments"
        | k p' where "get_prop reqBody ''md5'' = JStr k" "payments k = Some p"
            "payments' = payments(k \<mapsto> p')" "check_touch p p'"
        by auto
      then show ?thesis
      proof cases
        case 1
        then show ?thesis by simp
      next
        case 2
        then show ?thesis using True by (intro disjI2 exI [of _ k] exI [of _ p] exI [of _ p']) simp
      qed
    next
      case False
      then have "payments' = payments" using assms [unfolded u] Some by simp
      then show ?thesis by simp
    qed
  qed
qed

lemma get_prop_JStr_object: "get_prop v k = JStr s \<Longrightarrow> js_or v (JObj []) = v"
  by (cases v) (simp_all add: js_or_def)

lemma markPaid_success:
  assumes "isDemoManualSettleEnabled P e" "get_prop reqBody ''md5'' = JStr k" "k \<noteq> []"
    and "payments k = Some p"
  shows "markPaid P e payments reqBody isoNow msNow =
     (Ok200 (MarkBody (JStr k)
        (p\<lparr>status := ''completed'',
           completedAt := Some (IsoTime isoNow), manualSettledAt := Some (IsoTime isoNow),
           fromAccount := js_or (normalizeOptionalText (get_prop reqBody ''fromAccountId''))
                            (JStr ''demo@manual''),
           transactionHash := js_or (normalizeOptionalText (get_prop reqBody ''transactionHash''))
                            (JStr (''manual-'' @ show_int msNow))\<rparr>)),
      payments(k \<mapsto>
        p\<lparr>status := ''completed'',
           completedAt := Some (IsoTime isoNow), manualSettledAt := Some (IsoTime isoNow),
           fromAccount := js_or (normalizeOptionalText (get_prop reqBody ''fromAccountId''))
                            (JStr ''demo@manual''),
           transactionHash := js_or (normalizeOptionalText (get_prop reqBody ''transactionHash''))
                            (JStr (''manual-'' @ show_int msNow))\<rparr>))"
proof -
  have b: "js_or reqBody (JObj []) = reqBody"
    using assms(2) by (rule get_prop_JStr_object)
  show ?thesis
    using assms by (simp add: markPaid_def Let_def b payments_get_def payments_set_def)
qed

lemma markPaid_refused:
  assumes "\<not> (isDemoManualSettleEnabled P e
             \<and> (\<exists>k p. get_prop reqBody ''md5'' = JStr k \<and> k \<noteq> [] \<and> payments k = Some p))"
  shows "snd (markPaid P e payments reqBody isoNow msNow) = payments
       \<and> (\<forall>b. fst (markPaid P e payments reqBody isoNow msNow) \<noteq> Ok200 b)"
proof (cases "isDemoManualSettleEnabled P e")
  case False
  then show ?thesis by (simp add: markPaid_def)
next
  case on: True
  show ?thesis
  proof (cases "truthy (get_prop (js_or reqBody (JObj [])) ''md5'')")
    case False
    then show ?thesis using on by (simp add: markPaid_def Let_def)
  next
    case tr: True
    have "payments_get payments (get_prop (js_or reqBody (JObj [])) ''md5'') = None"
    proof (rule ccontr)
      assume "payments_get payments (get_prop (js_or reqBody (JObj [])) ''md5'') \<noteq> None"
      then obtain p where "payments_get payments (get_prop (js_or reqBody (JObj [])) ''md5'') = Some p"
        by blast
      then obtain k where k: "get_prop (js_or reqBody (JObj [])) ''md5'' = JStr k" "payments k = Some p"
        using payments_get_Some by blast
      have "js_or reqBody (JObj []) = reqBody"
        using k(1) by (simp add: js_or_def split: if_splits)
      then have "get_prop reqBody ''md5'' = JStr k" "k \<noteq> []" using k(1) tr by simp_all
      then show False using assms on k(2) by blast
    qed
    then show ?thesis using on tr by (simp add: markPaid_def Let_def)
  qed
qed

lemma post_answered:
  assumes "\<not> (ra \<and> token_missing (apiToken api))"
    and "network w (length (sent w)) (post_request P api ep pl ra opts)
         = Responded (HttpResponse True st (Some doc))"
  shows "post P api ep pl ra opts w = (Inr doc, w\<lparr>sent := sent w @ [post_request P api ep pl ra opts]\<rparr>)"
  using assms by (subst post.simps) (auto simp: fetch_def post_response_def)

lemma postWithRetry_answered:
  assumes "\<not> (ra \<and> token_missing (apiToken api))"
    and "network w (length (sent w)) (post_request P api ep pl ra opts)
         = Responded (HttpResponse True st (Some doc))"
    and "isRetryable P doc = Inr False"
  shows "postWithRetry P api ep pl ra opts w
         = (Inr doc, w\<lparr>sent := sent w @ [post_request P api ep pl ra opts]\<rparr>)"
  using assms by (simp add: postWithRetry_def post_answered [OF assms(1,2)])

lemma example_primary:
  assumes "isRetryable example_platform doc = Inr False"
  shows "checkTransactionByMD5 example_platform example_api (JStr ''md5:qr-usd'') (answering doc)
     = (Inr doc, (answering doc)\<lparr>sent :=
          [post_request example_platform example_api ''/v1/check_transaction_by_md5''
             (JObj [(''md5'', JStr ''md5:qr-usd'')]) True
             (no_options\<lparr>opt_timeoutMs := Some (statusTimeoutMs example_api)\<rparr>)]\<rparr>)"
proof -
  show ?thesis
    unfolding checkTransactionByMD5_def
    by (subst postWithRetry_answered [where st = 200 and doc = doc])
       (simp_all add: assms example_api_def token_missing_def answering_def)
qed

lemma check_with_provider_resolved:
  assumes "check_resolution P e api pay key w = Some (result, st, by)"
  shows "fst (snd (check_with_provider P e api payments key pay now w))
         = record_check payments key pay st result by now"
  using assms
  by (auto simp: check_resolution_def check_with_provider_def split: prod.splits sum.splits)

subsection \<open>A run of the handlers\<close>

lemma example_amount: "decimal_number ''5'' = Fin 5"
  by (simp add: decimal_number_def trim_example)

lemma example_background: "shouldGenerateDeeplinkInBackground example_platform example_env"
  by (simp add: shouldGenerateDeeplinkInBackground_def example_env_def example_platform_def
      env_or_def lower_def lower_char_def)

lemma example_generate_qr:
  "generateIndividualQR example_platform example_libraries
     (JObj [(''accountId'', JStr ''shop@bank''), (''merchantName'', JStr ''Shop''),
            (''merchantCity'', JStr ''Phnom Penh''), (''amount'', JNum (Fin 5)),
            (''currency'', JStr ''USD''), (''billNumber'', JStr ''INV-1''),
            (''mobileNumber'', JUndefined), (''storeLabel'', JStr ''Shop''),
            (''purposeOfTransaction'', JNull)]) tExpiry
   = Inr (GenSuccess ''qr-usd'' ''md5:qr-usd'')"
  by (simp add: generateIndividualQR_def example_validated nullish_def param_default_def
      js_positive_def to_number_def)
     (simp add: example_libraries_def example_platform_def resolveCurrency_def amount_fields_def
      set_if_truthy_def obj_spread_def lib_outcome_def generateMD5_def)

lemma example_platform_fields:
  "parseFloat example_platform = decimal_number"
  "toUpperCase example_platform = map upper_char"
  "toLowerCase example_platform = lower"
  "StringToNumber example_platform = decimal_number"
  by (simp_all add: example_platform_def)

lemma example_generate_at:
  "fst (snd (generateKHQR example_platform example_libraries example_env example_api payments
     example_generate_body ''https'' ''shop.example'' tBill tExpiry tCreated example_world))
   = payments(''md5:qr-usd'' \<mapsto> example_payment\<lparr>createdAt := IsoTime tCreated\<rparr>)"
proof -
  have env: "env_val (BAKONG_ACCOUNT_ID example_env) = JStr ''shop@bank''"
    "env_val (MERCHANT_NAME example_env) = JStr ''Shop''"
    "env_val (MERCHANT_CITY example_env) = JUndefined"
    "env_val (MERCHANT_PHONE example_env) = JUndefined"
    "env_val (BAKONG_API_TOKEN example_env) = JStr ''token''"
    by (simp_all add: example_env_def env_val_def)
  have norm: "normalizeOptionalText (JStr ''INV-1'') = JStr ''INV-1''"
    "normalizeOptionalText JUndefined = JNull"
    by (simp_all add: normalizeOptionalText_def trim_def strip_start.simps white_space_def)
  have url: "toDataURL example_libraries ''qr-usd'' = Inr ''data:image/png;base64,qr-usd''"
    by (simp add: example_libraries_def)
  have dev: "\<not> isUsingDevEnvironment example_api"
    by (simp add: isUsingDevEnvironment_def example_api_def)
  show ?thesis
    unfolding generateKHQR_def example_generate_body_def
    by (simp add: nullish_def param_default_def example_platform_fields example_amount
        upper_char_def bad_amount_def SUPPORTED_CURRENCIES_def env norm js_or_def to_string_def
        example_generate_qr url deeplink_step_def example_background appendWarning_def dev
        example_payment_def Let_def)
qed

lemma example_generate:
  "fst (snd (generateKHQR example_platform example_libraries example_env example_api Map.empty
     example_generate_body ''https'' ''shop.example'' 999 1000 1000 example_world))
   = example_ledger"
  unfolding example_generate_at by (simp add: example_ledger_def example_payment_def)

lemma example_manual_enabled: "isDemoManualSettleEnabled example_platform example_env"
  by (simp add: isDemoManualSettleEnabled_def example_env_def example_platform_def env_or_def
      lower_def lower_char_def)

lemma example_markPaid_at:
  assumes "payments ''md5:qr-usd'' = Some p"
    and "p\<lparr>status := ''completed''\<rparr> = example_payment\<lparr>status := ''completed''\<rparr>"
  shows "markPaid example_platform example_env payments example_check_body 3000 3001
   = (Ok200 (MarkBody (JStr ''md5:qr-usd'') example_settled_payment),
      payments(''md5:qr-usd'' \<mapsto> example_settled_payment))"
proof -
  have p: "p\<lparr>status := ''completed'', completedAt := Some (IsoTime 3000),
           manualSettledAt := Some (IsoTime 3000), fromAccount := JStr ''demo@manual'',
           transactionHash := JStr (''manual-'' @ show_int 3001)\<rparr> = example_settled_payment"
    by (simp only: assms(2) example_settled_payment_def)
  show ?thesis
    by (subst markPaid_success [where k = "''md5:qr-usd''" and p = p])
       (simp_all add: example_manual_enabled example_check_body_def assms(1) p
          normalizeOptionalText_def js_or_def del: append.simps)
qed

lemma example_markPaid:
  "markPaid example_platform example_env example_failed_ledger example_check_body 3000 3001
   = (Ok200 (MarkBody (JStr ''md5:qr-usd'') example_settled_payment),
      example_failed_ledger(''md5:qr-usd'' \<mapsto> example_settled_payment))"
  by (rule example_markPaid_at [of example_failed_ledger "example_payment\<lparr>status := ''failed''\<rparr>"])
     (simp_all add: example_failed_ledger_def)

lemma example_check_failed_at:
  assumes "payments ''md5:qr-usd'' = Some p" and "manualSettledAt p = None"
    and "deeplinkUrl p = JNull"
  shows "checkPayment example_platform example_env example_api payments example_check_body now
     (answering failed_doc)
   = (Ok200
        \<lparr>res_success = False, res_status = ''failed'', res_data = JUndefined,
         res_deeplinkUrl = JNull, res_message = JStr ''Payment failed'',
         res_errorCode = JNum (Fin 3), res_checkedBy = ''md5'',
         res_provider = Some (ProviderSummary ''md5'' (JNum (Fin 1)) (JNum (Fin 3)) JNull, None),
         res_warning = JNull, res_manualSettleEnabled = True\<rparr>,
      payments(''md5:qr-usd'' \<mapsto> p\<lparr>status := ''failed''\<rparr>),
      (answering failed_doc)\<lparr>sent :=
          [post_request example_platform example_api ''/v1/check_transaction_by_md5''
             (JObj [(''md5'', JStr ''md5:qr-usd'')]) True
             (no_options\<lparr>opt_timeoutMs := Some (statusTimeoutMs example_api)\<rparr>)]\<rparr>)"
proof -
  have st: "resolvePaymentStatus example_platform failed_doc = Inr ''failed''"
    by (simp add: resolvePaymentStatus_def failed_doc_def to_number_def)
  have prim: "checkTransactionByMD5 example_platform example_api (JStr ''md5:qr-usd'') (answering failed_doc)
     = (Inr failed_doc, (answering failed_doc)\<lparr>sent :=
          [post_request example_platform example_api ''/v1/check_transaction_by_md5''
             (JObj [(''md5'', JStr ''md5:qr-usd'')]) True
             (no_options\<lparr>opt_timeoutMs := Some (statusTimeoutMs example_api)\<rparr>)]\<rparr>)"
    by (rule example_primary) (simp add: failed_doc_def isRetryable_def to_number_def)
  have dev: "\<not> isUsingDevEnvironment example_api"
    by (simp add: isUsingDevEnvironment_def example_api_def)
  show ?thesis
    apply (simp add: checkPayment_def example_check_body_def nullish_def
        payments_get_def assms check_with_provider_def)
    apply (simp add: prim st short_hash_fallback_def)
    apply (simp add: check_reply_def record_check_def payments_set_def nullish_def failed_doc_def
        buildStatusMessage_def opt_prop_def js_or_def getProviderSummary_def js_coalesce_def
        check_warning_def dev example_manual_enabled assms)
    done
qed

lemma example_check_failed:
  "checkPayment example_platform example_env example_api example_ledger example_check_body 2000
     (answering failed_doc)
   = (Ok200
        \<lparr>res_success = False, res_status = ''failed'', res_data = JUndefined,
         res_deeplinkUrl = JNull, res_message = JStr ''Payment failed'',
         res_errorCode = JNum (Fin 3), res_checkedBy = ''md5'',
         res_provider = Some (ProviderSummary ''md5'' (JNum (Fin 1)) (JNum (Fin 3)) JNull, None),
         res_warning = JNull, res_manualSettleEnabled = True\<rparr>,
      example_ledger(''md5:qr-usd'' \<mapsto> example_payment\<lparr>status := ''failed''\<rparr>),
      (answering failed_doc)\<lparr>sent :=
          [post_request example_platform example_api ''/v1/check_transaction_by_md5''
             (JObj [(''md5'', JStr ''md5:qr-usd'')]) True
             (no_options\<lparr>opt_timeoutMs := Some (statusTimeoutMs example_api)\<rparr>)]\<rparr>)"
  by (rule example_check_failed_at [of example_ledger example_payment 2000])
     (simp_all add: example_ledger_def example_payment_def)

subsection \<open>An error classification\<close>

text \<open>
  C7. When a check of a payment that is in the ledger (and was not settled by hand)
  settles on the status \<open>error\<close>, the handler writes the record back with a new
  \<open>lastProviderError\<close> and nothing else: status, billNumber, amount, currency,
  qrString, md5, description, createdAt, deeplinkUrl and the remaining fields are
  those of the record before, and no other entry of the ledger changes. This holds
  also when the reply itself fails afterwards.
\<close>

theorem check_error_touches_only_lastProviderError:
  assumes "\<not> nullish reqBody" and "truthy (get_prop reqBody ''md5'')"
    and "payments_get payments (get_prop reqBody ''md5'') = Some p"
    and "manualSettledAt p = None"
    and "check_resolution P e api (Some p) (get_prop reqBody ''md5'') w = Some (result, ''error'', by)"
  shows "\<exists>k p'. get_prop reqBody ''md5'' = JStr k
     \<and> fst (snd (checkPayment P e api payments reqBody now w)) = payments(k \<mapsto> p')
     \<and> p' = p\<lparr>lastProviderError := Some
             (ProviderError (IsoTime now) by
                (js_coalesce (opt_prop result ''responseCode'') JNull)
                (js_coalesce (opt_prop result ''errorCode'') JNull)
                (js_coalesce (opt_prop result ''responseMessage'') JNull))\<rparr>
     \<and> status p' = status p \<and> billNumber p' = billNumber p \<and> amount p' = amount p
     \<and> currency p' = currency p \<and> qrString p' = qrString p \<and> md5 p' = md5 p
     \<and> description p' = description p \<and> createdAt p' = createdAt p
     \<and> deeplinkUrl p' = deeplinkUrl p \<and> completedAt p' = completedAt p
     \<and> transactionHash p' = transactionHash p \<and> fromAccount p' = fromAccount p
     \<and> manualSettledAt p' = manualSettledAt p"
proof -
  have "checkPayment P e api payments reqBody now w
        = check_with_provider P e api payments (get_prop reqBody ''md5'') (Some p) now w"
    using assms(1-4) by (simp add: checkPayment_unfold)
  then have led: "fst (snd (checkPayment P e api payments reqBody now w))
        = record_check payments (get_prop reqBody ''md5'') (Some p) ''error'' result by now"
    using check_with_provider_resolved [OF assms(5)] by simp
  obtain k where k: "get_prop reqBody ''md5'' = JStr k" "payments k = Some p"
    and rc: "record_check payments (get_prop reqBody ''md5'') (Some p) ''error'' result by now
         = payments(k \<mapsto> p\<lparr>lastProviderError := Some
             (ProviderError (IsoTime now) by
                (js_coalesce (opt_prop result ''responseCode'') JNull)
                (js_coalesce (opt_prop result ''errorCode'') JNull)
                (js_coalesce (opt_prop result ''responseMessage'') JNull))\<rparr>)"
    using record_check_error [OF assms(3)] by blast
  show ?thesis using k led rc by simp
qed

lemma example_error_resolution:
  "check_resolution example_platform example_env example_api (Some example_payment)
     (JStr ''md5:qr-usd'') (answering error_doc) = Some (error_doc, ''error'', ''md5'')"
proof -
  have st: "resolvePaymentStatus example_platform error_doc = Inr ''error''"
    by (simp add: resolvePaymentStatus_def error_doc_def isLikelyPendingMessage_string regex_empty
        to_number_def to_string_def example_platform_def render_number_def show_int_def
        show_nat.simps provider_error_codes_def)
  have prim: "checkTransactionByMD5 example_platform example_api (JStr ''md5:qr-usd'') (answering error_doc)
     = (Inr error_doc, (answering error_doc)\<lparr>sent :=
          [post_request example_platform example_api ''/v1/check_transaction_by_md5''
             (JObj [(''md5'', JStr ''md5:qr-usd'')]) True
             (no_options\<lparr>opt_timeoutMs := Some (statusTimeoutMs example_api)\<rparr>)]\<rparr>)"
    by (rule example_primary) (simp add: error_doc_def isRetryable_def to_number_def)
  show ?thesis
    by (simp add: check_resolution_def prim st short_hash_fallback_def)
qed

theorem check_error_touches_only_lastProviderError_witness:
  "fst (snd (checkPayment example_platform example_env example_api example_ledger
               example_check_body 2000 (answering error_doc)))
   = example_ledger(''md5:qr-usd'' \<mapsto> example_payment\<lparr>lastProviderError := Some
       (ProviderError (IsoTime 2000) ''md5'' (JNum (Fin 1)) (JNum (Fin 6)) JNull)\<rparr>)"
proof -
  have a: "\<not> nullish example_check_body" "truthy (get_prop example_check_body ''md5'')"
    "payments_get example_ledger (get_prop example_check_body ''md5'') = Some example_payment"
    "manualSettledAt example_payment = None"
    by (simp_all add: example_check_body_def nullish_def payments_get_def example_ledger_def
        example_payment_def)
  have r: "check_resolution example_platform example_env example_api (Some example_payment)
     (get_prop example_check_body ''md5'') (answering error_doc) = Some (error_doc, ''error'', ''md5'')"
    using example_error_resolution by (simp add: example_check_body_def)
  show ?thesis
    using check_error_touches_only_lastProviderError [OF a r, of 2000]
    by (auto simp: example_check_body_def error_doc_def opt_prop_def nullish_def js_coalesce_def)
qed

subsection \<open>Manual settlement\<close>

lemma manual_reply_fields:
  "res_success (manual_reply P e p) \<and> res_status (manual_reply P e p) = ''completed''
   \<and> res_checkedBy (manual_reply P e p) = ''manual'' \<and> res_provider (manual_reply P e p) = None"
  by (simp add: manual_reply_def)

lemma checkPayment_manual:
  assumes "\<not> nullish reqBody" "truthy (get_prop reqBody ''md5'')"
    and "payments_get payments (get_prop reqBody ''md5'') = Some p"
    and "manualSettledAt p \<noteq> None"
  shows "checkPayment P e api payments reqBody now w = (Ok200 (manual_reply P e p), payments, w)"
  using assms by (simp add: checkPayment_unfold)

lemma markPaid_sets_manual:
  assumes "markPaid P e payments0 reqBody0 isoNow msNow = (Ok200 mb, payments)"
  shows "\<exists>p. payments_get payments (get_prop reqBody0 ''md5'') = Some p
           \<and> manualSettledAt p = Some (IsoTime isoNow)
           \<and> truthy (get_prop reqBody0 ''md5'') \<and> \<not> nullish reqBody0"
proof (cases "isDemoManualSettleEnabled P e
             \<and> (\<exists>k p. get_prop reqBody0 ''md5'' = JStr k \<and> k \<noteq> [] \<and> payments0 k = Some p)")
  case False
  then show ?thesis using markPaid_refused [OF False, of isoNow msNow] assms by simp
next
  case True
  then obtain k p where k: "get_prop reqBody0 ''md5'' = JStr k" "k \<noteq> []" "payments0 k = Some p"
    and on: "isDemoManualSettleEnabled P e" by blast
  have nn: "\<not> nullish reqBody0" using k(1) by (cases reqBody0) (simp_all add: nullish_def)
  show ?thesis
    using assms k nn
    unfolding markPaid_success [of P e reqBody0 k payments0 p isoNow msNow, OF on k]
    by (auto simp: payments_get_def)
qed

lemma checkPayment_keeps_manual:
  assumes "checkPayment P e api payments reqBody now w = (reply, payments', w')"
    and "payments k = Some p" "manualSettledAt p \<noteq> None"
  shows "payments' k = Some p"
proof -
  consider "payments' = payments"
    | k0 p0 p' where "payments k0 = Some p0" "manualSettledAt p0 = None" "payments' = payments(k0 \<mapsto> p')"
    using checkPayment_ledger [OF assms(1)] by blast
  then show ?thesis
  proof cases
    case 1
    then show ?thesis using assms(2) by simp
  next
    case 2
    then have "k0 \<noteq> k" using assms(2,3) by auto
    then show ?thesis using 2 assms(2) by simp
  qed
qed

lemma markPaid_keeps_manual:
  assumes "markPaid P e payments reqBody isoNow msNow = (reply, payments')"
    and "payments k = Some p" "manualSettledAt p \<noteq> None"
  shows "\<exists>p'. payments' k = Some p' \<and> manualSettledAt p' \<noteq> None"
proof (cases "isDemoManualSettleEnabled P e
             \<and> (\<exists>k p. get_prop reqBody ''md5'' = JStr k \<and> k \<noteq> [] \<and> payments k = Some p)")
  case False
  then show ?thesis using markPaid_refused [OF False, of isoNow msNow] assms by simp
next
  case True
  then obtain k0 p0 where k: "get_prop reqBody ''md5'' = JStr k0" "k0 \<noteq> []" "payments k0 = Some p0"
    and on: "isDemoManualSettleEnabled P e" by blast
  show ?thesis
    using assms k
    unfolding markPaid_success [of P e reqBody k0 payments p0 isoNow msNow, OF on k]
    by (cases "k0 = k") auto
qed

lemma backgroundDeeplink_ledger:
  assumes "backgroundDeeplink P api payments key qr sourceInfo w = (payments', w')"
  shows "payments' = payments
         \<or> (\<exists>p link. payments key = Some p \<and> payments' = payments(key \<mapsto> p\<lparr>deeplinkUrl := link\<rparr>))"
  using assms unfolding backgroundDeeplink_def Let_def
  by (auto split: prod.splits sum.splits if_splits option.splits)

lemma backgroundDeeplink_keeps_manual:
  assumes "backgroundDeeplink P api payments key qr sourceInfo w = (payments', w')"
    and "payments k = Some p" "manualSettledAt p \<noteq> None"
  shows "\<exists>p'. payments' k = Some p' \<and> manualSettledAt p' \<noteq> None"
proof -
  consider "payments' = payments"
    | p0 link where "payments key = Some p0" "payments' = payments(key \<mapsto> p0\<lparr>deeplinkUrl := link\<rparr>)"
    using backgroundDeeplink_ledger [OF assms(1)] by blast
  then show ?thesis
  proof cases
    case 1
    then show ?thesis using assms(2,3) by simp
  next
    case 2
    then show ?thesis using assms(2,3) by (cases "key = k") auto
  qed
qed

lemma lib_outcome_success:
  "lib_outcome P r = Inr (GenSuccess qr key) \<Longrightarrow> key = generateMD5 P qr"
  by (auto simp: lib_outcome_def split: sum.splits if_splits)

lemma generateIndividualQR_success:
  "generateIndividualQR P L args now = Inr (GenSuccess qr key) \<Longrightarrow> key = generateMD5 P qr"
  unfolding generateIndividualQR_def Let_def
  by (auto split: option.splits sum.splits if_splits dest: lib_outcome_success)

lemma generateKHQR_entry:
  "\<forall>k info.
     fst (snd (generateKHQR P L e api payments reqBody protocol host tBill tExpiry tCreated w)) k
       = Some info
     \<longrightarrow> payments k = Some info
         \<or> (k = generateMD5 P (qrString info) \<and> md5 info = k \<and> manualSettledAt info = None)"
  unfolding generateKHQR_def Let_def
  by (simp split: sum.split gen_result.split prod.split)
     (auto dest!: generateIndividualQR_success)

lemma generateKHQR_keeps:
  "\<forall>k p. payments k = Some p
     \<longrightarrow> fst (snd (generateKHQR P L e api payments reqBody protocol host tBill tExpiry tCreated w)) k
           \<noteq> None"
  unfolding generateKHQR_def Let_def
  by (simp split: sum.split gen_result.split prod.split)

text \<open>
  C10, as amended. A check of a record whose \<open>manualSettledAt\<close> is set replies with
  success \<open>true\<close>, status \<open>completed\<close> and \<open>checkedBy\<close> \<open>manual\<close>, and leaves the ledger
  and the world as they were: the provider is not contacted and the record is not
  modified. A successful mark-paid sets the field of the record under the key of its
  request. A later check, of whatever key, leaves a record with the field set as it
  is; a later mark-paid and a later deeplink completion leave the field set. A later
  generate leaves the record as it is unless it produces the record's key: then it
  stores a new record, whose field is not set, in its place.
\<close>

theorem manual_settle_short_circuits_check:
  "(\<not> nullish reqBody \<and> truthy (get_prop reqBody ''md5'')
      \<and> payments_get payments (get_prop reqBody ''md5'') = Some p \<and> manualSettledAt p \<noteq> None
     \<longrightarrow> checkPayment P e api payments reqBody now w = (Ok200 (manual_reply P e p), payments, w)
         \<and> res_success (manual_reply P e p)
         \<and> res_status (manual_reply P e p) = ''completed''
         \<and> res_checkedBy (manual_reply P e p) = ''manual'')
   \<and> (markPaid P e payments0 reqBody0 isoNow msNow = (Ok200 mb, payments)
     \<longrightarrow> (\<exists>p0. payments_get payments (get_prop reqBody0 ''md5'') = Some p0
           \<and> manualSettledAt p0 \<noteq> None
           \<and> truthy (get_prop reqBody0 ''md5'') \<and> \<not> nullish reqBody0))
   \<and> (checkPayment P e api payments reqBody1 now1 w1 = (reply1, payments1, w1')
       \<and> payments k = Some p1 \<and> manualSettledAt p1 \<noteq> None
     \<longrightarrow> payments1 k = Some p1)
   \<and> (markPaid P e payments reqBody2 isoNow2 msNow2 = (reply2, payments2)
       \<and> payments k = Some p1 \<and> manualSettledAt p1 \<noteq> None
     \<longrightarrow> (\<exists>p2. payments2 k = Some p2 \<and> manualSettledAt p2 \<noteq> None))
   \<and> (backgroundDeeplink P api payments key qr sourceInfo w3 = (payments3, w3')
       \<and> payments k = Some p1 \<and> manualSettledAt p1 \<noteq> None
     \<longrightarrow> (\<exists>p3. payments3 k = Some p3 \<and> manualSettledAt p3 \<noteq> None))
   \<and> (generateKHQR P L e api payments reqBody4 protocol host tBill tExpiry tCreated w4
         = (reply4, payments4, w4', task4)
       \<and> payments k = Some p1 \<and> manualSettledAt p1 \<noteq> None
     \<longrightarrow> payments4 k = Some p1
         \<or> (\<exists>info. payments4 k = Some info \<and> manualSettledAt info = None
               \<and> k = generateMD5 P (qrString info)))"
proof (intro conjI impI)
  assume a: "\<not> nullish reqBody \<and> truthy (get_prop reqBody ''md5'')
      \<and> payments_get payments (get_prop reqBody ''md5'') = Some p \<and> manualSettledAt p \<noteq> None"
  then show "checkPayment P e api payments reqBody now w = (Ok200 (manual_reply P e p), payments, w)"
    using checkPayment_manual by blast
  show "res_success (manual_reply P e p)" "res_status (manual_reply P e p) = ''completed''"
    "res_checkedBy (manual_reply P e p) = ''manual''"
    using manual_reply_fields by blast+
next
  assume "markPaid P e payments0 reqBody0 isoNow msNow = (Ok200 mb, payments)"
  then show "\<exists>p0. payments_get payments (get_prop reqBody0 ''md5'') = Some p0
           \<and> manualSettledAt p0 \<noteq> None
           \<and> truthy (get_prop reqBody0 ''md5'') \<and> \<not> nullish reqBody0"
    using markPaid_sets_manual by fastforce
next
  assume "checkPayment P e api payments reqBody1 now1 w1 = (reply1, payments1, w1')
       \<and> payments k = Some p1 \<and> manualSettledAt p1 \<noteq> None"
  then show "payments1 k = Some p1" using checkPayment_keeps_manual by blast
next
  assume "markPaid P e payments reqBody2 isoNow2 msNow2 = (reply2, payments2)
       \<and> payments k = Some p1 \<and> manualSettledAt p1 \<noteq> None"
  then show "\<exists>p2. payments2 k = Some p2 \<and> manualSettledAt p2 \<noteq> None"
    using markPaid_keeps_manual [of P e payments reqBody2 isoNow2 msNow2 reply2 payments2 k p1]
    by simp
next
  assume "backgroundDeeplink P api payments key qr sourceInfo w3 = (payments3, w3')
       \<and> payments k = Some p1 \<and> manualSettledAt p1 \<noteq> None"
  then show "\<exists>p3. payments3 k = Some p3 \<and> manualSettledAt p3 \<noteq> None"
    using backgroundDeeplink_keeps_manual [of P api payments key qr sourceInfo w3 payments3 w3' k p1]
    by simp
next
  assume g: "generateKHQR P L e api payments reqBody4 protocol host tBill tExpiry tCreated w4
         = (reply4, payments4, w4', task4)
       \<and> payments k = Some p1 \<and> manualSettledAt p1 \<noteq> None"
  then have "payments4 k \<noteq> None"
    using generateKHQR_keeps [of payments P L e api reqBody4 protocol host tBill tExpiry tCreated w4]
    by simp
  then obtain info where info: "payments4 k = Some info" by blast
  have run: "fst (snd (generateKHQR P L e api payments reqBody4 protocol host tBill tExpiry
      tCreated w4)) k = Some info"
    using g info by simp
  have "payments k = Some info
         \<or> (k = generateMD5 P (qrString info) \<and> md5 info = k \<and> manualSettledAt info = None)"
    using generateKHQR_entry [rule_format, OF run] .
  then show "payments4 k = Some p1
         \<or> (\<exists>info. payments4 k = Some info \<and> manualSettledAt info = None
               \<and> k = generateMD5 P (qrString info))"
    using g info by auto
qed

theorem manual_settle_short_circuits_check_witness:
  "markPaid example_platform example_env example_failed_ledger example_check_body 3000 3001
     = (Ok200 (MarkBody (JStr ''md5:qr-usd'') example_settled_payment),
        example_failed_ledger(''md5:qr-usd'' \<mapsto> example_settled_payment))
   \<and> manualSettledAt example_settled_payment \<noteq> None
   \<and> checkPayment example_platform example_env example_api
     (example_failed_ledger(''md5:qr-usd'' \<mapsto> example_settled_payment)) example_check_body 4000
     example_world
   = (Ok200 (manual_reply example_platform example_env example_settled_payment),
      example_failed_ledger(''md5:qr-usd'' \<mapsto> example_settled_payment), example_world)
   \<and> res_checkedBy (manual_reply example_platform example_env example_settled_payment) = ''manual''"
  using manual_settle_short_circuits_check
    [of example_check_body "example_failed_ledger(''md5:qr-usd'' \<mapsto> example_settled_payment)"
        example_settled_payment example_platform example_env example_api 4000 example_world
        example_failed_ledger example_check_body 3000 3001
        "MarkBody (JStr ''md5:qr-usd'') example_settled_payment"]
    example_markPaid
  by (simp add: example_check_body_def nullish_def payments_get_def example_settled_payment_def)

text \<open>
  C10 as stated fails: not every check after a mark-paid is answered from the record.
  A generate stores its record in the ledger; a mark-paid settles that record by
  hand; a second generate of the same bill yields the same QR string, hence the same
  key, and puts a new record, not settled, in the place of the settled one; the check
  that follows asks the provider and replies with status \<open>failed\<close> and \<open>checkedBy\<close>
  \<open>md5\<close>.
\<close>

theorem manual_settle_overwritten_counterexample:
  "fst (snd (generateKHQR example_platform example_libraries example_env example_api Map.empty
       example_generate_body ''https'' ''shop.example'' 999 1000 1000 example_world))
     = example_ledger
   \<and> markPaid example_platform example_env example_ledger example_check_body 3000 3001
     = (Ok200 (MarkBody (JStr ''md5:qr-usd'') example_settled_payment),
        example_ledger(''md5:qr-usd'' \<mapsto> example_settled_payment))
   \<and> manualSettledAt example_settled_payment = Some (IsoTime 3000)
   \<and> fst (snd (generateKHQR example_platform example_libraries example_env example_api
       (example_ledger(''md5:qr-usd'' \<mapsto> example_settled_payment))
       example_generate_body ''https'' ''shop.example'' 4000 4000 4000 example_world))
     = example_ledger(''md5:qr-usd'' \<mapsto> example_payment\<lparr>createdAt := IsoTime 4000\<rparr>)
   \<and> manualSettledAt (example_payment\<lparr>createdAt := IsoTime 4000\<rparr>) = None
   \<and> (\<exists>b w'. checkPayment example_platform example_env example_api
          (example_ledger(''md5:qr-usd'' \<mapsto> example_payment\<lparr>createdAt := IsoTime 4000\<rparr>))
          example_check_body 5000 (answering failed_doc)
        = (Ok200 b,
           example_ledger(''md5:qr-usd'' \<mapsto>
             example_payment\<lparr>createdAt := IsoTime 4000, status := ''failed''\<rparr>),
           w')
        \<and> \<not> res_success b \<and> res_status b = ''failed'' \<and> res_checkedBy b = ''md5''
        \<and> length (sent w') = 1)"
proof -
  have m: "markPaid example_platform example_env example_ledger example_check_body 3000 3001
     = (Ok200 (MarkBody (JStr ''md5:qr-usd'') example_settled_payment),
        example_ledger(''md5:qr-usd'' \<mapsto> example_settled_payment))"
    by (rule example_markPaid_at [of example_ledger example_payment])
       (simp_all add: example_ledger_def)
  have s: "manualSettledAt example_settled_payment = Some (IsoTime 3000)"
    "manualSettledAt (example_payment\<lparr>createdAt := IsoTime 4000\<rparr>) = None"
    by (simp_all add: example_settled_payment_def example_payment_def)
  have c: "checkPayment example_platform example_env example_api
          (example_ledger(''md5:qr-usd'' \<mapsto> example_payment\<lparr>createdAt := IsoTime 4000\<rparr>))
          example_check_body 5000 (answering failed_doc)
        = (Ok200
        \<lparr>res_success = False, res_status = ''failed'', res_data = JUndefined,
         res_deeplinkUrl = JNull, res_message = JStr ''Payment failed'',
         res_errorCode = JNum (Fin 3), res_checkedBy = ''md5'',
         res_provider = Some (ProviderSummary ''md5'' (JNum (Fin 1)) (JNum (Fin 3)) JNull, None),
         res_warning = JNull, res_manualSettleEnabled = True\<rparr>,
      (example_ledger(''md5:qr-usd'' \<mapsto> example_payment\<lparr>createdAt := IsoTime 4000\<rparr>))
        (''md5:qr-usd'' \<mapsto> example_payment\<lparr>createdAt := IsoTime 4000\<rparr>\<lparr>status := ''failed''\<rparr>),
      (answering failed_doc)\<lparr>sent :=
          [post_request example_platform example_api ''/v1/check_transaction_by_md5''
             (JObj [(''md5'', JStr ''md5:qr-usd'')]) True
             (no_options\<lparr>opt_timeoutMs := Some (statusTimeoutMs example_api)\<rparr>)]\<rparr>)"
    by (rule example_check_failed_at) (simp_all add: example_payment_def)
  show ?thesis
    using example_generate unfolding m c
    by (simp add: s example_generate_at)
qed

subsection \<open>Status transitions\<close>

lemma check_touch_status:
  "check_touch p p' \<Longrightarrow> status p' = status p \<or> status p' = ''completed'' \<or> status p' = ''failed''"
  by (auto simp: check_touch_def)

lemma checkPayment_status:
  assumes "checkPayment P e api payments reqBody now w = (reply, payments', w')"
    and "payments k = Some p"
  shows "\<exists>p'. payments' k = Some p'
     \<and> (status p' = status p \<or> status p' = ''completed'' \<or> status p' = ''failed'')"
proof -
  consider "payments' = payments"
    | k0 p0 p' where "payments k0 = Some p0" "payments' = payments(k0 \<mapsto> p')" "check_touch p0 p'"
    using checkPayment_ledger [OF assms(1)] by blast
  then show ?thesis
  proof cases
    case 1
    then show ?thesis using assms(2) by simp
  next
    case 2
    show ?thesis
    proof (cases "k0 = k")
      case True
      then have "p0 = p" using 2(1) assms(2) by simp
      then show ?thesis using 2 True check_touch_status by simp
    next
      case False
      then show ?thesis using 2 assms(2) by simp
    qed
  qed
qed

lemma markPaid_status:
  assumes "markPaid P e payments reqBody isoNow msNow = (reply, payments')"
    and "payments k = Some p"
  shows "\<exists>p'. payments' k = Some p' \<and> (status p' = status p \<or> status p' = ''completed'')"
proof (cases "isDemoManualSettleEnabled P e
             \<and> (\<exists>k p. get_prop reqBody ''md5'' = JStr k \<and> k \<noteq> [] \<and> payments k = Some p)")
  case False
  then show ?thesis using markPaid_refused [OF False, of isoNow msNow] assms by simp
next
  case True
  then obtain k0 p0 where k: "get_prop reqBody ''md5'' = JStr k0" "k0 \<noteq> []" "payments k0 = Some p0"
    and on: "isDemoManualSettleEnabled P e" by blast
  show ?thesis
    using assms k
    unfolding markPaid_success [of P e reqBody k0 payments p0 isoNow msNow, OF on k]
    by (cases "k0 = k") auto
qed

text \<open>
  C1, as amended. The handlers write only \<open>completed\<close> or \<open>failed\<close> into the status
  of a stored record: after a check every record has the status it had, or
  \<open>completed\<close>, or \<open>failed\<close>; after a mark-paid every record has the status it had, or
  \<open>completed\<close>. The status \<open>error\<close> is never written, and the status before is not
  tested.
\<close>

theorem status_set_only_to_completed_or_failed:
  "(checkPayment P e api payments reqBody now w = (reply, payments', w') \<and> payments k = Some p
      \<longrightarrow> (\<exists>p'. payments' k = Some p'
             \<and> (status p' = status p \<or> status p' = ''completed'' \<or> status p' = ''failed'')))
   \<and> (markPaid P e payments reqBody isoNow msNow = (mreply, payments'') \<and> payments k = Some p
      \<longrightarrow> (\<exists>p'. payments'' k = Some p' \<and> (status p' = status p \<or> status p' = ''completed'')))"
proof (intro conjI impI)
  assume "checkPayment P e api payments reqBody now w = (reply, payments', w') \<and> payments k = Some p"
  then show "\<exists>p'. payments' k = Some p'
             \<and> (status p' = status p \<or> status p' = ''completed'' \<or> status p' = ''failed'')"
    using checkPayment_status [of P e api payments reqBody now w reply payments' w' k p] by simp
next
  assume "markPaid P e payments reqBody isoNow msNow = (mreply, payments'') \<and> payments k = Some p"
  then show "\<exists>p'. payments'' k = Some p' \<and> (status p' = status p \<or> status p' = ''completed'')"
    using markPaid_status [of P e payments reqBody isoNow msNow mreply payments'' k p] by simp
qed

theorem status_set_only_to_completed_or_failed_witness:
  "example_ledger ''md5:qr-usd'' = Some example_payment
   \<and> (\<exists>p'. example_failed_ledger ''md5:qr-usd'' = Some p'
        \<and> (status p' = status example_payment \<or> status p' = ''completed'' \<or> status p' = ''failed''))
   \<and> map_option status (example_failed_ledger ''md5:qr-usd'') = Some ''failed''"
proof -
  have run: "checkPayment example_platform example_env example_api example_ledger example_check_body 2000
     (answering failed_doc)
   = (fst (checkPayment example_platform example_env example_api example_ledger example_check_body 2000
        (answering failed_doc)), example_failed_ledger,
      snd (snd (checkPayment example_platform example_env example_api example_ledger example_check_body 2000
        (answering failed_doc))))"
    by (simp add: example_check_failed example_failed_ledger_def)
  have here: "example_ledger ''md5:qr-usd'' = Some example_payment"
    by (simp add: example_ledger_def)
  show ?thesis
    using status_set_only_to_completed_or_failed
      [of example_platform example_env example_api example_ledger example_check_body 2000
          "answering failed_doc" _ example_failed_ledger _ "''md5:qr-usd''" example_payment]
      run here
    by (simp add: example_failed_ledger_def)
qed

text \<open>
  C1 as stated fails: a record that a check has moved from \<open>pending\<close> to \<open>failed\<close> is
  moved on to \<open>completed\<close> by a mark-paid.
\<close>

theorem failed_record_completed_counterexample:
  "map_option status (example_ledger ''md5:qr-usd'') = Some ''pending''
   \<and> map_option status
        (fst (snd (checkPayment example_platform example_env example_api example_ledger
                     example_check_body 2000 (answering failed_doc))) ''md5:qr-usd'') = Some ''failed''
   \<and> map_option status
        (snd (markPaid example_platform example_env
                (fst (snd (checkPayment example_platform example_env example_api example_ledger
                             example_check_body 2000 (answering failed_doc))))
                example_check_body 3000 3001) ''md5:qr-usd'') = Some ''completed''"
  by (simp add: example_check_failed example_failed_ledger_def [symmetric] example_markPaid)
     (simp add: example_ledger_def example_payment_def example_failed_ledger_def
        example_settled_payment_def)

subsection \<open>The short-hash fallback\<close>

lemma post_sent_new:
  "\<exists>new. sent (snd (post P api ep pl ra opts w)) = sent w @ new
     \<and> (\<forall>q \<in> set new. url q = baseUrl api @ ep \<and> body q = pl)"
  using post_sent_cases [of P api ep pl ra opts w]
  by (auto simp: post_request_def)

lemma retry_loop_sent_new:
  "\<exists>new. sent (snd (retry_loop P api ep pl ra opts retries delay attempt result w)) = sent w @ new
     \<and> (\<forall>q \<in> set new. url q = baseUrl api @ ep \<and> body q = pl)"
proof (induction P api ep pl ra opts retries delay attempt result w rule: retry_loop.induct)
  case (1 P api ep pl ra opts retries delay attempt result w)
  show ?case
  proof (cases "js_le attempt retries")
    case False
    then show ?thesis by (subst retry_loop.simps) simp
  next
    case le: True
    obtain x w1 where xw: "post P api ep pl ra opts (sleep delay w) = (x, w1)"
      by (cases "post P api ep pl ra opts (sleep delay w)")
    obtain new1 where n1: "sent w1 = sent w @ new1"
      "\<forall>q \<in> set new1. url q = baseUrl api @ ep \<and> body q = pl"
      using post_sent_new [of P api ep pl ra opts "sleep delay w"] xw by (auto simp: sleep_def)
    show ?thesis
    proof (cases x)
      case (Inl ex)
      then show ?thesis using le xw n1 by (subst retry_loop.simps) simp
    next
      case (Inr result1)
      show ?thesis
      proof (cases "isRetryable P result1 = Inr True")
        case False
        then show ?thesis using le xw n1 Inr isRetryable_cases [of P result1]
          by (subst retry_loop.simps) auto
      next
        case True
        obtain new2 where n2:
          "sent (snd (retry_loop P api ep pl ra opts retries delay (attempt + 1) result1 w1))
             = sent w1 @ new2"
          "\<forall>q \<in> set new2. url q = baseUrl api @ ep \<and> body q = pl"
          using "1.IH" [OF le xw [symmetric] Inr True] by auto
        have "retry_loop P api ep pl ra opts retries delay attempt result w
              = retry_loop P api ep pl ra opts retries delay (attempt + 1) result1 w1"
          using le xw Inr True by (subst retry_loop.simps) simp
        then have "sent (snd (retry_loop P api ep pl ra opts retries delay attempt result w))
              = sent w @ (new1 @ new2)"
          using n1(1) n2(1) by simp
        moreover have "\<forall>q \<in> set (new1 @ new2). url q = baseUrl api @ ep \<and> body q = pl"
          using n1(2) n2(2) by auto
        ultimately show ?thesis by blast
      qed
    qed
  qed
qed

lemma postWithRetry_sent_new:
  "\<exists>new. sent (snd (postWithRetry P api ep pl ra opts w)) = sent w @ new
     \<and> (\<forall>q \<in> set new. url q = baseUrl api @ ep \<and> body q = pl)"
proof -
  obtain x w1 where xw: "post P api ep pl ra opts w = (x, w1)"
    by (cases "post P api ep pl ra opts w")
  obtain new1 where n1: "sent w1 = sent w @ new1"
    "\<forall>q \<in> set new1. url q = baseUrl api @ ep \<and> body q = pl"
    using post_sent_new [of P api ep pl ra opts w] xw by auto
  let ?retries = "reparseInt P
    (case opt_retries opts of None \<Rightarrow> retryAttempts api | Some r \<Rightarrow> r)"
  let ?delay = "reparseInt P
    (case opt_retryDelayMs opts of None \<Rightarrow> retryDelayMs api | Some d \<Rightarrow> d)"
  show ?thesis
  proof (cases "\<exists>result. x = Inr result \<and> isRetryable P result = Inr True
                  \<and> \<not> jsint_le ?retries 0")
    case False
    have "snd (postWithRetry P api ep pl ra opts w) = w1"
    proof (cases x)
      case (Inl ex)
      then show ?thesis using xw by (simp add: postWithRetry_def)
    next
      case (Inr result)
      then show ?thesis using xw False isRetryable_cases [of P result]
        by (auto simp: postWithRetry_def Let_def)
    qed
    then show ?thesis using n1 by auto
  next
    case True
    then obtain result where r: "x = Inr result" "isRetryable P result = Inr True"
        "\<not> jsint_le ?retries 0"
      by blast
    have eq: "postWithRetry P api ep pl ra opts w
          = retry_loop P api ep pl ra opts ?retries ?delay 1 result w1"
      using xw r by (simp add: postWithRetry_def Let_def)
    obtain new2 where n2:
      "sent (snd (retry_loop P api ep pl ra opts ?retries ?delay 1 result w1)) = sent w1 @ new2"
      "\<forall>q \<in> set new2. url q = baseUrl api @ ep \<and> body q = pl"
      using retry_loop_sent_new by blast
    have "sent (snd (postWithRetry P api ep pl ra opts w)) = sent w @ (new1 @ new2)"
      using eq n1(1) n2(1) by simp
    moreover have "\<forall>q \<in> set (new1 @ new2). url q = baseUrl api @ ep \<and> body q = pl"
      using n1(2) n2(2) by auto
    ultimately show ?thesis by blast
  qed
qed

lemma sent_new_drop:
  assumes "\<exists>new. sent w' = sent w @ new \<and> (\<forall>q \<in> set new. Q q)"
  shows "\<forall>q \<in> set (drop (length (sent w)) (sent w')). Q q"
  using assms by auto

lemma check_reply_fields:
  "check_reply P e api pay result st by fb = Ok200 b
   \<Longrightarrow> res_checkedBy b = by \<and> res_status b = st \<and> res_success b = (st = ''completed'')"
  by (auto simp: check_reply_def split: if_splits sum.splits)

lemma short_hash_fallback_not_due:
  "\<not> fallback_due e pay st
   \<Longrightarrow> short_hash_fallback P e api pay result st w = (Inr (result, st, ''md5'', None), w)"
  by (auto simp: short_hash_fallback_def fallback_due_def split: option.splits)

lemma short_hash_fallback_due:
  assumes "fallback_due e (Some p) st"
    and "checkTransactionByShortHash P api (JStr (take 8 (sha256_hex P (qrString p))))
           (JNum (amount p)) (JStr (currency p)) w = (Inr shr, w2)"
  shows "short_hash_fallback P e api (Some p) result st w =
     (case resolvePaymentStatus P shr of
        Inl ex \<Rightarrow> (Inl ex, w2)
      | Inr sst \<Rightarrow>
          if sst = ''completed'' \<or> sst = ''failed''
          then (Inr (shr, sst, ''short_hash'', Some (getProviderSummary ''short_hash'' shr)), w2)
          else (Inr (result, st, ''md5'', Some (getProviderSummary ''short_hash'' shr)), w2))"
  using assms
  by (auto simp: short_hash_fallback_def fallback_due_def generateShortHash_def Let_def
      split: sum.split)

lemma checkPayment_provider:
  assumes "\<not> nullish reqBody" "truthy (get_prop reqBody ''md5'')"
    and "pay = payments_get payments (get_prop reqBody ''md5'')"
    and "case pay of None \<Rightarrow> True | Some p \<Rightarrow> manualSettledAt p = None"
  shows "checkPayment P e api payments reqBody now w
         = check_with_provider P e api payments (get_prop reqBody ''md5'') pay now w"
  using assms by (simp add: checkPayment_unfold split: option.splits)

text \<open>
  C3. In a check that reaches the provider (the request is well formed and the record,
  if any, was not settled by hand) and whose primary lookup returns a result: every
  request of the primary lookup goes to the md5 endpoint. If the short-hash lookup is
  not due (the primary result is not \<open>pending\<close>, or the payment is not in the ledger, or
  its \<open>qrString\<close> is empty, or no API token is configured), the handler makes no
  further request and replies from the primary result with \<open>checkedBy\<close> \<open>md5\<close>. If it
  is due, the lookup's requests go to the short-hash endpoint and carry the first 8 hex
  characters of the SHA-256 of the stored QR string, the stored amount and the stored
  currency; its result takes the place of the primary one, with \<open>checkedBy\<close>
  \<open>short_hash\<close>, exactly when it classifies as \<open>completed\<close> or \<open>failed\<close>, and otherwise
  the primary result and \<open>md5\<close> stay.
\<close>

theorem short_hash_fallback_rule:
  assumes "\<not> nullish reqBody" and "truthy (get_prop reqBody ''md5'')"
    and "pay = payments_get payments (get_prop reqBody ''md5'')"
    and "case pay of None \<Rightarrow> True | Some p \<Rightarrow> manualSettledAt p = None"
    and "checkTransactionByMD5 P api (get_prop reqBody ''md5'') w = (Inr result0, w1)"
    and "resolvePaymentStatus P result0 = Inr st0"
  shows
   "(\<forall>q \<in> set (drop (length (sent w)) (sent w1)).
        url q = baseUrl api @ ''/v1/check_transaction_by_md5'')
    \<and> (\<not> fallback_due e pay st0 \<longrightarrow>
         checkPayment P e api payments reqBody now w
         = (check_reply P e api pay result0 st0 ''md5'' None,
            record_check payments (get_prop reqBody ''md5'') pay st0 result0 ''md5'' now,
            w1))
    \<and> (\<forall>p x w2.
          fallback_due e pay st0 \<and> pay = Some p
          \<and> checkTransactionByShortHash P api (JStr (take 8 (sha256_hex P (qrString p))))
               (JNum (amount p)) (JStr (currency p)) w1 = (x, w2)
          \<longrightarrow>
          (\<forall>q \<in> set (drop (length (sent w1)) (sent w2)).
              url q = baseUrl api @ ''/v1/check_transaction_by_short_hash''
              \<and> body q = short_hash_payload P p)
          \<and> (\<forall>shr sst. x = Inr shr \<and> resolvePaymentStatus P shr = Inr sst \<longrightarrow>
                checkPayment P e api payments reqBody now w
                = (if sst = ''completed'' \<or> sst = ''failed''
                   then (check_reply P e api pay shr sst ''short_hash''
                           (Some (getProviderSummary ''short_hash'' shr)),
                         record_check payments (get_prop reqBody ''md5'') pay sst shr
                           ''short_hash'' now,
                         w2)
                   else (check_reply P e api pay result0 st0 ''md5''
                           (Some (getProviderSummary ''short_hash'' shr)),
                         record_check payments (get_prop reqBody ''md5'') pay st0 result0 ''md5'' now,
                         w2)))
          \<and> (\<forall>shr ex. x = Inr shr \<and> resolvePaymentStatus P shr = Inl ex \<longrightarrow>
                checkPayment P e api payments reqBody now w = (Caught ex, payments, w2)))
    \<and> (\<forall>result st by fb b.
          check_reply P e api pay result st by fb = Ok200 b
          \<longrightarrow> res_checkedBy b = by \<and> res_status b = st)"
proof -
  have run: "checkPayment P e api payments reqBody now w
         = check_with_provider P e api payments (get_prop reqBody ''md5'') pay now w"
    using assms(1-4) by (rule checkPayment_provider)
  have primary_sent: "\<forall>q \<in> set (drop (length (sent w)) (sent w1)).
        url q = baseUrl api @ ''/v1/check_transaction_by_md5''"
  proof -
    have "\<exists>new. sent (snd (checkTransactionByMD5 P api (get_prop reqBody ''md5'') w)) = sent w @ new
       \<and> (\<forall>q \<in> set new. url q = baseUrl api @ ''/v1/check_transaction_by_md5''
                          \<and> body q = JObj [(''md5'', get_prop reqBody ''md5'')])"
      unfolding checkTransactionByMD5_def by (rule postWithRetry_sent_new)
    then have "\<exists>new. sent w1 = sent w @ new
       \<and> (\<forall>q \<in> set new. url q = baseUrl api @ ''/v1/check_transaction_by_md5'')"
      using assms(5) by auto
    then show ?thesis by (rule sent_new_drop)
  qed
  have not_due: "checkPayment P e api payments reqBody now w
         = (check_reply P e api pay result0 st0 ''md5'' None,
            record_check payments (get_prop reqBody ''md5'') pay st0 result0 ''md5'' now,
            w1)"
    if "\<not> fallback_due e pay st0"
    unfolding run check_with_provider_def
    using that assms(5,6) by (simp add: short_hash_fallback_not_due)
  have due_sent: "\<forall>q \<in> set (drop (length (sent w1)) (sent w2)).
              url q = baseUrl api @ ''/v1/check_transaction_by_short_hash''
              \<and> body q = short_hash_payload P p"
    if "checkTransactionByShortHash P api (JStr (take 8 (sha256_hex P (qrString p))))
               (JNum (amount p)) (JStr (currency p)) w1 = (x, w2)" for p x w2
  proof -
    have "\<exists>new. sent (snd (checkTransactionByShortHash P api (JStr (take 8 (sha256_hex P (qrString p))))
               (JNum (amount p)) (JStr (currency p)) w1)) = sent w1 @ new
       \<and> (\<forall>q \<in> set new. url q = baseUrl api @ ''/v1/check_transaction_by_short_hash''
                          \<and> body q = short_hash_payload P p)"
      unfolding checkTransactionByShortHash_def short_hash_payload_def
      by (rule postWithRetry_sent_new)
    then have "\<exists>new. sent w2 = sent w1 @ new
       \<and> (\<forall>q \<in> set new. url q = baseUrl api @ ''/v1/check_transaction_by_short_hash''
                          \<and> body q = short_hash_payload P p)"
      using that by simp
    then show ?thesis by (rule sent_new_drop)
  qed
  have fb: "short_hash_fallback P e api (Some p) result0 st0 w1 =
     (case resolvePaymentStatus P shr of
        Inl ex \<Rightarrow> (Inl ex, w2)
      | Inr sst \<Rightarrow>
          if sst = ''completed'' \<or> sst = ''failed''
          then (Inr (shr, sst, ''short_hash'', Some (getProviderSummary ''short_hash'' shr)), w2)
          else (Inr (result0, st0, ''md5'', Some (getProviderSummary ''short_hash'' shr)), w2))"
    if "fallback_due e pay st0" "pay = Some p"
      "checkTransactionByShortHash P api (JStr (take 8 (sha256_hex P (qrString p))))
               (JNum (amount p)) (JStr (currency p)) w1 = (Inr shr, w2)" for p shr w2
    using that by (intro short_hash_fallback_due) simp_all
  have due: "checkPayment P e api payments reqBody now w
                = (if sst = ''completed'' \<or> sst = ''failed''
                   then (check_reply P e api pay shr sst ''short_hash''
                           (Some (getProviderSummary ''short_hash'' shr)),
                         record_check payments (get_prop reqBody ''md5'') pay sst shr
                           ''short_hash'' now,
                         w2)
                   else (check_reply P e api pay result0 st0 ''md5''
                           (Some (getProviderSummary ''short_hash'' shr)),
                         record_check payments (get_prop reqBody ''md5'') pay st0 result0 ''md5'' now,
                         w2))"
    if "fallback_due e pay st0" "pay = Some p"
      "checkTransactionByShortHash P api (JStr (take 8 (sha256_hex P (qrString p))))
               (JNum (amount p)) (JStr (currency p)) w1 = (Inr shr, w2)"
      "resolvePaymentStatus P shr = Inr sst" for p shr w2 sst
    unfolding run check_with_provider_def
    using fb [OF that(1-3)] that(2,4) assms(5,6) by simp
  have due_throws: "checkPayment P e api payments reqBody now w = (Caught ex, payments, w2)"
    if "fallback_due e pay st0" "pay = Some p"
      "checkTransactionByShortHash P api (JStr (take 8 (sha256_hex P (qrString p))))
               (JNum (amount p)) (JStr (currency p)) w1 = (Inr shr, w2)"
      "resolvePaymentStatus P shr = Inl ex" for p shr w2 ex
    unfolding run check_with_provider_def
    using fb [OF that(1-3)] that(2,4) assms(5,6) by simp
  have third: "(\<forall>q \<in> set (drop (length (sent w1)) (sent w2)).
              url q = baseUrl api @ ''/v1/check_transaction_by_short_hash''
              \<and> body q = short_hash_payload P p)
          \<and> (\<forall>shr sst. x = Inr shr \<and> resolvePaymentStatus P shr = Inr sst \<longrightarrow>
                checkPayment P e api payments reqBody now w
                = (if sst = ''completed'' \<or> sst = ''failed''
                   then (check_reply P e api pay shr sst ''short_hash''
                           (Some (getProviderSummary ''short_hash'' shr)),
                         record_check payments (get_prop reqBody ''md5'') pay sst shr
                           ''short_hash'' now,
                         w2)
                   else (check_reply P e api pay result0 st0 ''md5''
                           (Some (getProviderSummary ''short_hash'' shr)),
                         record_check payments (get_prop reqBody ''md5'') pay st0 result0 ''md5'' now,
                         w2)))
          \<and> (\<forall>shr ex. x = Inr shr \<and> resolvePaymentStatus P shr = Inl ex \<longrightarrow>
                checkPayment P e api payments reqBody now w = (Caught ex, payments, w2))"
    if h: "fallback_due e pay st0 \<and> pay = Some p
          \<and> checkTransactionByShortHash P api (JStr (take 8 (sha256_hex P (qrString p))))
               (JNum (amount p)) (JStr (currency p)) w1 = (x, w2)" for p x w2
  proof (intro conjI allI impI)
    show "\<forall>q \<in> set (drop (length (sent w1)) (sent w2)).
              url q = baseUrl api @ ''/v1/check_transaction_by_short_hash''
              \<and> body q = short_hash_payload P p"
      using h due_sent by blast
  next
    fix shr sst
    assume hx: "x = Inr shr \<and> resolvePaymentStatus P shr = Inr sst"
    have h1: "fallback_due e pay st0" and h2: "pay = Some p"
      and h3: "checkTransactionByShortHash P api (JStr (take 8 (sha256_hex P (qrString p))))
               (JNum (amount p)) (JStr (currency p)) w1 = (Inr shr, w2)"
      using h hx by blast+
    show "checkPayment P e api payments reqBody now w
                = (if sst = ''completed'' \<or> sst = ''failed''
                   then (check_reply P e api pay shr sst ''short_hash''
                           (Some (getProviderSummary ''short_hash'' shr)),
                         record_check payments (get_prop reqBody ''md5'') pay sst shr
                           ''short_hash'' now,
                         w2)
                   else (check_reply P e api pay result0 st0 ''md5''
                           (Some (getProviderSummary ''short_hash'' shr)),
                         record_check payments (get_prop reqBody ''md5'') pay st0 result0 ''md5'' now,
                         w2))"
      using hx due [OF h1 h2 h3] by blast
  next
    fix shr ex
    assume hx: "x = Inr shr \<and> resolvePaymentStatus P shr = Inl ex"
    have h1: "fallback_due e pay st0" and h2: "pay = Some p"
      and h3: "checkTransactionByShortHash P api (JStr (take 8 (sha256_hex P (qrString p))))
               (JNum (amount p)) (JStr (currency p)) w1 = (Inr shr, w2)"
      using h hx by blast+
    show "checkPayment P e api payments reqBody now w = (Caught ex, payments, w2)"
      using hx due_throws [OF h1 h2 h3] by blast
  qed
  show ?thesis
  proof (intro conjI)
    show "\<forall>q \<in> set (drop (length (sent w)) (sent w1)).
        url q = baseUrl api @ ''/v1/check_transaction_by_md5''"
      by (rule primary_sent)
  next
    show "\<not> fallback_due e pay st0 \<longrightarrow>
         checkPayment P e api payments reqBody now w
         = (check_reply P e api pay result0 st0 ''md5'' None,
            record_check payments (get_prop reqBody ''md5'') pay st0 result0 ''md5'' now,
            w1)"
      using not_due by blast
  next
    show "\<forall>result st by fb b.
          check_reply P e api pay result st by fb = Ok200 b
          \<longrightarrow> res_checkedBy b = by \<and> res_status b = st"
      using check_reply_fields by blast
  qed (use third in blast)
qed

lemma example_fallback_primary:
  "checkTransactionByMD5 example_platform example_api (JStr ''md5:qr-usd'') fallback_world
   = (Inr pending_doc, fallback_world\<lparr>sent := [example_md5_request]\<rparr>)"
  unfolding checkTransactionByMD5_def example_md5_request_def
  by (subst postWithRetry_answered [where st = 200 and doc = pending_doc])
     (simp_all add: example_api_def token_missing_def fallback_world_def isRetryable_def
        pending_doc_def to_number_def)

lemma example_fallback_lookup:
  "checkTransactionByShortHash example_platform example_api
     (JStr (take 8 (sha256_hex example_platform (qrString example_payment))))
     (JNum (amount example_payment)) (JStr (currency example_payment))
     (fallback_world\<lparr>sent := [example_md5_request]\<rparr>)
   = (Inr success_doc, fallback_world\<lparr>sent := [example_md5_request, example_short_hash_request]\<rparr>)"
  unfolding checkTransactionByShortHash_def example_short_hash_request_def short_hash_payload_def
  by (subst postWithRetry_answered [where st = 200 and doc = success_doc])
     (simp_all add: example_api_def token_missing_def fallback_world_def isRetryable_def
        success_doc_def to_number_def)

lemma example_statuses:
  "resolvePaymentStatus example_platform pending_doc = Inr ''pending''"
  "resolvePaymentStatus example_platform success_doc = Inr ''completed''"
  by (simp_all add: resolvePaymentStatus_def pending_doc_def success_doc_def to_number_def)

theorem short_hash_fallback_rule_witness:
  "(\<exists>b. fst (checkPayment example_platform example_env example_api example_ledger
               example_check_body 2000 fallback_world) = Ok200 b
        \<and> res_checkedBy b = ''short_hash'' \<and> res_status b = ''completed'')
   \<and> sent (snd (snd (checkPayment example_platform example_env example_api example_ledger
               example_check_body 2000 fallback_world)))
       = [example_md5_request, example_short_hash_request]"
proof -
  have a: "\<not> nullish example_check_body" "truthy (get_prop example_check_body ''md5'')"
    "Some example_payment = payments_get example_ledger (get_prop example_check_body ''md5'')"
    "case Some example_payment of None \<Rightarrow> True | Some p \<Rightarrow> manualSettledAt p = None"
    by (simp_all add: example_check_body_def nullish_def payments_get_def example_ledger_def
        example_payment_def)
  have prim: "checkTransactionByMD5 example_platform example_api (get_prop example_check_body ''md5'')
      fallback_world = (Inr pending_doc, fallback_world\<lparr>sent := [example_md5_request]\<rparr>)"
    using example_fallback_primary by (simp add: example_check_body_def)
  have due: "fallback_due example_env (Some example_payment) ''pending''"
    by (simp add: fallback_due_def example_env_def example_payment_def env_val_def)
  have run: "checkPayment example_platform example_env example_api example_ledger
               example_check_body 2000 fallback_world
     = (check_reply example_platform example_env example_api (Some example_payment) success_doc
          ''completed'' ''short_hash'' (Some (getProviderSummary ''short_hash'' success_doc)),
        record_check example_ledger (get_prop example_check_body ''md5'') (Some example_payment)
          ''completed'' success_doc ''short_hash'' 2000,
        fallback_world\<lparr>sent := [example_md5_request, example_short_hash_request]\<rparr>)"
    using short_hash_fallback_rule [OF a prim example_statuses(1),
        of example_env 2000] due example_fallback_lookup
    by (simp add: example_statuses(2))
  have "\<exists>b. check_reply example_platform example_env example_api (Some example_payment) success_doc
          ''completed'' ''short_hash'' (Some (getProviderSummary ''short_hash'' success_doc)) = Ok200 b
        \<and> res_checkedBy b = ''short_hash'' \<and> res_status b = ''completed''"
    by (simp add: check_reply_def nullish_def success_doc_def check_warning_def
        isUsingDevEnvironment_def example_api_def)
  then show ?thesis unfolding run by simp
qed

subsection \<open>The key of an entry\<close>

lemma check_touch_frame: "check_touch p p' \<Longrightarrow> qrString p' = qrString p \<and> md5 p' = md5 p"
  by (auto simp: check_touch_def)

lemma keyed_update:
  assumes "keyed_by_md5 P payments" "payments k = Some p"
    and "qrString p' = qrString p" "md5 p' = md5 p"
  shows "keyed_by_md5 P (payments(k \<mapsto> p'))"
  using assms unfolding keyed_by_md5_def by auto

lemma in_place_update:
  assumes "payments k = Some p" "qrString p' = qrString p" "md5 p' = md5 p"
  shows "updated_in_place payments (payments(k \<mapsto> p'))"
  using assms unfolding updated_in_place_def by (auto split: if_splits)

lemma in_place_refl: "updated_in_place payments payments"
  unfolding updated_in_place_def by auto

lemma checkPayment_in_place:
  assumes "checkPayment P e api payments reqBody now w = (reply, payments', w')"
  shows "updated_in_place payments payments'
       \<and> (keyed_by_md5 P0 payments \<longrightarrow> keyed_by_md5 P0 payments')"
proof -
  consider "payments' = payments"
    | k p p' where "payments k = Some p" "payments' = payments(k \<mapsto> p')" "check_touch p p'"
    using checkPayment_ledger [OF assms] by blast
  then show ?thesis
  proof cases
    case 1
    then show ?thesis by (simp add: in_place_refl)
  next
    case 2
    then show ?thesis
      using check_touch_frame [OF 2(3)] in_place_update [of payments k p p']
        keyed_update [of P0 payments k p p']
      by simp
  qed
qed

lemma markPaid_in_place:
  assumes "markPaid P e payments reqBody isoNow msNow = (reply, payments')"
  shows "updated_in_place payments payments'
       \<and> (keyed_by_md5 P0 payments \<longrightarrow> keyed_by_md5 P0 payments')"
proof (cases "isDemoManualSettleEnabled P e
             \<and> (\<exists>k p. get_prop reqBody ''md5'' = JStr k \<and> k \<noteq> [] \<and> payments k = Some p)")
  case False
  then show ?thesis using markPaid_refused [OF False, of isoNow msNow] assms
    by (simp add: in_place_refl)
next
  case True
  then obtain k p where k: "get_prop reqBody ''md5'' = JStr k" "k \<noteq> []" "payments k = Some p"
    and on: "isDemoManualSettleEnabled P e" by blast
  show ?thesis
    using assms
    unfolding markPaid_success [of P e reqBody k payments p isoNow msNow, OF on k]
    using k(3) in_place_update [of payments k p] keyed_update [of P0 payments k p]
    by auto
qed

lemma backgroundDeeplink_in_place:
  assumes "backgroundDeeplink P api payments key qr sourceInfo w = (payments', w')"
  shows "updated_in_place payments payments'
       \<and> (keyed_by_md5 P0 payments \<longrightarrow> keyed_by_md5 P0 payments')"
proof -
  consider "payments' = payments"
    | p link where "payments key = Some p" "payments' = payments(key \<mapsto> p\<lparr>deeplinkUrl := link\<rparr>)"
    using backgroundDeeplink_ledger [OF assms] by blast
  then show ?thesis
  proof cases
    case 1
    then show ?thesis by (simp add: in_place_refl)
  next
    case 2
    then show ?thesis
      using in_place_update [of payments key p "p\<lparr>deeplinkUrl := link\<rparr>"]
        keyed_update [of P0 payments key p "p\<lparr>deeplinkUrl := link\<rparr>"] by simp
  qed
qed

lemma generateKHQR_keyed:
  assumes "generateKHQR P L e api payments reqBody protocol host tBill tExpiry tCreated w
           = (reply, payments', w', task)"
    and "keyed_by_md5 P payments"
  shows "keyed_by_md5 P payments'"
proof -
  have "payments k = Some info \<or> (k = generateMD5 P (qrString info) \<and> md5 info = k)"
    if "payments' k = Some info" for k info
    using generateKHQR_entry [of P L e api payments reqBody protocol host tBill tExpiry tCreated w]
      assms(1) that by auto
  then show ?thesis using assms(2) unfolding keyed_by_md5_def by blast
qed

lemma reachable_keyed: "reachable P L payments \<Longrightarrow> keyed_by_md5 P payments"
proof (induction rule: reachable.induct)
  case start
  then show ?case by (simp add: keyed_by_md5_def)
next
  case (generate payments e api reqBody protocol host tBill tExpiry tCreated w reply payments' w' task)
  then show ?case using generateKHQR_keyed by blast
next
  case (deeplink payments api key qr sourceInfo w payments' w')
  then show ?case using backgroundDeeplink_in_place by blast
next
  case (check payments e api reqBody now w reply payments' w')
  then show ?case using checkPayment_in_place by blast
next
  case (settle payments e reqBody isoNow msNow reply payments')
  then show ?case using markPaid_in_place by blast
qed

text \<open>
  C6. In every ledger the server can reach, each entry's key is
  \<open>generateMD5\<close> of the record's \<open>qrString\<close> (and equals its \<open>md5\<close> field). Each later
  update of a record, by the deeplink completion, a status check or a manual settle,
  is in place: it keeps the keys of the ledger and the QR string of every record, so
  the record is stored back under that same key.
\<close>

theorem payments_keyed_by_md5:
  "(reachable P L payments \<and> payments k = Some p
      \<longrightarrow> k = generateMD5 P (qrString p) \<and> md5 p = k)
   \<and> (backgroundDeeplink P api payments key qr sourceInfo w = (payments1, w1)
      \<longrightarrow> updated_in_place payments payments1)
   \<and> (checkPayment P e api payments reqBody now w = (reply2, payments2, w2)
      \<longrightarrow> updated_in_place payments payments2)
   \<and> (markPaid P e payments reqBody3 isoNow msNow = (reply3, payments3)
      \<longrightarrow> updated_in_place payments payments3)"
proof (intro conjI impI)
  assume "reachable P L payments \<and> payments k = Some p"
  then show "k = generateMD5 P (qrString p)" "md5 p = k"
    using reachable_keyed [of P L payments] unfolding keyed_by_md5_def by blast+
next
  assume "backgroundDeeplink P api payments key qr sourceInfo w = (payments1, w1)"
  then show "updated_in_place payments payments1" using backgroundDeeplink_in_place by blast
next
  assume "checkPayment P e api payments reqBody now w = (reply2, payments2, w2)"
  then show "updated_in_place payments payments2" using checkPayment_in_place by blast
next
  assume "markPaid P e payments reqBody3 isoNow msNow = (reply3, payments3)"
  then show "updated_in_place payments payments3" using markPaid_in_place by blast
qed

theorem payments_keyed_by_md5_witness:
  "reachable example_platform example_libraries example_ledger
   \<and> example_ledger ''md5:qr-usd'' = Some example_payment
   \<and> ''md5:qr-usd'' = generateMD5 example_platform (qrString example_payment)
   \<and> md5 example_payment = ''md5:qr-usd''"
proof -
  let ?run = "generateKHQR example_platform example_libraries example_env example_api Map.empty
     example_generate_body ''https'' ''shop.example'' 999 1000 1000 example_world"
  have "?run = (fst ?run, example_ledger, fst (snd (snd ?run)), snd (snd (snd ?run)))"
    using example_generate by (metis prod.collapse)
  then have r: "reachable example_platform example_libraries example_ledger"
    using reachable.generate [OF reachable.start] by blast
  have here: "example_ledger ''md5:qr-usd'' = Some example_payment"
    by (simp add: example_ledger_def)
  show ?thesis
    using payments_keyed_by_md5
      [of example_platform example_libraries example_ledger "''md5:qr-usd''" example_payment]
      r here
    by simp
qed

end
